theory Spec2Isabelle
  imports Main "HOL-Library.Word"
begin

unbundle bit_operations_syntax

section \<open>Strings, numerals and bytes\<close>

text \<open>
  Go strings are byte sequences; they are modelled as \<open>string\<close> (a list of \<open>char\<close>, one
  \<open>char\<close> per byte).  The functions of this section model the pieces of Go's standard
  library that the probe calls: \<open>fmt.Sprintf("%d", n)\<close>, \<open>strconv.ParseUint\<close>,
  \<open>strconv.ParseInt\<close>, \<open>strconv.Atoi\<close>, \<open>encoding/hex.DecodeString\<close>,
  \<open>strings.Split\<close>, \<open>strings.Fields\<close>, \<open>strings.Index\<close>, the decoding of UTF-8 and
  \<open>net.IP.String\<close>.
\<close>

type_synonym byte = "8 word"

definition byte_of :: "char \<Rightarrow> nat" where
  "byte_of c = of_char c"

text \<open>The digit table of \<open>strconv\<close>: \<open>"0123456789abcdefghijklmnopqrstuvwxyz"\<close>.\<close>

definition digit_char :: "nat \<Rightarrow> char" where
  "digit_char d = ''0123456789abcdef'' ! d"

text \<open>\<open>fmt.Sprintf("%d", n)\<close> for a non-negative integer \<open>n\<close>.\<close>

fun itoa :: "nat \<Rightarrow> string" where
  "itoa n = (if n < 10 then [digit_char n] else itoa (n div 10) @ [digit_char (n mod 10)])"

declare itoa.simps [simp del]

text \<open>Lower-case hexadecimal without leading zeros (\<open>appendHex\<close> of package \<open>net\<close>).\<close>

fun hex_of_nat :: "nat \<Rightarrow> string" where
  "hex_of_nat n = (if n < 16 then [digit_char n] else hex_of_nat (n div 16) @ [digit_char (n mod 16)])"

declare hex_of_nat.simps [simp del]

text \<open>\<open>lower(c) = c | ('x' - 'X')\<close> of \<open>strconv\<close>, on the byte value.\<close>

definition lower :: "nat \<Rightarrow> nat" where
  "lower b = (if (b div 32) mod 2 = 1 then b else b + 32)"

text \<open>
  The digit value \<open>strconv.ParseUint\<close> gives a byte: \<open>'0'..'9'\<close> are 0 to 9, a letter of
  either case is 10 to 35, anything else is a syntax error (\<open>None\<close>).
\<close>

definition digit_val :: "char \<Rightarrow> nat option" where
  "digit_val c =
     (let b = byte_of c in
      if 48 \<le> b \<and> b \<le> 57 then Some (b - 48)
      else if 97 \<le> lower b \<and> lower b \<le> 122 then Some (lower b - 97 + 10)
      else None)"

datatype num_error = ErrSyntax | ErrRange

text \<open>
  The digit loop of \<open>strconv.ParseUint\<close>: \<open>base0\<close> says that underscores are let through,
  \<open>maxVal\<close> is \<open>2 ^ bitSize - 1\<close>; the loop returns the value and the error, as Go does
  (\<open>0\<close> with a syntax error, \<open>maxVal\<close> with a range error).
\<close>

fun parse_digits :: "nat \<Rightarrow> bool \<Rightarrow> nat \<Rightarrow> nat \<Rightarrow> string \<Rightarrow> nat \<times> num_error option" where
  "parse_digits base base0 maxVal n [] = (n, None)"
| "parse_digits base base0 maxVal n (c # cs) =
     (if c = CHR ''_'' \<and> base0 then parse_digits base base0 maxVal n cs
      else case digit_val c of
        None \<Rightarrow> (0, Some ErrSyntax)
      | Some d \<Rightarrow>
          if d \<ge> base then (0, Some ErrSyntax)
          else if n \<ge> (2 ^ 64 - 1) div base + 1 then (maxVal, Some ErrRange)
          else if n * base + d > maxVal then (maxVal, Some ErrRange)
          else parse_digits base base0 maxVal (n * base + d) cs)"

text \<open>
  \<open>underscoreOK\<close> of \<open>strconv\<close>, after the optional sign and the base prefix have been
  read: \<open>saw\<close> is the kind of the previous character (\<open>CHR ''0''\<close> a digit or the base
  prefix, \<open>CHR ''_''\<close> an underscore, \<open>CHR ''!''\<close> anything else, \<open>CHR ''^''\<close> the start).
\<close>

fun underscore_scan :: "bool \<Rightarrow> char \<Rightarrow> string \<Rightarrow> bool" where
  "underscore_scan hex saw [] = (saw \<noteq> CHR ''_'')"
| "underscore_scan hex saw (c # cs) =
     (let b = byte_of c in
      if (48 \<le> b \<and> b \<le> 57) \<or> (hex \<and> 97 \<le> lower b \<and> lower b \<le> 102)
      then underscore_scan hex (CHR ''0'') cs
      else if c = CHR ''_'' then (if saw \<noteq> CHR ''0'' then False else underscore_scan hex (CHR ''_'') cs)
      else if saw = CHR ''_'' then False
      else underscore_scan hex (CHR ''!'') cs)"

definition underscoreOK :: "string \<Rightarrow> bool" where
  "underscoreOK s =
     (let s1 = (case s of c # cs \<Rightarrow> if c = CHR ''-'' \<or> c = CHR ''+'' then cs else s | [] \<Rightarrow> s)
      in case s1 of
           c0 # c1 # rest \<Rightarrow>
             if c0 = CHR ''0'' \<and> lower (byte_of c1) \<in> {98, 111, 120}
             then underscore_scan (lower (byte_of c1) = 120) (CHR ''0'') rest
             else underscore_scan False (CHR ''^'') s1
         | _ \<Rightarrow> underscore_scan False (CHR ''^'') s1)"

text \<open>
  \<open>strconv.ParseUint(s, base, bitSize)\<close> for \<open>base\<close> 0, 10 or 16: with base 0 the prefix
  chooses the base (\<open>0b\<close>, \<open>0o\<close>, \<open>0x\<close>, a leading \<open>0\<close> for octal) and underscores may
  separate digits.
\<close>

definition ParseUint :: "string \<Rightarrow> nat \<Rightarrow> nat \<Rightarrow> nat \<times> num_error option" where
  "ParseUint s base bitSize =
     (if s = [] then (0, Some ErrSyntax)
      else
        let maxVal = 2 ^ bitSize - 1;
            base0 = (base = 0);
            (b, ds) =
              (if base = 0 then
                 (if hd s = CHR ''0'' then
                    (if length s \<ge> 3 \<and> lower (byte_of (s ! 1)) = 98 then (2, drop 2 s)
                     else if length s \<ge> 3 \<and> lower (byte_of (s ! 1)) = 111 then (8, drop 2 s)
                     else if length s \<ge> 3 \<and> lower (byte_of (s ! 1)) = 120 then (16, drop 2 s)
                     else (8, drop 1 s))
                  else (10, s))
               else (base, s));
            (n, err) = parse_digits b base0 maxVal 0 ds
        in case err of
             Some e \<Rightarrow> (n, Some e)
           | None \<Rightarrow>
               if base0 \<and> CHR ''_'' \<in> set ds \<and> \<not> underscoreOK s then (0, Some ErrSyntax)
               else (n, None))"

text \<open>
  \<open>strconv.ParseInt(s, base, 64)\<close>: an optional sign, then \<open>ParseUint\<close>; a magnitude
  outside the signed 64-bit range is a range error.
\<close>

definition ParseInt64 :: "string \<Rightarrow> nat \<Rightarrow> num_error + int" where
  "ParseInt64 s base =
     (if s = [] then Inl ErrSyntax
      else
        let neg = (hd s = CHR ''-'');
            s1 = (if hd s = CHR ''+'' \<or> hd s = CHR ''-'' then tl s else s)
        in case ParseUint s1 base 64 of
             (un, Some ErrSyntax) \<Rightarrow> Inl ErrSyntax
           | (un, _) \<Rightarrow>
               if \<not> neg \<and> un \<ge> 2 ^ 63 then Inl ErrRange
               else if neg \<and> un > 2 ^ 63 then Inl ErrRange
               else Inr (if neg then - int un else int un))"

text \<open>\<open>strconv.Atoi\<close> on a 64-bit platform: \<open>ParseInt(s, 10, 0)\<close>.\<close>

definition Atoi :: "string \<Rightarrow> num_error + int" where
  "Atoi s = ParseInt64 s 10"

text \<open>\<open>fromHexChar\<close> and \<open>hex.DecodeString\<close>: the decoded bytes, or \<open>None\<close> on an error.\<close>

definition fromHexChar :: "char \<Rightarrow> nat option" where
  "fromHexChar c =
     (let b = byte_of c in
      if 48 \<le> b \<and> b \<le> 57 then Some (b - 48)
      else if 97 \<le> b \<and> b \<le> 102 then Some (b - 97 + 10)
      else if 65 \<le> b \<and> b \<le> 70 then Some (b - 65 + 10)
      else None)"

fun hex_DecodeString :: "string \<Rightarrow> byte list option" where
  "hex_DecodeString [] = Some []"
| "hex_DecodeString [c] = None"
| "hex_DecodeString (c1 # c2 # cs) =
     (case fromHexChar c1 of
        None \<Rightarrow> None
      | Some a \<Rightarrow>
          (case fromHexChar c2 of
             None \<Rightarrow> None
           | Some b \<Rightarrow>
               (case hex_DecodeString cs of
                  None \<Rightarrow> None
                | Some bs \<Rightarrow> Some (word_of_nat (16 * a + b) # bs))))"

text \<open>\<open>strings.Split(s, sep)\<close> for a separator of one byte.\<close>

fun split_acc :: "char \<Rightarrow> string \<Rightarrow> string \<Rightarrow> string list" where
  "split_acc sep cur [] = [cur]"
| "split_acc sep cur (c # cs) =
     (if c = sep then cur # split_acc sep [] cs else split_acc sep (cur @ [c]) cs)"

definition Split :: "string \<Rightarrow> char \<Rightarrow> string list" where
  "Split s sep = split_acc sep [] s"

subsection \<open>UTF-8 and white space\<close>

text \<open>
  \<open>utf8.DecodeRune\<close>: the rune at the head of a byte string and the number of bytes it
  takes.  A byte that begins no valid encoding (a continuation byte, \<open>0xC0\<close>, \<open>0xC1\<close>,
  \<open>0xF5\<close> and above), an encoding cut short and an encoding whose second byte is outside
  the range its first byte accepts are \<open>utf8.RuneError\<close> of width 1.
\<close>

definition RuneError :: nat where
  "RuneError = 65533"

fun DecodeRune :: "string \<Rightarrow> nat \<times> nat" where
  "DecodeRune [] = (RuneError, 0)"
| "DecodeRune (c # cs) =
     (let p0 = byte_of c in
      if p0 < 128 then (p0, 1)
      else if p0 < 194 \<or> 244 < p0 then (RuneError, 1)
      else
        let sz = (if p0 < 224 then 2 else if p0 < 240 then 3 else 4 :: nat);
            lo = (if p0 = 224 then 160 else if p0 = 240 then 144 else 128 :: nat);
            hi = (if p0 = 237 then 159 else if p0 = 244 then 143 else 191 :: nat)
        in if Suc (length cs) < sz then (RuneError, 1)
           else
             (case map byte_of (take 3 cs) of
                [b1] \<Rightarrow>
                  if b1 < lo \<or> hi < b1 then (RuneError, 1)
                  else ((p0 mod 32) * 64 + b1 mod 64, 2)
              | [b1, b2] \<Rightarrow>
                  if b1 < lo \<or> hi < b1 then (RuneError, 1)
                  else if sz = 2 then ((p0 mod 32) * 64 + b1 mod 64, 2)
                  else if b2 < 128 \<or> 191 < b2 then (RuneError, 1)
                  else ((p0 mod 16) * 4096 + (b1 mod 64) * 64 + b2 mod 64, 3)
              | [b1, b2, b3] \<Rightarrow>
                  if b1 < lo \<or> hi < b1 then (RuneError, 1)
                  else if sz = 2 then ((p0 mod 32) * 64 + b1 mod 64, 2)
                  else if b2 < 128 \<or> 191 < b2 then (RuneError, 1)
                  else if sz = 3 then ((p0 mod 16) * 4096 + (b1 mod 64) * 64 + b2 mod 64, 3)
                  else if b3 < 128 \<or> 191 < b3 then (RuneError, 1)
                  else ((p0 mod 8) * 262144 + (b1 mod 64) * 4096 + (b2 mod 64) * 64 + b3 mod 64, 4)
              | _ \<Rightarrow> (RuneError, 1)))"

declare DecodeRune.simps [simp del]

text \<open>
  \<open>utf8.AppendRune\<close>: the encoding of a rune; a surrogate or a value above
  \<open>utf8.MaxRune\<close> is encoded as \<open>utf8.RuneError\<close>.
\<close>

definition EncodeRune :: "nat \<Rightarrow> string" where
  "EncodeRune r =
     (if r \<le> 127 then [char_of r]
      else if r \<le> 2047 then [char_of (192 + r div 64), char_of (128 + r mod 64)]
      else
        let r1 = (if 1114111 < r \<or> (55296 \<le> r \<and> r \<le> 57343) then RuneError else r)
        in if r1 \<le> 65535
           then [char_of (224 + r1 div 4096), char_of (128 + (r1 div 64) mod 64), char_of (128 + r1 mod 64)]
           else [char_of (240 + r1 div 262144), char_of (128 + (r1 div 4096) mod 64),
                 char_of (128 + (r1 div 64) mod 64), char_of (128 + r1 mod 64)])"

text \<open>
  \<open>for i, r := range s\<close>: the runes of a string in order, each with the bytes it was
  decoded from (an invalid byte is \<open>utf8.RuneError\<close> with that one byte).
\<close>

fun range_string :: "string \<Rightarrow> (nat \<times> string) list" where
  "range_string [] = []"
| "range_string (c # cs) =
     (case DecodeRune (c # cs) of
        (r, n) \<Rightarrow> (r, c # take (n - 1) cs) # range_string (drop (n - 1) cs))"

declare range_string.simps(2) [simp del]

text \<open>
  \<open>unicode.IsSpace\<close>, which is also \<open>isSpace\<close> of package \<open>fmt\<close>: \<open>'\t'\<close>, \<open>'\n'\<close>,
  \<open>'\v'\<close>, \<open>'\f'\<close>, \<open>'\r'\<close>, \<open>' '\<close>, U+0085, U+00A0, U+1680, U+2000 to U+200A, U+2028,
  U+2029, U+202F, U+205F and U+3000.
\<close>

definition IsSpace :: "nat \<Rightarrow> bool" where
  "IsSpace r =
     ((9 \<le> r \<and> r \<le> 13) \<or> r = 32 \<or> r = 133 \<or> r = 160 \<or> r = 5760 \<or> (8192 \<le> r \<and> r \<le> 8202) \<or>
      r = 8232 \<or> r = 8233 \<or> r = 8239 \<or> r = 8287 \<or> r = 12288)"

text \<open>
  \<open>strings.Fields\<close>: the maximal runs of runes that are not white space, as the bytes
  of the string (on a string of ASCII bytes the fast path of the source gives the same
  fields).
\<close>

fun fields_acc :: "string \<Rightarrow> (nat \<times> string) list \<Rightarrow> string list" where
  "fields_acc cur [] = (if cur = [] then [] else [cur])"
| "fields_acc cur ((r, bs) # rs) =
     (if IsSpace r then (if cur = [] then fields_acc [] rs else cur # fields_acc [] rs)
      else fields_acc (cur @ bs) rs)"

definition Fields :: "string \<Rightarrow> string list" where
  "Fields s = fields_acc [] (range_string s)"

subsection \<open>Substrings\<close>

text \<open>\<open>strings.Index(s, sub) \<noteq> -1\<close>: \<open>sub\<close> occurs in \<open>s\<close>.\<close>

fun has_substring :: "string \<Rightarrow> string \<Rightarrow> bool" where
  "has_substring sub [] = (sub = [])"
| "has_substring sub (c # cs) = (take (length sub) (c # cs) = sub \<or> has_substring sub cs)"

subsection \<open>\<open>net.IP\<close>\<close>

type_synonym IP = "byte list"

definition dotted :: "byte \<Rightarrow> byte \<Rightarrow> byte \<Rightarrow> byte \<Rightarrow> string" where
  "dotted a b c d =
     itoa (unat a) @ ''.'' @ itoa (unat b) @ ''.'' @ itoa (unat c) @ ''.'' @ itoa (unat d)"

text \<open>
  \<open>IP.To4\<close>: a 4-byte address is itself, a 16-byte IPv4-mapped address
  (\<open>::ffff:a.b.c.d\<close>) is its last four bytes, anything else is \<open>nil\<close>.
\<close>

definition To4 :: "IP \<Rightarrow> IP option" where
  "To4 ip =
     (if length ip = 4 then Some ip
      else if length ip = 16 \<and> take 10 ip = replicate 10 0 \<and> ip ! 10 = 255 \<and> ip ! 11 = 255
      then Some (drop 12 ip)
      else None)"

text \<open>The eight 16-bit groups of a 16-byte address.\<close>

fun groups16 :: "byte list \<Rightarrow> nat list" where
  "groups16 (h # l # bs) = (256 * unat h + unat l) # groups16 bs"
| "groups16 _ = []"

text \<open>
  The longest run of zero groups, the first one among the longest: \<open>best\<close> is the start
  and the length found so far, \<open>i\<close> the index of the head of the list.
\<close>

fun longest_zero_run :: "nat \<Rightarrow> nat list \<Rightarrow> nat \<times> nat \<Rightarrow> nat \<times> nat" where
  "longest_zero_run i [] best = best"
| "longest_zero_run i (g # gs) best =
     (let n = length (takeWhile (\<lambda>x. x = 0) (g # gs))
      in longest_zero_run (Suc i) gs (if n > snd best then (i, n) else best))"

fun join_colon :: "string list \<Rightarrow> string" where
  "join_colon [] = []"
| "join_colon [x] = x"
| "join_colon (x # y # ys) = x @ '':'' @ join_colon (y # ys)"

text \<open>
  The IPv6 text form of \<open>IP.String\<close>: the groups in hexadecimal, with \<open>::\<close> in place of
  the longest run of at least two zero groups.
\<close>

definition ip6_string :: "byte list \<Rightarrow> string" where
  "ip6_string ip =
     (let gs = groups16 ip;
          (e0, n) = longest_zero_run 0 gs (0, 0)
      in if n \<le> 1 then join_colon (map hex_of_nat gs)
         else join_colon (map hex_of_nat (take e0 gs)) @ ''::'' @
              join_colon (map hex_of_nat (drop (e0 + n) gs)))"

definition hex2 :: "byte \<Rightarrow> string" where
  "hex2 b = [digit_char (unat b div 16), digit_char (unat b mod 16)]"

definition IP_String :: "IP \<Rightarrow> string" where
  "IP_String ip =
     (if ip = [] then ''<nil>''
      else case To4 ip of
        Some [a, b, c, d] \<Rightarrow> dotted a b c d
      | _ \<Rightarrow> if length ip \<noteq> 16 then ''?'' @ concat (map hex2 ip) else ip6_string ip)"

text \<open>\<open>net.IPv4(a, b, c, d)\<close>: the 16-byte IPv4-mapped form.\<close>

definition IPv4 :: "byte \<Rightarrow> byte \<Rightarrow> byte \<Rightarrow> byte \<Rightarrow> IP" where
  "IPv4 a b c d = replicate 10 0 @ [255, 255, a, b, c, d]"

section \<open>Errors\<close>

text \<open>
  Go errors as values.  \<open>Wrap\<close> is \<open>xerrors.Errorf("...: %w", err)\<close>, which keeps \<open>err\<close>
  in the chain that \<open>xerrors.As\<close> walks; \<open>Opaque\<close> is \<open>xerrors.Errorf("...: %v", err)\<close>,
  which keeps the text of \<open>err\<close> only; \<open>PathError\<close> is \<open>*os.PathError\<close> with a
  \<open>syscall.Errno\<close> inside, the error the functions of package \<open>os\<close> return.
\<close>

type_synonym Errno = nat

definition ENOENT :: Errno where "ENOENT = 2"
definition EACCES :: Errno where "EACCES = 13"

datatype error =
    NetlinkError string
  | PathError string string Errno
  | ErrorString string
  | Opaque string error
  | Wrap string error

text \<open>\<open>xerrors.As(err, &netlinkErr)\<close> with \<open>netlinkErr\<close> a \<open>*NetlinkError\<close>.\<close>

fun As_NetlinkError :: "error \<Rightarrow> bool" where
  "As_NetlinkError (NetlinkError msg) = True"
| "As_NetlinkError (Wrap msg e) = As_NetlinkError e"
| "As_NetlinkError _ = False"

section \<open>The host: kernel, \<open>/proc\<close> and resolver\<close>

text \<open>\<open>linux.TCPState\<close> (\<open>uint8\<close>) and the states the builder looks at.\<close>

type_synonym TCPState = "8 word"

definition TCP_ESTABLISHED :: TCPState where "TCP_ESTABLISHED = 1"
definition TCP_SYN_SENT :: TCPState where "TCP_SYN_SENT = 2"
definition TCP_SYN_RECV :: TCPState where "TCP_SYN_RECV = 3"
definition TCP_LISTEN :: TCPState where "TCP_LISTEN = 10"

text \<open>
  \<open>linux.InetDiagMsg\<close>, by what its accessors return: \<open>State\<close>, \<open>SrcIP()\<close>, \<open>DstIP()\<close>,
  \<open>SrcPort()\<close>, \<open>DstPort()\<close> (16-bit, read big-endian) and \<open>Inode\<close>.
\<close>

record InetDiagMsg =
  State :: TCPState
  SrcIP :: IP
  SrcPort :: "16 word"
  DstIP :: IP
  DstPort :: "16 word"
  Inode :: "32 word"

text \<open>An entry of \<open>ioutil.ReadDir\<close>: \<open>d.Name()\<close> and \<open>d.IsDir()\<close>.\<close>

record FileInfo =
  fi_Name :: string
  fi_IsDir :: bool

text \<open>
  What the probe reads of its host in one tick: the environment variable \<open>PROC_ROOT\<close>,
  its own process id, the file system, the reply of \<open>linux.NetlinkInetDiag\<close>, and the
  reverse resolver behind \<open>SetLookupedName\<close>.  A call to the file system gives its result
  or fails with an errno, which the caller receives inside an \<open>*os.PathError\<close> (so the type
  assertions \<open>err.(*os.PathError)\<close> and \<open>pathErr.Err.(syscall.Errno)\<close> of
  \<open>BuildUserEntries\<close> hold).  The answers are those the calls of one tick get: a process
  that exits during the walk is a directory that \<open>ReadDir\<close> lists and that a later call
  no longer finds.
\<close>

record world =
  PROC_ROOT :: string
  Getpid :: int
  ReadDir :: "string \<Rightarrow> Errno + FileInfo list"
  Stat :: "string \<Rightarrow> Errno + FileInfo"
  Readlink :: "string \<Rightarrow> Errno + string"
  ReadFile :: "string \<Rightarrow> Errno + string"
  NetlinkInetDiag :: "error + InetDiagMsg list"
  LookupAddr :: "string \<Rightarrow> string option"

section \<open>Package \<open>netutil\<close>\<close>

subsection \<open>Netlink connections\<close>

text \<open>
  \<open>NetlinkConnections\<close>: whatever the failure of \<open>NetlinkInetDiag\<close>, the error returned
  wraps a fresh \<open>&NetlinkError{}\<close>.
\<close>

definition NetlinkConnections :: "world \<Rightarrow> error + InetDiagMsg list" where
  "NetlinkConnections w =
     (case NetlinkInetDiag w of
        Inl err \<Rightarrow> Inl (Wrap ''NetlinkInetDiag'' (NetlinkError []))
      | Inr msgs \<Rightarrow> Inr msgs)"

fun NetlinkFilter_loop :: "InetDiagMsg list \<Rightarrow> InetDiagMsg list \<Rightarrow> InetDiagMsg list" where
  "NetlinkFilter_loop lconns [] = lconns"
| "NetlinkFilter_loop lconns (conn # conns) =
     (if State conn \<noteq> TCP_LISTEN then NetlinkFilter_loop lconns conns
      else
        let sip = IP_String (SrcIP conn)
        in if sip = ''0.0.0.0'' \<or> sip = ''127.0.0.1'' \<or> sip = ''::''
           then NetlinkFilter_loop (lconns @ [conn]) conns
           else NetlinkFilter_loop lconns conns)"

definition NetlinkFilterByLocalListeningPorts :: "InetDiagMsg list \<Rightarrow> error + InetDiagMsg list" where
  "NetlinkFilterByLocalListeningPorts conns = Inr (NetlinkFilter_loop [] conns)"

subsection \<open>Connections from \<open>/proc/net/tcp\<close>\<close>

definition tcpProcFilename :: string where
  "tcpProcFilename = ''/proc/net/tcp''"

record Addr =
  IP :: string
  Port32 :: "32 word"

record ConnectionStat =
  Laddr :: Addr
  Raddr :: Addr
  Status :: TCPState

text \<open>
  \<open>decodeAddress\<close>: the port is parsed by \<open>strconv.ParseInt("0x"+t[1], 0, 64)\<close> and cut to
  \<open>uint32\<close>, the address by \<open>hex.DecodeString\<close>, reversed, and printed by \<open>net.IP.String\<close>.
\<close>

definition decodeAddress :: "string \<Rightarrow> error + Addr" where
  "decodeAddress src =
     (let t = Split src (CHR '':'')
      in if length t \<noteq> 2 then Inl (ErrorString (''does not contain port, '' @ src))
         else
           let addr = t ! 0
           in case ParseInt64 (''0x'' @ t ! 1) 0 of
                Inl err \<Rightarrow> Inl (ErrorString (''invalid port, '' @ src))
              | Inr port \<Rightarrow>
                  (case hex_DecodeString addr of
                     None \<Rightarrow> Inl (ErrorString ''decode error'')
                   | Some decoded \<Rightarrow>
                       Inr \<lparr>IP = IP_String (rev decoded), Port32 = word_of_int port\<rparr>))"

text \<open>
  The body of the loop of \<open>ProcfsConnections\<close> for one line: \<open>None\<close> is \<open>continue\<close>.  A
  state field that \<open>strconv.ParseUint(l[3], 16, 8)\<close> rejects is logged only; the value
  \<open>ParseUint\<close> returns with its error (0, or 255 when out of range) is the status.
\<close>

definition parse_tcp_line :: "string \<Rightarrow> ConnectionStat option" where
  "parse_tcp_line line =
     (let l = Fields line
      in if length l < 10 then None
         else
           let laddr = l ! 1;
               raddr = l ! 2;
               status = fst (ParseUint (l ! 3) 16 8)
           in case decodeAddress laddr of
                Inl err \<Rightarrow> None
              | Inr la \<Rightarrow>
                  (case decodeAddress raddr of
                     Inl err \<Rightarrow> None
                   | Inr ra \<Rightarrow> Some \<lparr>Laddr = la, Raddr = ra, Status = word_of_nat status\<rparr>))"

definition newline :: char where
  "newline = CHR 0x0A"

definition ProcfsConnections :: "world \<Rightarrow> error + ConnectionStat list" where
  "ProcfsConnections w =
     (case ReadFile w tcpProcFilename of
        Inl errno \<Rightarrow> Inl (PathError ''open'' tcpProcFilename errno)
      | Inr body \<Rightarrow>
          let lines = Split body newline
          in Inr (List.map_filter parse_tcp_line (tl lines)))"

fun Filter_loop :: "string list \<Rightarrow> ConnectionStat list \<Rightarrow> string list" where
  "Filter_loop ports [] = ports"
| "Filter_loop ports (conn # conns) =
     (if Status conn \<noteq> TCP_LISTEN then Filter_loop ports conns
      else if IP (Laddr conn) = ''0.0.0.0'' \<or> IP (Laddr conn) = ''127.0.0.1'' \<or> IP (Laddr conn) = ''::''
      then Filter_loop (ports @ [itoa (unat (Port32 (Laddr conn)))]) conns
      else Filter_loop ports conns)"

definition FilterByLocalListeningPorts :: "ConnectionStat list \<Rightarrow> error + string list" where
  "FilterByLocalListeningPorts conns = Inr (Filter_loop [] conns)"

subsection \<open>Process attribution\<close>

record procStat =
  Pname :: string
  Ppid :: int
  Pgrp :: int

text \<open>\<open>fmt.Sprintf("%d", i)\<close> for a signed integer.\<close>

definition itoa_int :: "int \<Rightarrow> string" where
  "itoa_int i = (if i < 0 then ''-'' @ itoa (nat (- i)) else itoa (nat i))"

text \<open>\<open>strings.Join(elems, sep)\<close>.\<close>

fun join_sep :: "string \<Rightarrow> string list \<Rightarrow> string" where
  "join_sep sep [] = []"
| "join_sep sep [e] = e"
| "join_sep sep (e # es) = e @ sep @ join_sep sep es"

text \<open>
  \<open>filepath.Clean\<close> on Unix, over the elements of the path between slashes; \<open>out\<close> is
  the path written so far, last element first.  An empty element and \<open>.\<close> are dropped;
  \<open>..\<close> removes the last element written, is dropped at the root, and is kept where a
  path that is not rooted has nothing left to remove.
\<close>

fun clean_loop :: "bool \<Rightarrow> string list \<Rightarrow> string list \<Rightarrow> string list" where
  "clean_loop rooted out [] = out"
| "clean_loop rooted out (e # es) =
     (if e = [] \<or> e = ''.'' then clean_loop rooted out es
      else if e = ''..'' then
        (case out of
           [] \<Rightarrow> if rooted then clean_loop rooted [] es else clean_loop rooted [''..''] es
         | el # els \<Rightarrow>
             if el = ''..'' then clean_loop rooted (''..'' # out) es
             else clean_loop rooted els es)
      else clean_loop rooted (e # out) es)"

definition Clean :: "string \<Rightarrow> string" where
  "Clean path =
     (if path = [] then ''.''
      else
        let rooted = (hd path = CHR ''/'');
            out = join_sep ''/'' (rev (clean_loop rooted [] (Split path (CHR ''/''))))
        in if rooted then CHR ''/'' # out
           else if out = [] then ''.'' else out)"

text \<open>
  \<open>filepath.Join\<close> of two elements: empty elements are ignored, the others are joined by
  a slash and the result is cleaned; with no element left the result is empty.
\<close>

definition Join :: "string \<Rightarrow> string \<Rightarrow> string" where
  "Join dir name =
     (if dir = [] then (if name = [] then [] else Clean name)
      else Clean (dir @ ''/'' @ name))"

text \<open>\<open>strings.TrimRight(s, ")")\<close>.\<close>

definition TrimRight_paren :: "string \<Rightarrow> string" where
  "TrimRight_paren s = rev (dropWhile (\<lambda>c. c = CHR '')'') (rev s))"

text \<open>
  Package \<open>fmt\<close>, scanning.  The scanner reads its input rune by rune
  (\<open>readRune.ReadRune\<close> decodes UTF-8, an invalid byte is read as \<open>utf8.RuneError\<close>) and
  builds a token from the runes it accepts (\<open>utf8.AppendRune\<close>).  The state of a scan is
  the list of the runes not read yet.  \<open>io.EOF\<close> and \<open>io.ErrUnexpectedEOF\<close> are the
  error values of those names.  The scanner's limit of \<open>2 ^ 30\<close> runes for one call is
  not modelled.
\<close>

definition io_EOF :: error where
  "io_EOF = ErrorString ''EOF''"

definition io_ErrUnexpectedEOF :: error where
  "io_ErrUnexpectedEOF = ErrorString ''unexpected EOF''"

definition readRunes :: "string \<Rightarrow> nat list" where
  "readRunes s = map fst (range_string s)"

definition token_string :: "nat list \<Rightarrow> string" where
  "token_string rs = concat (map EncodeRune rs)"

text \<open>
  \<open>ss.SkipSpace\<close>: white space is read over; a newline is white space for \<open>Fscan\<close>
  (\<open>nlIsSpace\<close>) and an error for \<open>Sscanf\<close>.
\<close>

fun SkipSpace :: "bool \<Rightarrow> nat list \<Rightarrow> error + nat list" where
  "SkipSpace nlIsSpace [] = Inr []"
| "SkipSpace nlIsSpace (r # rs) =
     (if r = 10 then (if nlIsSpace then SkipSpace nlIsSpace rs else Inl (ErrorString ''unexpected newline''))
      else if IsSpace r then SkipSpace nlIsSpace rs
      else Inr (r # rs))"

text \<open>
  \<open>ss.convertString\<close> for the verbs \<open>%s\<close> and \<open>%v\<close>: white space is skipped, the input
  must not be at its end (\<open>notEOF\<close> gives \<open>io.EOF\<close>), and the token is the run of runes
  that are not white space.
\<close>

definition convertString :: "bool \<Rightarrow> nat list \<Rightarrow> error + string \<times> nat list" where
  "convertString nlIsSpace rs =
     (case SkipSpace nlIsSpace rs of
        Inl err \<Rightarrow> Inl err
      | Inr rs1 \<Rightarrow>
          if rs1 = [] then Inl io_EOF
          else Inr (token_string (takeWhile (\<lambda>r. \<not> IsSpace r) rs1), dropWhile (\<lambda>r. \<not> IsSpace r) rs1))"

text \<open>\<open>ss.accept(ok)\<close> and \<open>ss.peek(ok)\<close>: the rune is one of the characters of \<open>ok\<close>.\<close>

definition accepts :: "string \<Rightarrow> nat \<Rightarrow> bool" where
  "accepts ok r = (r \<in> set (map byte_of ok))"

definition binaryDigits :: string where "binaryDigits = ''01''"
definition octalDigits :: string where "octalDigits = ''01234567''"
definition decimalDigits :: string where "decimalDigits = ''0123456789''"
definition hexadecimalDigits :: string where "hexadecimalDigits = ''0123456789aAbBcCdDeEfF''"

text \<open>
  \<open>ss.scanBasePrefix\<close>: the prefix that was read into the token, the digits that may
  follow, whether a digit (the leading \<open>0\<close>) has been read, and the input that is left.
\<close>

definition scanBasePrefix :: "nat list \<Rightarrow> nat list \<times> string \<times> bool \<times> nat list" where
  "scanBasePrefix rs =
     (case rs of
        [] \<Rightarrow> ([], decimalDigits @ ''_'', False, rs)
      | r # rs1 \<Rightarrow>
          if r = 48 then
            (case rs1 of
               [] \<Rightarrow> ([48], octalDigits @ ''_'', True, rs1)
             | r1 # rs2 \<Rightarrow>
                 if accepts ''bB'' r1 then ([48, r1], binaryDigits @ ''_'', True, rs2)
                 else if accepts ''oO'' r1 then ([48, r1], octalDigits @ ''_'', True, rs2)
                 else if accepts ''xX'' r1 then ([48, r1], hexadecimalDigits @ ''_'', True, rs2)
                 else ([48], octalDigits @ ''_'', True, rs1))
          else ([], decimalDigits @ ''_'', False, rs))"

text \<open>
  \<open>ss.scanNumber\<close>: unless a digit has been read, the input must not be at its end and
  must begin with a digit; the number is the run of digits.
\<close>

definition scanNumber :: "string \<Rightarrow> bool \<Rightarrow> nat list \<Rightarrow> error + nat list \<times> nat list" where
  "scanNumber digits haveDigits rs =
     (if \<not> haveDigits \<and> rs = [] then Inl io_EOF
      else if \<not> haveDigits \<and> \<not> accepts digits (hd rs) then Inl (ErrorString ''expected integer'')
      else Inr (takeWhile (accepts digits) rs, dropWhile (accepts digits) rs))"

definition NumError :: "num_error \<Rightarrow> error" where
  "NumError e = ErrorString (case e of ErrSyntax \<Rightarrow> ''invalid syntax'' | ErrRange \<Rightarrow> ''value out of range'')"

text \<open>
  \<open>ss.scanInt\<close> for an \<open>int\<close> and the verb \<open>%v\<close> of \<open>Fscan\<close>: white space, an optional
  sign, the base prefix and the digits; the token goes to \<open>strconv.ParseInt(tok, 0, 64)\<close>.
  The scan stops at the first rune that is no digit, which is left in the input.
\<close>

definition scanInt :: "bool \<Rightarrow> nat list \<Rightarrow> error + int \<times> nat list" where
  "scanInt nlIsSpace rs =
     (case SkipSpace nlIsSpace rs of
        Inl err \<Rightarrow> Inl err
      | Inr rs1 \<Rightarrow>
          if rs1 = [] then Inl io_EOF
          else
            (let sgn = (if accepts ''+-'' (hd rs1) then [hd rs1] else []);
                 rs2 = (if accepts ''+-'' (hd rs1) then tl rs1 else rs1)
             in case scanBasePrefix rs2 of
                  (pre, digits, haveDigits, rs3) \<Rightarrow>
                    (case scanNumber digits haveDigits rs3 of
                       Inl err \<Rightarrow> Inl err
                     | Inr (ds, rs4) \<Rightarrow>
                         (case ParseInt64 (token_string (sgn @ pre @ ds)) 0 of
                            Inl e \<Rightarrow> Inl (NumError e)
                          | Inr i \<Rightarrow> Inr (i, rs4)))))"

text \<open>
  \<open>ss.scanUint\<close> for the verb \<open>%d\<close>: white space and decimal digits; the token goes to
  \<open>strconv.ParseUint(tok, 10, 64)\<close> and the value must fit \<open>bitSize\<close> bits.
\<close>

definition scanUint :: "nat \<Rightarrow> nat list \<Rightarrow> error + nat \<times> nat list" where
  "scanUint bitSize rs =
     (case SkipSpace False rs of
        Inl err \<Rightarrow> Inl err
      | Inr rs1 \<Rightarrow>
          if rs1 = [] then Inl io_EOF
          else
            (case scanNumber decimalDigits False rs1 of
               Inl err \<Rightarrow> Inl err
             | Inr (ds, rs2) \<Rightarrow>
                 (case ParseUint (token_string ds) 10 64 of
                    (i, Some e) \<Rightarrow> Inl (NumError e)
                  | (i, None) \<Rightarrow>
                      if i \<ge> 2 ^ bitSize then Inl (ErrorString ''unsigned integer overflow on token'')
                      else Inr (i, rs2))))"

text \<open>
  \<open>ss.advance\<close> over the literal characters of a format: for each of them the input
  must have a rune (\<open>mustReadRune\<close> gives \<open>io.ErrUnexpectedEOF\<close>) and it must be that
  character.
\<close>

fun advance :: "string \<Rightarrow> nat list \<Rightarrow> error + nat list" where
  "advance [] rs = Inr rs"
| "advance (f # fs) [] = Inl io_ErrUnexpectedEOF"
| "advance (f # fs) (r # rs) =
     (if byte_of f = r then advance fs rs else Inl (ErrorString ''input does not match format''))"

text \<open>
  \<open>fmt.Fscan(f, &pid2, &comm, &state, &ppid, &pgrp)\<close> on the contents of the file: an
  integer, two words and two integers, separated by white space.
\<close>

definition Fscan_stat :: "string \<Rightarrow> error + int \<times> string \<times> string \<times> int \<times> int" where
  "Fscan_stat text =
     (case scanInt True (readRunes text) of
        Inl err \<Rightarrow> Inl err
      | Inr (pid2, rs1) \<Rightarrow>
          (case convertString True rs1 of
             Inl err \<Rightarrow> Inl err
           | Inr (comm, rs2) \<Rightarrow>
               (case convertString True rs2 of
                  Inl err \<Rightarrow> Inl err
                | Inr (state, rs3) \<Rightarrow>
                    (case scanInt True rs3 of
                       Inl err \<Rightarrow> Inl err
                     | Inr (ppid', rs4) \<Rightarrow>
                         (case scanInt True rs4 of
                            Inl err \<Rightarrow> Inl err
                          | Inr (pgrp', rs5) \<Rightarrow> Inr (pid2, comm, state, ppid', pgrp'))))))"

text \<open>
  \<open>fmt.Sscanf(comm, "(%s)", &pname)\<close>: the value left in \<open>pname\<close> and the error.  The
  word after the parenthesis runs to the end of \<open>comm\<close>, so the closing parenthesis of
  the format finds no input and the error is \<open>io.ErrUnexpectedEOF\<close>; with nothing after
  the opening parenthesis the error is \<open>io.EOF\<close>.
\<close>

definition Sscanf_comm :: "string \<Rightarrow> string \<times> error option" where
  "Sscanf_comm comm =
     (case advance ''('' (readRunes comm) of
        Inl err \<Rightarrow> ([], Some err)
      | Inr rs1 \<Rightarrow>
          (case convertString False rs1 of
             Inl err \<Rightarrow> ([], Some err)
           | Inr (word, rs2) \<Rightarrow>
               (case advance '')'' rs2 of
                  Inl err \<Rightarrow> (word, Some err)
                | Inr rs3 \<Rightarrow> (word, None))))"

text \<open>
  \<open>parseProcStat\<close>.  An error of \<open>Sscanf\<close> other than \<open>io.ErrUnexpectedEOF\<close> is
  returned; \<open>io.ErrUnexpectedEOF\<close> is the error the code lets pass.
\<close>

definition parseProcStat :: "world \<Rightarrow> string \<Rightarrow> int \<Rightarrow> error + procStat" where
  "parseProcStat w root p =
     (let stat = root @ ''/'' @ itoa_int p @ ''/stat''
      in case ReadFile w stat of
           Inl errno \<Rightarrow> Inl (Wrap (''could not open '' @ stat) (PathError ''open'' stat errno))
         | Inr text \<Rightarrow>
             (case Fscan_stat text of
                Inl err \<Rightarrow> Inl (Wrap (''could not scan '' @ stat) err)
              | Inr (pid2, comm, state, ppid', pgrp') \<Rightarrow>
                  (case Sscanf_comm comm of
                     (word, None) \<Rightarrow> Inr \<lparr>Pname = TrimRight_paren word, Ppid = ppid', Pgrp = pgrp'\<rparr>
                   | (word, Some err) \<Rightarrow>
                       if err = io_ErrUnexpectedEOF
                       then Inr \<lparr>Pname = TrimRight_paren word, Ppid = ppid', Pgrp = pgrp'\<rparr>
                       else Inl (Wrap (''could not scan '' @ comm) err))))"

definition socketPrefix :: string where
  "socketPrefix = ''socket:[''"

text \<open>A decimal digit.\<close>

definition isDigit :: "char \<Rightarrow> bool" where
  "isDigit c = (48 \<le> byte_of c \<and> byte_of c \<le> 57)"

text \<open>
  \<open>fmt.Sscanf(lnk, "socket:[%d]", &ino)\<close> with \<open>ino\<close> a \<open>uint32\<close>: the literal prefix,
  white space (a newline is an error), at least one decimal digit, a value that fits 32
  bits, and the closing bracket; what follows the bracket is not read.
\<close>

definition Sscanf_socket :: "string \<Rightarrow> error + 32 word" where
  "Sscanf_socket lnk =
     (case advance ''socket:['' (readRunes lnk) of
        Inl err \<Rightarrow> Inl err
      | Inr rs1 \<Rightarrow>
          (case scanUint 32 rs1 of
             Inl err \<Rightarrow> Inl err
           | Inr (i, rs2) \<Rightarrow>
               (case advance '']'' rs2 of
                  Inl err \<Rightarrow> Inl err
                | Inr rs3 \<Rightarrow> Inr (word_of_nat i))))"

text \<open>
  \<open>parseSocketInode\<close>.  \<open>Sscanf\<close> returns \<open>n = 1\<close> whenever it returns no error, so the
  branch \<open>n != 1\<close> of the source is never taken.
\<close>

definition parseSocketInode :: "string \<Rightarrow> error + 32 word" where
  "parseSocketInode lnk =
     (if \<not> has_substring socketPrefix lnk then Inr 0
      else case Sscanf_socket lnk of
             Inl err \<Rightarrow> Inl err
           | Inr ino \<Rightarrow> Inr ino)"

record UserEnt =
  inode :: "32 word"
  fd :: int
  pid :: int
  pname :: string
  ppid :: int
  pgrp :: int

type_synonym UserEnts = "32 word \<rightharpoonup> UserEnt"

text \<open>
  The state of the walk of \<open>BuildUserEntries\<close>: the map under construction, and the
  process ids whose \<open>stat\<close> file has been read so far (the reads are an effect of the walk).
\<close>

record walk =
  userEnts :: UserEnts
  stat_reads :: "int list"

text \<open>
  The inner loop over the entries of \<open>/proc/<pid>/fd\<close>; \<open>stat\<close> is the local variable of
  that name, \<open>nil\<close> until the first socket is met.
\<close>

fun fd_loop :: "world \<Rightarrow> string \<Rightarrow> string \<Rightarrow> int \<Rightarrow> FileInfo list \<Rightarrow> procStat option \<times> walk
                  \<Rightarrow> error + procStat option \<times> walk" where
  "fd_loop w root fdDir p [] (stat, st) = Inr (stat, st)"
| "fd_loop w root fdDir p (d2 # dir2) (stat, st) =
     (case Atoi (fi_Name d2) of
        Inl err \<Rightarrow> fd_loop w root fdDir p dir2 (stat, st)
      | Inr fdnum \<Rightarrow>
          (let fdpath = Join fdDir (fi_Name d2)
           in (case Readlink w fdpath of
                 Inl errno \<Rightarrow>
                   if errno = ENOENT then fd_loop w root fdDir p dir2 (stat, st)
                   else Inl (Opaque (''readlink '' @ fdpath) (PathError ''readlink'' fdpath errno))
               | Inr lnk \<Rightarrow>
                   (case parseSocketInode lnk of
                      Inl err \<Rightarrow> Inl err
                    | Inr ino \<Rightarrow>
                        if ino = 0 then fd_loop w root fdDir p dir2 (stat, st)
                        else
                          (case (case stat of
                                   Some s \<Rightarrow> Inr (s, st)
                                 | None \<Rightarrow>
                                     (case parseProcStat w root p of
                                        Inl err \<Rightarrow> Inl err
                                      | Inr s \<Rightarrow> Inr (s, st\<lparr>stat_reads := stat_reads st @ [p]\<rparr>))) of
                             Inl err \<Rightarrow> Inl err
                           | Inr (s, st1) \<Rightarrow>
                               fd_loop w root fdDir p dir2
                                 (Some s,
                                  st1\<lparr>userEnts := (userEnts st1)(ino \<mapsto>
                                    \<lparr>inode = ino, fd = fdnum, pid = p, pname = Pname s,
                                     ppid = Ppid s, pgrp = Pgrp s\<rparr>)\<rparr>))))))"

text \<open>The outer loop over the entries of the \<open>/proc\<close> root.\<close>

fun pid_loop :: "world \<Rightarrow> string \<Rightarrow> FileInfo list \<Rightarrow> walk \<Rightarrow> error + walk" where
  "pid_loop w root [] st = Inr st"
| "pid_loop w root (d # dir) st =
     (if \<not> fi_IsDir d then pid_loop w root dir st
      else
        (case Atoi (fi_Name d) of
           Inl err \<Rightarrow> pid_loop w root dir st
         | Inr p \<Rightarrow>
             if p = Getpid w then pid_loop w root dir st
             else
               (let pidDir = Join root (fi_Name d);
                    fdDir = Join pidDir ''fd''
                in (case Stat w fdDir of
                      Inl errno \<Rightarrow> Inl (Opaque (''stat '' @ fdDir) (PathError ''stat'' fdDir errno))
                    | Inr fi \<Rightarrow>
                        if \<not> fi_IsDir fi then pid_loop w root dir st
                        else
                          (case ReadDir w fdDir of
                             Inl errno \<Rightarrow>
                               if errno = EACCES then pid_loop w root dir st
                               else Inl (Opaque ''readdir'' (PathError ''open'' fdDir errno))
                           | Inr dir2 \<Rightarrow>
                               (case fd_loop w root fdDir p dir2 (None, st) of
                                  Inl err \<Rightarrow> Inl err
                                | Inr (stat, st') \<Rightarrow> pid_loop w root dir st'))))))"

definition proc_root :: "world \<Rightarrow> string" where
  "proc_root w = (if PROC_ROOT w = [] then ''/proc'' else PROC_ROOT w)"

definition BuildUserEntries_walk :: "world \<Rightarrow> error + walk" where
  "BuildUserEntries_walk w =
     (let root = proc_root w
      in case ReadDir w root of
           Inl errno \<Rightarrow> Inl (PathError ''open'' root errno)
         | Inr dir \<Rightarrow> pid_loop w root dir \<lparr>userEnts = Map.empty, stat_reads = []\<rparr>)"

definition BuildUserEntries :: "world \<Rightarrow> error + UserEnts" where
  "BuildUserEntries w =
     (case BuildUserEntries_walk w of
        Inl err \<Rightarrow> Inl err
      | Inr st \<Rightarrow> Inr (userEnts st))"

section \<open>Package \<open>probe\<close>\<close>

text \<open>
  Package \<open>probe\<close> is used by the builders and is not among the sources; its types are
  read off the struct literals of the builders and of the test of the store.
\<close>

datatype Direction = FlowActive | FlowPassive

record AddrPort =
  Addr :: string
  Port :: string

record Process =
  Name :: string
  Pgid :: int

record HostFlow =
  Direction :: Direction
  Local :: AddrPort
  Peer :: AddrPort
  Process :: "Process option"
  Connections :: int

text \<open>
  Modelled from the spec: \<open>probe.HostFlows\<close> and its method \<open>Insert\<close> are not among the
  sources.  The spec: "Insert into a set keyed by (direction, local, peer).  On duplicate,
  increment connections"; a flow met for the first time counts one connection.  The set is
  kept as a list of keyed flows in the order of first insertion.
\<close>

type_synonym flow_key = "Direction \<times> AddrPort \<times> AddrPort"

type_synonym HostFlows = "(flow_key \<times> HostFlow) list"

definition UniqKey :: "HostFlow \<Rightarrow> flow_key" where
  "UniqKey hf = (Direction hf, Local hf, Peer hf)"

fun Insert :: "HostFlows \<Rightarrow> HostFlow \<Rightarrow> HostFlows" where
  "Insert [] hf = [(UniqKey hf, hf\<lparr>Connections := 1\<rparr>)]"
| "Insert ((k, f) # flows) hf =
     (if k = UniqKey hf then (k, f\<lparr>Connections := Connections f + 1\<rparr>) # flows
      else (k, f) # Insert flows hf)"

text \<open>
  Modelled from the spec: \<open>HostFlow.SetLookupedName\<close> is not among the sources.  The
  spec: "If numeric mode is off, reverse-resolve non-"many" addresses into hostnames on
  the emitted flows.  This is best-effort; failures leave the address as-is."
\<close>

definition lookup_name :: "world \<Rightarrow> AddrPort \<Rightarrow> AddrPort" where
  "lookup_name w ap =
     (case LookupAddr w (Addr ap) of None \<Rightarrow> ap | Some host \<Rightarrow> ap\<lparr>Addr := host\<rparr>)"

definition SetLookupedName :: "world \<Rightarrow> HostFlow \<Rightarrow> HostFlow" where
  "SetLookupedName w hf = hf\<lparr>Local := lookup_name w (Local hf), Peer := lookup_name w (Peer hf)\<rparr>"

text \<open>
  Modelled from the spec: the constants \<open>probe.FilterAll\<close>, \<open>probe.FilterPublic\<close> and
  \<open>probe.FilterPrivate\<close> are not among the sources.  The spec: "One of all | public |
  private".
\<close>

definition FilterAll :: string where "FilterAll = ''all''"
definition FilterPublic :: string where "FilterPublic = ''public''"
definition FilterPrivate :: string where "FilterPrivate = ''private''"

text \<open>
  Modelled from the spec: \<open>netutil.IsPrivateIP\<close> is not among the sources.  The spec:
  ""Private" is RFC1918/loopback/link-local; "public" is the complement."
\<close>

definition IsPrivateIP :: "IP \<Rightarrow> bool" where
  "IsPrivateIP ip =
     (case To4 ip of
        Some [a, b, c, d] \<Rightarrow>
          a = 10 \<or> (a = 172 \<and> 16 \<le> unat b \<and> unat b \<le> 31) \<or> (a = 192 \<and> b = 168) \<or>
          a = 127 \<or> (a = 169 \<and> b = 254)
      | _ \<Rightarrow>
          ip = replicate 15 0 @ [1] \<or>
          (length ip = 16 \<and> ip ! 0 = 254 \<and> 128 \<le> unat (ip ! 1) \<and> unat (ip ! 1) \<le> 191))"

section \<open>Package \<open>netlink\<close>: the flow builders\<close>

record GetHostFlowsOption =
  Numeric :: bool
  Processes :: bool
  Filter :: string

fun contains :: "string list \<Rightarrow> string \<Rightarrow> bool" where
  "contains [] s = False"
| "contains (str # strs) s = (if str = s then True else contains strs s)"

text \<open>
  The first loop of \<open>GetHostFlowsByNetlink\<close>, over the listening connections: the ports
  as decimal strings, and the process entry of each listening port (\<open>userEnts\<close> is \<open>nil\<close>
  when processes are not asked for).
\<close>

fun lport_loop :: "UserEnts option \<Rightarrow> InetDiagMsg list \<Rightarrow> string list \<times> (string \<rightharpoonup> UserEnt)
                     \<Rightarrow> string list \<times> (string \<rightharpoonup> UserEnt)" where
  "lport_loop ue [] (ports, lportEnt) = (ports, lportEnt)"
| "lport_loop ue (lconn # lconns) (ports, lportEnt) =
     (let sport = itoa (unat (SrcPort lconn))
      in lport_loop ue lconns
           (ports @ [sport],
            case ue of None \<Rightarrow> lportEnt | Some m \<Rightarrow> lportEnt(sport := m (Inode lconn))))"

definition process_of :: "UserEnt option \<Rightarrow> Process option" where
  "process_of ent = (case ent of None \<Rightarrow> None | Some e \<Rightarrow> Some \<lparr>Name = pname e, Pgid = pgrp e\<rparr>)"

text \<open>
  The body of the second loop for one connection: \<open>None\<close> is \<open>continue\<close>, otherwise the
  flow handed to \<open>flows.Insert\<close>.
\<close>

definition netlink_flow :: "GetHostFlowsOption \<Rightarrow> UserEnts option \<Rightarrow> string list
                             \<Rightarrow> (string \<rightharpoonup> UserEnt) \<Rightarrow> InetDiagMsg \<Rightarrow> HostFlow option" where
  "netlink_flow opt ue ports lportEnt conn =
     (if State conn = TCP_LISTEN then None
      else if State conn = TCP_SYN_SENT then None
      else if State conn = TCP_SYN_RECV then None
      else if Filter opt \<noteq> FilterAll \<and> Filter opt = FilterPublic \<and> IsPrivateIP (DstIP conn) then None
      else if Filter opt \<noteq> FilterAll \<and> Filter opt \<noteq> FilterPublic \<and> Filter opt = FilterPrivate
              \<and> \<not> IsPrivateIP (DstIP conn) then None
      else
        let ent = (case ue of
                     None \<Rightarrow> None
                   | Some m \<Rightarrow> if Inode conn \<noteq> 0 then m (Inode conn) else None);
            lport = itoa (unat (SrcPort conn));
            rport = itoa (unat (DstPort conn))
        in if contains ports lport then
             let ent' = (case ent of None \<Rightarrow> lportEnt lport | Some e \<Rightarrow> Some e)
             in Some \<lparr>Direction = FlowPassive,
                      Local = \<lparr>Addr = IP_String (SrcIP conn), Port = lport\<rparr>,
                      Peer = \<lparr>Addr = IP_String (DstIP conn), Port = ''many''\<rparr>,
                      Process = process_of ent',
                      Connections = 0\<rparr>
           else
             Some \<lparr>Direction = FlowActive,
                   Local = \<lparr>Addr = IP_String (SrcIP conn), Port = ''many''\<rparr>,
                   Peer = \<lparr>Addr = IP_String (DstIP conn), Port = rport\<rparr>,
                   Process = process_of ent,
                   Connections = 0\<rparr>)"

fun netlink_loop :: "GetHostFlowsOption \<Rightarrow> UserEnts option \<Rightarrow> string list
                       \<Rightarrow> (string \<rightharpoonup> UserEnt) \<Rightarrow> InetDiagMsg list \<Rightarrow> HostFlows \<Rightarrow> HostFlows" where
  "netlink_loop opt ue ports lportEnt [] flows = flows"
| "netlink_loop opt ue ports lportEnt (conn # conns) flows =
     (case netlink_flow opt ue ports lportEnt conn of
        None \<Rightarrow> netlink_loop opt ue ports lportEnt conns flows
      | Some hf \<Rightarrow> netlink_loop opt ue ports lportEnt conns (Insert flows hf))"

definition GetHostFlowsByNetlink :: "world \<Rightarrow> GetHostFlowsOption \<Rightarrow> error + HostFlows" where
  "GetHostFlowsByNetlink w opt =
     (case (if Processes opt
            then (case BuildUserEntries w of Inl err \<Rightarrow> Inl err | Inr m \<Rightarrow> Inr (Some m))
            else Inr None) of
        Inl err \<Rightarrow> Inl err
      | Inr ue \<Rightarrow>
          (case NetlinkConnections w of
             Inl err \<Rightarrow> Inl err
           | Inr conns \<Rightarrow>
               (case NetlinkFilterByLocalListeningPorts conns of
                  Inl err \<Rightarrow> Inl err
                | Inr lconns \<Rightarrow>
                    let (ports, lportEnt) = lport_loop ue lconns ([], Map.empty);
                        flows = netlink_loop opt ue ports lportEnt conns []
                    in Inr (if \<not> Numeric opt
                            then map (\<lambda>(k, flow). (k, SetLookupedName w flow)) flows
                            else flows))))"

definition procfs_flow :: "string list \<Rightarrow> ConnectionStat \<Rightarrow> HostFlow option" where
  "procfs_flow ports conn =
     (if Status conn = TCP_LISTEN then None
      else if Status conn = TCP_SYN_SENT then None
      else if Status conn = TCP_SYN_RECV then None
      else
        let lport = itoa (unat (Port32 (Laddr conn)));
            rport = itoa (unat (Port32 (Raddr conn)))
        in if contains ports lport then
             Some \<lparr>Direction = FlowPassive,
                   Local = \<lparr>Addr = IP (Laddr conn), Port = lport\<rparr>,
                   Peer = \<lparr>Addr = IP (Raddr conn), Port = ''many''\<rparr>,
                   Process = None,
                   Connections = 0\<rparr>
           else
             Some \<lparr>Direction = FlowActive,
                   Local = \<lparr>Addr = IP (Laddr conn), Port = ''many''\<rparr>,
                   Peer = \<lparr>Addr = IP (Raddr conn), Port = rport\<rparr>,
                   Process = None,
                   Connections = 0\<rparr>)"

fun procfs_loop :: "string list \<Rightarrow> ConnectionStat list \<Rightarrow> HostFlows \<Rightarrow> HostFlows" where
  "procfs_loop ports [] flows = flows"
| "procfs_loop ports (conn # conns) flows =
     (case procfs_flow ports conn of
        None \<Rightarrow> procfs_loop ports conns flows
      | Some hf \<Rightarrow> procfs_loop ports conns (Insert flows hf))"

definition GetHostFlowsByProcfs :: "world \<Rightarrow> error + HostFlows" where
  "GetHostFlowsByProcfs w =
     (case ProcfsConnections w of
        Inl err \<Rightarrow> Inl err
      | Inr conns \<Rightarrow>
          (case FilterByLocalListeningPorts conns of
             Inl err \<Rightarrow> Inl err
           | Inr ports \<Rightarrow> Inr (procfs_loop ports conns [])))"

definition GetHostFlows :: "world \<Rightarrow> GetHostFlowsOption \<Rightarrow> error + HostFlows" where
  "GetHostFlows w opt =
     (case GetHostFlowsByNetlink w opt of
        Inl err \<Rightarrow> if As_NetlinkError err then GetHostFlowsByProcfs w else Inl err
      | Inr flows \<Rightarrow> Inr flows)"

section \<open>Package \<open>db\<close>: the upsert engine\<close>

text \<open>
  Modelled from the spec: \<open>db.InsertOrUpdateHostFlows\<close> is not among the sources, only
  its test is.  The spec (4.4): for each flow, resolve the local node
  \<open>(local.addr, numeric(local.port), process.pgid|0, process.name|"")\<close> and the peer node
  \<open>(peer.addr, numeric(peer.port), 0, "")\<close>, port "many" being 0; execute upsert-node for
  each, which returns the \<open>node_id\<close> of the row with that logical key; execute upsert-flow
  with \<open>src = local, dst = peer\<close> for an active flow and \<open>src = peer, dst = local\<close> for a
  passive one, overwriting \<open>connections\<close> and refreshing \<open>updated\<close>.  The store keeps the
  rows of both tables and the statements executed, in order; \<open>node_id\<close> is serial from 1,
  and \<open>now\<close> is the time of the transaction.
\<close>

type_synonym node_key = "string \<times> int \<times> int \<times> string"

datatype stmt =
    UpsertNode string int int string
  | UpsertFlow Direction nat nat int

record store =
  node_rows :: "(nat \<times> node_key) list"
  flow_rows :: "((Direction \<times> nat \<times> nat) \<times> int \<times> nat) list"
  executed :: "stmt list"

text \<open>
  \<open>numeric\<close>: "many" is 0, a decimal numeral is its value; a port that is neither is
  outside the data model of the spec and reads as 0.
\<close>

definition numeric :: "string \<Rightarrow> int" where
  "numeric p = (if p = ''many'' then 0 else case Atoi p of Inr n \<Rightarrow> n | Inl err \<Rightarrow> 0)"

definition local_node :: "HostFlow \<Rightarrow> node_key" where
  "local_node hf =
     (Addr (Local hf), numeric (Port (Local hf)),
      (case Process hf of None \<Rightarrow> 0 | Some p \<Rightarrow> Pgid p),
      (case Process hf of None \<Rightarrow> [] | Some p \<Rightarrow> Name p))"

definition peer_node :: "HostFlow \<Rightarrow> node_key" where
  "peer_node hf = (Addr (Peer hf), numeric (Port (Peer hf)), 0, [])"

fun find_node :: "(nat \<times> node_key) list \<Rightarrow> node_key \<Rightarrow> nat option" where
  "find_node [] k = None"
| "find_node ((i, k') # rows) k = (if k' = k then Some i else find_node rows k)"

definition upsert_node :: "store \<Rightarrow> node_key \<Rightarrow> nat \<times> store" where
  "upsert_node st k =
     (let st1 = st\<lparr>executed := executed st @
                  [UpsertNode (fst k) (fst (snd k)) (fst (snd (snd k))) (snd (snd (snd k)))]\<rparr>
      in case find_node (node_rows st) k of
           Some i \<Rightarrow> (i, st1)
         | None \<Rightarrow>
             (Suc (length (node_rows st)), st1\<lparr>node_rows := node_rows st @ [(Suc (length (node_rows st)), k)]\<rparr>))"

fun put_flow :: "((Direction \<times> nat \<times> nat) \<times> int \<times> nat) list \<Rightarrow> Direction \<times> nat \<times> nat \<Rightarrow> int \<times> nat
                   \<Rightarrow> ((Direction \<times> nat \<times> nat) \<times> int \<times> nat) list" where
  "put_flow [] k v = [(k, v)]"
| "put_flow ((k', v') # rows) k v = (if k' = k then (k, v) # rows else (k', v') # put_flow rows k v)"

definition upsert_flow :: "nat \<Rightarrow> store \<Rightarrow> Direction \<Rightarrow> nat \<Rightarrow> nat \<Rightarrow> int \<Rightarrow> store" where
  "upsert_flow now st dir src dst conns =
     st\<lparr>flow_rows := put_flow (flow_rows st) (dir, src, dst) (conns, now),
        executed := executed st @ [UpsertFlow dir src dst conns]\<rparr>"

definition upsert_host_flow :: "nat \<Rightarrow> store \<Rightarrow> HostFlow \<Rightarrow> store" where
  "upsert_host_flow now st hf =
     (let (localID, st1) = upsert_node st (local_node hf);
          (peerID, st2) = upsert_node st1 (peer_node hf)
      in if Direction hf = FlowActive
         then upsert_flow now st2 FlowActive localID peerID (Connections hf)
         else upsert_flow now st2 FlowPassive peerID localID (Connections hf))"

fun InsertOrUpdateHostFlows :: "nat \<Rightarrow> store \<Rightarrow> HostFlow list \<Rightarrow> store" where
  "InsertOrUpdateHostFlows now st [] = st"
| "InsertOrUpdateHostFlows now st (hf # hfs) =
     InsertOrUpdateHostFlows now (upsert_host_flow now st hf) hfs"

text \<open>
  The inputs of the tests \<open>TestInsertOrUpdateHostFlows\<close> and
  \<open>TestInsertOrUpdateHostFlows_empty_process\<close>, and a fresh store.
\<close>

definition test_flows :: "HostFlow list" where
  "test_flows =
     [\<lparr>Direction = FlowActive, Local = \<lparr>Addr = ''10.0.10.1'', Port = ''many''\<rparr>,
       Peer = \<lparr>Addr = ''10.0.10.2'', Port = ''5432''\<rparr>,
       Process = Some \<lparr>Name = ''python'', Pgid = 1001\<rparr>, Connections = 10\<rparr>,
      \<lparr>Direction = FlowPassive, Local = \<lparr>Addr = ''10.0.10.1'', Port = ''80''\<rparr>,
       Peer = \<lparr>Addr = ''10.0.10.2'', Port = ''many''\<rparr>,
       Process = Some \<lparr>Name = ''nginx'', Pgid = 1002\<rparr>, Connections = 12\<rparr>]"

definition test_flow_empty_process :: HostFlow where
  "test_flow_empty_process =
     \<lparr>Direction = FlowActive, Local = \<lparr>Addr = ''10.0.10.1'', Port = ''many''\<rparr>,
      Peer = \<lparr>Addr = ''10.0.10.2'', Port = ''5432''\<rparr>, Process = None, Connections = 10\<rparr>"

definition empty_store :: store where
  "empty_store = \<lparr>node_rows = [], flow_rows = [], executed = []\<rparr>"

section \<open>The statements of the specification\<close>

text \<open>
  The encoding of an endpoint in \<open>/proc/net/tcp\<close>, as the kernel prints it
  (\<open>"%08X:%04X"\<close> of the address in host byte order on a little-endian machine, and of the
  port): the four bytes of \<open>a.b.c.d\<close> last byte first, a colon, the two bytes of the port
  high byte first, in upper-case hexadecimal.
\<close>

definition HEX :: "nat \<Rightarrow> char" where
  "HEX d = ''0123456789ABCDEF'' ! d"

definition hex_byte :: "nat \<Rightarrow> string" where
  "hex_byte n = [HEX (n div 16), HEX (n mod 16)]"

definition encodeAddress :: "byte \<Rightarrow> byte \<Rightarrow> byte \<Rightarrow> byte \<Rightarrow> 16 word \<Rightarrow> string" where
  "encodeAddress a b c d p =
     hex_byte (unat d) @ hex_byte (unat c) @ hex_byte (unat b) @ hex_byte (unat a) @ '':'' @
     hex_byte (unat p div 256) @ hex_byte (unat p mod 256)"

text \<open>
  A kernel connection as the spec has it: state, local address and port, remote address
  and port.  Both sources of connections are read into this shape.
\<close>

record conn =
  c_state :: TCPState
  L_ip :: string
  L_port :: nat
  R_ip :: string
  R_port :: nat

definition conn_of_msg :: "InetDiagMsg \<Rightarrow> conn" where
  "conn_of_msg m =
     \<lparr>c_state = State m, L_ip = IP_String (SrcIP m), L_port = unat (SrcPort m),
      R_ip = IP_String (DstIP m), R_port = unat (DstPort m)\<rparr>"

definition conn_of_stat :: "ConnectionStat \<Rightarrow> conn" where
  "conn_of_stat s =
     \<lparr>c_state = Status s, L_ip = IP (Laddr s), L_port = unat (Port32 (Laddr s)),
      R_ip = IP (Raddr s), R_port = unat (Port32 (Raddr s))\<rparr>"

text \<open>
  The listening-port set \<open>P\<close> of the spec (4.1): the ports whose state is \<open>LISTEN\<close> and
  whose bind address is \<open>0.0.0.0\<close>, \<open>::\<close> or \<open>127.0.0.1\<close>.
\<close>

definition is_listener :: "conn \<Rightarrow> bool" where
  "is_listener c =
     (c_state c = TCP_LISTEN \<and> (L_ip c = ''0.0.0.0'' \<or> L_ip c = ''::'' \<or> L_ip c = ''127.0.0.1''))"

definition listening_ports :: "conn list \<Rightarrow> nat set" where
  "listening_ports cs = set (map L_port (filter is_listener cs))"

text \<open>The state filter of the spec (4.3): \<open>LISTEN\<close>, \<open>SYN_SENT\<close> and \<open>SYN_RECV\<close> are dropped.\<close>

definition retained :: "conn \<Rightarrow> bool" where
  "retained c = (c_state c \<noteq> TCP_LISTEN \<and> c_state c \<noteq> TCP_SYN_SENT \<and> c_state c \<noteq> TCP_SYN_RECV)"

text \<open>The classification rule of the spec (4.3).\<close>

definition classify :: "nat set \<Rightarrow> conn \<Rightarrow> flow_key" where
  "classify P c =
     (if L_port c \<in> P
      then (FlowPassive, \<lparr>Addr = L_ip c, Port = itoa (L_port c)\<rparr>, \<lparr>Addr = R_ip c, Port = ''many''\<rparr>)
      else (FlowActive, \<lparr>Addr = L_ip c, Port = ''many''\<rparr>, \<lparr>Addr = R_ip c, Port = itoa (R_port c)\<rparr>))"

text \<open>The flows a builder emitted, by direction, local and peer endpoint.\<close>

definition emitted :: "HostFlows \<Rightarrow> flow_key set" where
  "emitted flows = set (map (\<lambda>(k, hf). UniqKey hf) flows)"

text \<open>The optional address filter of the netlink builder (4.3), as a test on a connection.\<close>

definition passes_filter :: "GetHostFlowsOption \<Rightarrow> InetDiagMsg \<Rightarrow> bool" where
  "passes_filter opt m =
     (if Filter opt = FilterPublic then \<not> IsPrivateIP (DstIP m)
      else if Filter opt = FilterPrivate then IsPrivateIP (DstIP m)
      else True)"

text \<open>The optional name resolution (4.3) on an emitted flow.\<close>

definition resolved :: "world \<Rightarrow> GetHostFlowsOption \<Rightarrow> flow_key \<Rightarrow> flow_key" where
  "resolved w opt k =
     (if Numeric opt then k
      else (fst k, lookup_name w (fst (snd k)), lookup_name w (snd (snd k))))"

text \<open>
  The connection \<open>/proc/net/tcp\<close> shows for a netlink message, and a flow without its
  process.
\<close>

definition stat_of_msg :: "InetDiagMsg \<Rightarrow> ConnectionStat" where
  "stat_of_msg m =
     \<lparr>Laddr = \<lparr>IP = IP_String (SrcIP m), Port32 = ucast (SrcPort m)\<rparr>,
      Raddr = \<lparr>IP = IP_String (DstIP m), Port32 = ucast (DstPort m)\<rparr>,
      Status = State m\<rparr>"

definition without_process :: "HostFlows \<Rightarrow> HostFlows" where
  "without_process flows = map (\<lambda>(k, hf). (k, hf\<lparr>Process := None\<rparr>)) flows"

text \<open>
  The invariant of the spec (8.1): exactly one of the two ports of a flow is the sentinel
  "many".
\<close>

definition exactly_one_many :: "HostFlow \<Rightarrow> bool" where
  "exactly_one_many hf = ((Port (Local hf) = ''many'') \<noteq> (Port (Peer hf) = ''many''))"

section \<open>An example host\<close>

text \<open>
  A host in the shape of the scenarios S1 and S2 of the spec: a listener on port 80 owned
  by \<open>nginx\<close> (process group 1002, socket inode 100), a connection accepted on port 80
  whose own inode is not attributed, and a connection opened to port 5432 by \<open>python\<close>
  (process group 1001, socket inode 102).  Process 44 holds no socket.  The kernel shows
  the same three connections through netlink and in \<open>/proc/net/tcp\<close>; the resolver knows
  one name.
\<close>

definition example_msgs :: "InetDiagMsg list" where
  "example_msgs =
     [\<lparr>State = TCP_LISTEN, SrcIP = IPv4 0 0 0 0, SrcPort = 80,
       DstIP = IPv4 0 0 0 0, DstPort = 0, Inode = 100\<rparr>,
      \<lparr>State = TCP_ESTABLISHED, SrcIP = IPv4 10 0 0 1, SrcPort = 80,
       DstIP = IPv4 10 0 0 2, DstPort = 44500, Inode = 0\<rparr>,
      \<lparr>State = TCP_ESTABLISHED, SrcIP = IPv4 10 0 0 1, SrcPort = 54321,
       DstIP = IPv4 10 0 0 2, DstPort = 5432, Inode = 102\<rparr>]"

definition example_tcp :: string where
  "example_tcp =
     ''  sl  local_address rem_address   st tx_queue rx_queue tr tm->when retrnsmt   uid  timeout inode''
       @ [newline] @
     ''   0: 00000000:0050 00000000:0000 0A 00000000:00000000 00:00000000 00000000     0        0 100''
       @ [newline] @
     ''   1: 0100000A:0050 0200000A:ADD4 01 00000000:00000000 00:00000000 00000000    33        0 0''
       @ [newline] @
     ''   2: 0100000A:D431 0200000A:1538 01 00000000:00000000 00:00000000 00000000  1000        0 102''
       @ [newline]"

definition example_host :: world where
  "example_host =
     \<lparr>PROC_ROOT = [],
      Getpid = 1,
      ReadDir = (\<lambda>path.
        if path = ''/proc'' then
          Inr [\<lparr>fi_Name = ''1'', fi_IsDir = True\<rparr>, \<lparr>fi_Name = ''42'', fi_IsDir = True\<rparr>,
               \<lparr>fi_Name = ''43'', fi_IsDir = True\<rparr>, \<lparr>fi_Name = ''44'', fi_IsDir = True\<rparr>,
               \<lparr>fi_Name = ''net'', fi_IsDir = True\<rparr>, \<lparr>fi_Name = ''uptime'', fi_IsDir = False\<rparr>]
        else if path = ''/proc/42/fd'' then
          Inr [\<lparr>fi_Name = ''0'', fi_IsDir = False\<rparr>, \<lparr>fi_Name = ''3'', fi_IsDir = False\<rparr>]
        else if path = ''/proc/43/fd'' then
          Inr [\<lparr>fi_Name = ''5'', fi_IsDir = False\<rparr>]
        else if path = ''/proc/44/fd'' then
          Inr [\<lparr>fi_Name = ''0'', fi_IsDir = False\<rparr>, \<lparr>fi_Name = ''1'', fi_IsDir = False\<rparr>]
        else Inl ENOENT),
      Stat = (\<lambda>path.
        if path = ''/proc/42/fd'' \<or> path = ''/proc/43/fd'' \<or> path = ''/proc/44/fd''
        then Inr \<lparr>fi_Name = ''fd'', fi_IsDir = True\<rparr>
        else Inl ENOENT),
      Readlink = (\<lambda>path.
        if path = ''/proc/42/fd/0'' then Inr ''/dev/null''
        else if path = ''/proc/42/fd/3'' then Inr ''socket:[100]''
        else if path = ''/proc/43/fd/5'' then Inr ''socket:[102]''
        else if path = ''/proc/44/fd/0'' then Inr ''/dev/pts/0''
        else if path = ''/proc/44/fd/1'' then Inr ''pipe:[7301]''
        else Inl ENOENT),
      ReadFile = (\<lambda>path.
        if path = ''/proc/42/stat'' then Inr ''42 (nginx) S 1 1002 1002 0 -1''
        else if path = ''/proc/43/stat'' then Inr ''43 (python) S 1 1001 1001 0 -1''
        else if path = ''/proc/net/tcp'' then Inr example_tcp
        else Inl ENOENT),
      NetlinkInetDiag = Inr example_msgs,
      LookupAddr = (\<lambda>addr. if addr = ''10.0.0.2'' then Some ''db.example'' else None)\<rparr>"

text \<open>
  The two flows of the example host, as the spec expects them: the accepted connection is
  passive on port 80, the opened one is active to port 5432; first without process, then
  with the processes that the netlink builder attributes (the accepted connection through
  its listening port).
\<close>

definition example_flows :: HostFlows where
  "example_flows =
     [((FlowPassive, \<lparr>Addr = ''10.0.0.1'', Port = ''80''\<rparr>, \<lparr>Addr = ''10.0.0.2'', Port = ''many''\<rparr>),
       \<lparr>Direction = FlowPassive, Local = \<lparr>Addr = ''10.0.0.1'', Port = ''80''\<rparr>,
        Peer = \<lparr>Addr = ''10.0.0.2'', Port = ''many''\<rparr>, Process = None, Connections = 1\<rparr>),
      ((FlowActive, \<lparr>Addr = ''10.0.0.1'', Port = ''many''\<rparr>, \<lparr>Addr = ''10.0.0.2'', Port = ''5432''\<rparr>),
       \<lparr>Direction = FlowActive, Local = \<lparr>Addr = ''10.0.0.1'', Port = ''many''\<rparr>,
        Peer = \<lparr>Addr = ''10.0.0.2'', Port = ''5432''\<rparr>, Process = None, Connections = 1\<rparr>)]"

definition example_flows_attributed :: HostFlows where
  "example_flows_attributed =
     [((FlowPassive, \<lparr>Addr = ''10.0.0.1'', Port = ''80''\<rparr>, \<lparr>Addr = ''10.0.0.2'', Port = ''many''\<rparr>),
       \<lparr>Direction = FlowPassive, Local = \<lparr>Addr = ''10.0.0.1'', Port = ''80''\<rparr>,
        Peer = \<lparr>Addr = ''10.0.0.2'', Port = ''many''\<rparr>,
        Process = Some \<lparr>Name = ''nginx'', Pgid = 1002\<rparr>, Connections = 1\<rparr>),
      ((FlowActive, \<lparr>Addr = ''10.0.0.1'', Port = ''many''\<rparr>, \<lparr>Addr = ''10.0.0.2'', Port = ''5432''\<rparr>),
       \<lparr>Direction = FlowActive, Local = \<lparr>Addr = ''10.0.0.1'', Port = ''many''\<rparr>,
        Peer = \<lparr>Addr = ''10.0.0.2'', Port = ''5432''\<rparr>,
        Process = Some \<lparr>Name = ''python'', Pgid = 1001\<rparr>, Connections = 1\<rparr>)]"

text \<open>The same flows with the name of the peer resolved.\<close>

definition example_flows_named :: HostFlows where
  "example_flows_named =
     [((FlowPassive, \<lparr>Addr = ''10.0.0.1'', Port = ''80''\<rparr>, \<lparr>Addr = ''10.0.0.2'', Port = ''many''\<rparr>),
       \<lparr>Direction = FlowPassive, Local = \<lparr>Addr = ''10.0.0.1'', Port = ''80''\<rparr>,
        Peer = \<lparr>Addr = ''db.example'', Port = ''many''\<rparr>, Process = None, Connections = 1\<rparr>),
      ((FlowActive, \<lparr>Addr = ''10.0.0.1'', Port = ''many''\<rparr>, \<lparr>Addr = ''10.0.0.2'', Port = ''5432''\<rparr>),
       \<lparr>Direction = FlowActive, Local = \<lparr>Addr = ''10.0.0.1'', Port = ''many''\<rparr>,
        Peer = \<lparr>Addr = ''db.example'', Port = ''5432''\<rparr>, Process = None, Connections = 1\<rparr>)]"

text \<open>
  A \<open>/proc/net/tcp\<close> with one line of sixteen fields whose state field is not
  hexadecimal, one line cut short, and one line whose local address is not hexadecimal.
\<close>

definition malformed_tcp :: string where
  "malformed_tcp =
     ''  sl  local_address rem_address   st tx_queue rx_queue tr tm->when retrnsmt   uid  timeout inode''
       @ [newline] @
     ''   0: 0100000A:D431 0200000A:1538 ZZ 00000000:00000000 00:00000000 00000000  1000        0 102''
       @ [newline] @
     ''   1: 0100000A:D431 0200000A:1538 01 00000000:00000000''
       @ [newline] @
     ''   2: 0100000G:D431 0200000A:1538 01 00000000:00000000 00:00000000 00000000  1000        0 102''
       @ [newline]"

section \<open>Procfs address decoding\<close>

lemma lt16_cases: "d < 16 \<Longrightarrow> d \<in> {0,1,2,3,4,5,6,7,8,9,10,11,12,13,14,15::nat}"
proof -
  assume "d < 16"
  then have "d = 0 \<or> d = 1 \<or> d = 2 \<or> d = 3 \<or> d = 4 \<or> d = 5 \<or> d = 6 \<or> d = 7 \<or> d = 8 \<or> d = 9
      \<or> d = 10 \<or> d = 11 \<or> d = 12 \<or> d = 13 \<or> d = 14 \<or> d = 15"
    by arith
  then show ?thesis by blast
qed

lemma digit_val_HEX: "d < 16 \<Longrightarrow> digit_val (HEX d) = Some d"
  by (drule lt16_cases) (auto simp: HEX_def digit_val_def byte_of_def lower_def)

lemma fromHexChar_HEX: "d < 16 \<Longrightarrow> fromHexChar (HEX d) = Some d"
  by (drule lt16_cases) (auto simp: HEX_def fromHexChar_def byte_of_def)

lemma HEX_not_sep: "d < 16 \<Longrightarrow> HEX d \<noteq> CHR '':'' \<and> HEX d \<noteq> CHR ''_''"
  by (drule lt16_cases) (auto simp: HEX_def)

lemma split_acc_no_sep: "sep \<notin> set ys \<Longrightarrow> split_acc sep cur ys = [cur @ ys]"
  by (induction ys arbitrary: cur) auto

lemma split_acc_sep:
  "sep \<notin> set xs \<Longrightarrow> split_acc sep cur (xs @ sep # ys) = (cur @ xs) # split_acc sep [] ys"
  by (induction xs arbitrary: cur) auto

lemma set_hex_byte: "n < 256 \<Longrightarrow> CHR '':'' \<notin> set (hex_byte n) \<and> CHR ''_'' \<notin> set (hex_byte n)"
proof -
  assume "n < 256"
  then have "n div 16 < 16" and "n mod 16 < 16" by auto
  then show ?thesis
    using HEX_not_sep [of "n div 16"] HEX_not_sep [of "n mod 16"]
    by (auto simp: hex_byte_def)
qed

lemma parse_digits_HEX:
  assumes "d < 16" and "n < 2 ^ 56"
  shows "parse_digits 16 True (2 ^ 64 - 1) n (HEX d # rest)
         = parse_digits 16 True (2 ^ 64 - 1) (n * 16 + d) rest"
proof -
  have "n * 16 + d < 2 ^ 64 - 1" using assms by simp
  then show ?thesis
    using assms HEX_not_sep [OF assms(1)] by (simp add: digit_val_HEX)
qed

lemma parse_digits_hex_byte:
  assumes "k < 256" and "n < 2 ^ 48"
  shows "parse_digits 16 True (2 ^ 64 - 1) n (hex_byte k @ rest)
         = parse_digits 16 True (2 ^ 64 - 1) (n * 256 + k) rest"
proof -
  have hi: "k div 16 < 16" and lo: "k mod 16 < 16" using assms by auto
  have k: "(n * 16 + k div 16) * 16 + k mod 16 = n * 256 + k" by presburger
  have b0: "n < 2 ^ 56" using assms by simp
  have b1: "n * 16 + k div 16 < 2 ^ 56" using assms hi by simp
  have "parse_digits 16 True (2 ^ 64 - 1) n (hex_byte k @ rest)
        = parse_digits 16 True (2 ^ 64 - 1) (n * 16 + k div 16) (HEX (k mod 16) # rest)"
    using parse_digits_HEX [OF hi b0] by (simp add: hex_byte_def)
  also have "\<dots> = parse_digits 16 True (2 ^ 64 - 1) ((n * 16 + k div 16) * 16 + k mod 16) rest"
    by (rule parse_digits_HEX [OF lo b1])
  finally show ?thesis by (simp only: k)
qed

lemma hex_DecodeString_hex_byte:
  "k < 256 \<Longrightarrow> hex_DecodeString (hex_byte k @ rest) =
     (case hex_DecodeString rest of None \<Rightarrow> None | Some bs \<Rightarrow> Some (word_of_nat k # bs))"
proof -
  assume k: "k < 256"
  then have hi: "k div 16 < 16" and lo: "k mod 16 < 16" by auto
  have "16 * (k div 16) + k mod 16 = k" by presburger
  then show ?thesis
    by (simp add: hex_byte_def fromHexChar_HEX [OF hi] fromHexChar_HEX [OF lo] split: option.split)
qed

lemma ParseUint_0x:
  assumes "hi < 256" and "lo < 256"
  shows "ParseUint (''0x'' @ hex_byte hi @ hex_byte lo) 0 64 = (hi * 256 + lo, None)"
proof -
  have ds: "CHR ''_'' \<notin> set (hex_byte hi @ hex_byte lo)"
    using set_hex_byte [OF assms(1)] set_hex_byte [OF assms(2)] by simp
  have pd: "parse_digits 16 True (2 ^ 64 - 1) 0 (hex_byte hi @ hex_byte lo) = (hi * 256 + lo, None)"
    using parse_digits_hex_byte [of hi 0 "hex_byte lo"]
          parse_digits_hex_byte [of lo hi "[]"] assms
    by simp
  have len: "length (hex_byte hi @ hex_byte lo) = 4" by (simp add: hex_byte_def)
  show ?thesis
    using ds pd len by (simp add: ParseUint_def lower_def byte_of_def)
qed

lemma ParseInt64_0x:
  assumes "hi < 256" and "lo < 256"
  shows "ParseInt64 (''0x'' @ hex_byte hi @ hex_byte lo) 0 = Inr (int (hi * 256 + lo))"
proof -
  have "hi * 256 + lo < 2 ^ 63" using assms by simp
  then show ?thesis
    using ParseUint_0x [OF assms] by (simp add: ParseInt64_def)
qed

lemma hex_DecodeString_ip:
  "hex_DecodeString (hex_byte (unat (d::byte)) @ hex_byte (unat (c::byte)) @ hex_byte (unat (b::byte)) @ hex_byte (unat (a::byte)))
     = Some [d, c, b, a]"
proof -
  have lt: "\<And>x::byte. unat x < 256"
  proof -
    fix x :: byte
    have "unat x < 2 ^ LENGTH(8)" by (rule unsigned_less)
    then show "unat x < 256" by simp
  qed
  show ?thesis
    using hex_DecodeString_hex_byte [OF lt, of a "[]"]
    by (simp add: hex_DecodeString_hex_byte [OF lt])
qed

lemma Split_encodeAddress:
  "Split (encodeAddress a b c d p) (CHR '':'')
     = [hex_byte (unat d) @ hex_byte (unat c) @ hex_byte (unat b) @ hex_byte (unat a),
        hex_byte (unat p div 256) @ hex_byte (unat p mod 256)]"
proof -
  have lt: "\<And>x::byte. unat x < 256"
  proof -
    fix x :: byte
    have "unat x < 2 ^ LENGTH(8)" by (rule unsigned_less)
    then show "unat x < 256" by simp
  qed
  have "unat p < 2 ^ LENGTH(16)" by (rule unsigned_less)
  then have p: "unat p div 256 < 256" by simp
  let ?xs = "hex_byte (unat d) @ hex_byte (unat c) @ hex_byte (unat b) @ hex_byte (unat a)"
  let ?ys = "hex_byte (unat p div 256) @ hex_byte (unat p mod 256)"
  have xs: "CHR '':'' \<notin> set ?xs" using set_hex_byte [OF lt] by simp
  have ys: "CHR '':'' \<notin> set ?ys" using set_hex_byte [OF p] set_hex_byte [of "unat p mod 256"] by simp
  have "encodeAddress a b c d p = ?xs @ CHR '':'' # ?ys" by (simp add: encodeAddress_def)
  then show ?thesis
    using split_acc_sep [OF xs, of "[]" ?ys] split_acc_no_sep [OF ys, of "[]"]
    by (simp add: Split_def)
qed

lemma IP_String_quad: "IP_String [a, b, c, d] = dotted a b c d"
  by (simp add: IP_String_def To4_def)

text \<open>
  Claim C5.  For every IPv4 address \<open>a.b.c.d\<close> and every port \<open>p\<close> of 16 bits,
  \<open>decodeAddress\<close> applied to the \<open>/proc/net/tcp\<close> encoding of the endpoint (address
  bytes in little-endian order, port big-endian, hexadecimal) succeeds and yields the dotted
  quad \<open>a.b.c.d\<close> and the port \<open>p\<close>.
\<close>

theorem decodeAddress_roundtrip:
  "decodeAddress (encodeAddress a b c d p) = Inr \<lparr>IP = dotted a b c d, Port32 = ucast p\<rparr>"
proof -
  have "unat p < 2 ^ LENGTH(16)" by (rule unsigned_less)
  then have p: "unat p div 256 < 256" by simp
  have p': "unat p mod 256 < 256" by simp
  have v: "unat p div 256 * 256 + unat p mod 256 = unat p" by simp
  have "word_of_int (int (unat p)) = (ucast p :: 32 word)" by simp
  then show ?thesis
    using ParseInt64_0x [OF p p']
    by (simp add: decodeAddress_def Split_encodeAddress hex_DecodeString_ip v IP_String_quad)
qed

text \<open>The example of the source's comment: \<open>"0500000A:0016"\<close> is \<open>10.0.0.5\<close>, port 22.\<close>

theorem decodeAddress_roundtrip_witness:
  "decodeAddress ''0500000A:0016'' = Inr \<lparr>IP = ''10.0.0.5'', Port32 = 22\<rparr>"
  using decodeAddress_roundtrip [of 10 0 0 5 22]
  by (simp add: encodeAddress_def hex_byte_def HEX_def dotted_def itoa.simps digit_char_def)

section \<open>Decimal numerals\<close>

lemma lt10_cases: "d < 10 \<Longrightarrow> d \<in> {0,1,2,3,4,5,6,7,8,9::nat}"
proof -
  assume "d < 10"
  then have "d = 0 \<or> d = 1 \<or> d = 2 \<or> d = 3 \<or> d = 4 \<or> d = 5 \<or> d = 6 \<or> d = 7 \<or> d = 8 \<or> d = 9"
    by arith
  then show ?thesis by blast
qed

lemma digit_char_decimal: "d < 10 \<Longrightarrow> isDigit (digit_char d) \<and> byte_of (digit_char d) = 48 + d"
  by (drule lt10_cases) (auto simp: digit_char_def isDigit_def byte_of_def)

lemma itoa_digits: "\<forall>c \<in> set (itoa n). isDigit c"
proof (induction n rule: itoa.induct)
  case (1 n)
  show ?case
  proof (cases "n < 10")
    case True
    then show ?thesis using digit_char_decimal [of n] by (simp add: itoa.simps [of n])
  next
    case False
    have "n mod 10 < 10" by simp
    then show ?thesis
      using False 1 digit_char_decimal [of "n mod 10"] by (simp add: itoa.simps [of n])
  qed
qed

lemma itoa_not_many: "itoa n \<noteq> ''many''"
proof
  assume "itoa n = ''many''"
  then have "CHR ''m'' \<in> set (itoa n)" by simp
  then have "isDigit (CHR ''m'')" using itoa_digits by blast
  then show False by (simp add: isDigit_def byte_of_def)
qed

lemma itoa_nonempty: "itoa n \<noteq> []"
  by (subst itoa.simps) simp

lemma digit_val_decimal: "d < 10 \<Longrightarrow> digit_val (digit_char d) = Some d"
  by (drule lt10_cases) (auto simp: digit_char_def digit_val_def byte_of_def)

lemma parse_digits_append:
  "parse_digits b b0 M a (xs @ ys) =
     (case parse_digits b b0 M a xs of
        (v, None) \<Rightarrow> parse_digits b b0 M v ys
      | (v, Some e) \<Rightarrow> (v, Some e))"
  by (induction xs arbitrary: a) (auto split: option.splits)

lemma parse_digits_itoa:
  "n < 2 ^ 64 \<Longrightarrow> parse_digits 10 False (2 ^ 64 - 1) 0 (itoa n) = (n, None)"
proof (induction n rule: itoa.induct)
  case (1 n)
  show ?case
  proof (cases "n < 10")
    case True
    then show ?thesis
      using digit_val_decimal [of n] by (simp add: itoa.simps [of n])
  next
    case False
    have d: "n mod 10 < 10" by simp
    have q: "n div 10 < 2 ^ 64" using 1(2) by simp
    have ih: "parse_digits 10 False (2 ^ 64 - 1) 0 (itoa (n div 10)) = (n div 10, None)"
      using 1(1) [OF False q] .
    have c: "n div 10 < (2 ^ 64 - 1) div 10 + 1" using 1(2) by simp
    have v: "n div 10 * 10 + n mod 10 = n" by simp
    have le: "n \<le> 2 ^ 64 - 1" using 1(2) by simp
    have "parse_digits 10 False (2 ^ 64 - 1) (n div 10) [digit_char (n mod 10)] = (n, None)"
      using c le digit_val_decimal [OF d] d by (simp add: v)
    then show ?thesis
      using False ih by (simp add: itoa.simps [of n] parse_digits_append)
  qed
qed

lemma itoa_inject:
  assumes "n < 2 ^ 64" and "m < 2 ^ 64" and "itoa n = itoa m"
  shows "n = m"
proof -
  have "fst (parse_digits 10 False (2 ^ 64 - 1) 0 (itoa n)) = n"
    using parse_digits_itoa [OF assms(1)] by simp
  moreover have "fst (parse_digits 10 False (2 ^ 64 - 1) 0 (itoa m)) = m"
    using parse_digits_itoa [OF assms(2)] by simp
  ultimately show ?thesis using assms(3) by simp
qed

lemma itoa_hd_not_sign: "hd (itoa n) \<noteq> CHR ''+'' \<and> hd (itoa n) \<noteq> CHR ''-''"
proof -
  have "hd (itoa n) \<in> set (itoa n)" using itoa_nonempty by simp
  then have "isDigit (hd (itoa n))" using itoa_digits by blast
  then show ?thesis by (auto simp: isDigit_def byte_of_def)
qed

lemma Atoi_itoa: "n < 2 ^ 63 \<Longrightarrow> Atoi (itoa n) = Inr (int n)"
proof -
  assume n: "n < 2 ^ 63"
  then have n64: "n < 2 ^ 64" by simp
  have "ParseUint (itoa n) 10 64 = (n, None)"
    using parse_digits_itoa [OF n64] itoa_nonempty [of n] by (simp add: ParseUint_def)
  then show ?thesis
    using n itoa_nonempty [of n] itoa_hd_not_sign [of n] by (simp add: Atoi_def ParseInt64_def)
qed

lemma unat16_lt: "unat (p :: 16 word) < 2 ^ 64"
proof -
  have "unat p < 2 ^ LENGTH(16)" by (rule unsigned_less)
  then show ?thesis by simp
qed

lemma unat32_lt: "unat (p :: 32 word) < 2 ^ 64"
proof -
  have "unat p < 2 ^ LENGTH(32)" by (rule unsigned_less)
  then show ?thesis by simp
qed

section \<open>Listening ports and the classification of connections\<close>

lemma contains_set: "contains strs s \<longleftrightarrow> s \<in> set strs"
  by (induction strs) auto

lemma NetlinkFilter_loop_eq:
  "NetlinkFilter_loop lconns conns = lconns @ filter (\<lambda>m. is_listener (conn_of_msg m)) conns"
  by (induction conns arbitrary: lconns) (auto simp: is_listener_def conn_of_msg_def Let_def)

lemma lport_loop_fst:
  "fst (lport_loop ue lconns (ports, m)) = ports @ map (\<lambda>l. itoa (unat (SrcPort l))) lconns"
  by (induction lconns arbitrary: ports m) (auto simp: Let_def)

lemma Filter_loop_eq:
  "Filter_loop ports conns =
     ports @ map (\<lambda>c. itoa (unat (Port32 (Laddr c)))) (filter (\<lambda>c. is_listener (conn_of_stat c)) conns)"
  by (induction conns arbitrary: ports) (auto simp: is_listener_def conn_of_stat_def)

lemma netlink_ports:
  "set (fst (lport_loop ue (NetlinkFilter_loop [] msgs) ([], Map.empty)))
     = itoa ` listening_ports (map conn_of_msg msgs)"
  by (auto simp: lport_loop_fst NetlinkFilter_loop_eq listening_ports_def filter_map o_def conn_of_msg_def image_iff)

lemma procfs_ports:
  "set (Filter_loop [] stats) = itoa ` listening_ports (map conn_of_stat stats)"
  by (auto simp: Filter_loop_eq listening_ports_def filter_map o_def conn_of_stat_def image_iff)

lemma listening_ports_msg_bound: "p \<in> listening_ports (map conn_of_msg msgs) \<Longrightarrow> p < 2 ^ 64"
  using unat16_lt by (auto simp: listening_ports_def conn_of_msg_def)

lemma listening_ports_stat_bound: "p \<in> listening_ports (map conn_of_stat stats) \<Longrightarrow> p < 2 ^ 64"
  using unat32_lt by (auto simp: listening_ports_def conn_of_stat_def)

lemma itoa_image_iff:
  assumes "\<And>q. q \<in> S \<Longrightarrow> q < 2 ^ 64" and "p < 2 ^ 64"
  shows "itoa p \<in> itoa ` S \<longleftrightarrow> p \<in> S"
  using assms itoa_inject by blast

lemma netlink_contains:
  "contains (fst (lport_loop ue (NetlinkFilter_loop [] msgs) ([], Map.empty))) (itoa (unat (p :: 16 word)))
     \<longleftrightarrow> unat p \<in> listening_ports (map conn_of_msg msgs)"
  using itoa_image_iff [OF listening_ports_msg_bound unat16_lt]
  by (simp add: contains_set netlink_ports)

lemma procfs_contains:
  "contains (Filter_loop [] stats) (itoa (unat (p :: 32 word)))
     \<longleftrightarrow> unat p \<in> listening_ports (map conn_of_stat stats)"
  using itoa_image_iff [OF listening_ports_stat_bound unat32_lt]
  by (simp add: contains_set procfs_ports)

lemma Filter_consts: "FilterAll \<noteq> FilterPublic" "FilterAll \<noteq> FilterPrivate" "FilterPublic \<noteq> FilterPrivate"
  by (simp_all add: FilterAll_def FilterPublic_def FilterPrivate_def)

lemma netlink_flow_None:
  "\<not> (retained (conn_of_msg m) \<and> passes_filter opt m) \<Longrightarrow> netlink_flow opt ue ports lportEnt m = None"
  using Filter_consts
  by (auto simp: netlink_flow_def retained_def conn_of_msg_def passes_filter_def split: if_splits)

lemma netlink_flow_Some:
  assumes "retained (conn_of_msg m)" and "passes_filter opt m"
    and "contains ports (itoa (unat (SrcPort m))) \<longleftrightarrow> unat (SrcPort m) \<in> P"
  shows "\<exists>hf. netlink_flow opt ue ports lportEnt m = Some hf \<and> UniqKey hf = classify P (conn_of_msg m)"
  using assms Filter_consts
  by (auto simp: netlink_flow_def retained_def conn_of_msg_def passes_filter_def classify_def
        UniqKey_def Let_def split: if_splits)

lemma procfs_flow_None:
  "\<not> retained (conn_of_stat c) \<Longrightarrow> procfs_flow ports c = None"
  by (auto simp: procfs_flow_def retained_def conn_of_stat_def)

lemma procfs_flow_Some:
  assumes "retained (conn_of_stat c)"
    and "contains ports (itoa (unat (Port32 (Laddr c)))) \<longleftrightarrow> unat (Port32 (Laddr c)) \<in> P"
  shows "\<exists>hf. procfs_flow ports c = Some hf \<and> UniqKey hf = classify P (conn_of_stat c)"
  using assms
  by (auto simp: procfs_flow_def retained_def conn_of_stat_def classify_def UniqKey_def Let_def)

lemma UniqKey_Connections: "UniqKey (f\<lparr>Connections := n\<rparr>) = UniqKey f"
  by (simp add: UniqKey_def)

lemma Insert_keyed:
  "list_all (\<lambda>(k, f). UniqKey f = k) flows \<Longrightarrow> list_all (\<lambda>(k, f). UniqKey f = k) (Insert flows hf)"
  by (induction flows hf rule: Insert.induct) (auto simp: UniqKey_Connections)

lemma emitted_Insert:
  "list_all (\<lambda>(k, f). UniqKey f = k) flows \<Longrightarrow> emitted (Insert flows hf) = insert (UniqKey hf) (emitted flows)"
  by (induction flows hf rule: Insert.induct) (auto simp: emitted_def UniqKey_Connections)

lemma netlink_loop_emitted:
  "list_all (\<lambda>(k, f). UniqKey f = k) flows \<Longrightarrow>
   emitted (netlink_loop opt ue ports lportEnt conns flows)
     = emitted flows \<union> (\<Union>m \<in> set conns. UniqKey ` set_option (netlink_flow opt ue ports lportEnt m))"
  by (induction conns arbitrary: flows) (auto simp: Insert_keyed emitted_Insert split: option.splits)

lemma procfs_loop_emitted:
  "list_all (\<lambda>(k, f). UniqKey f = k) flows \<Longrightarrow>
   emitted (procfs_loop ports conns flows)
     = emitted flows \<union> (\<Union>c \<in> set conns. UniqKey ` set_option (procfs_flow ports c))"
  by (induction conns arbitrary: flows) (auto simp: Insert_keyed emitted_Insert split: option.splits)

lemma netlink_flows_classified:
  assumes "\<And>m. m \<in> set conns \<Longrightarrow>
             contains ports (itoa (unat (SrcPort m))) \<longleftrightarrow> unat (SrcPort m) \<in> P"
  shows "(\<Union>m \<in> set conns. UniqKey ` set_option (netlink_flow opt ue ports lportEnt m))
         = classify P ` conn_of_msg ` {m \<in> set conns. retained (conn_of_msg m) \<and> passes_filter opt m}"
    (is "?L = ?R")
proof (rule set_eqI)
  fix k
  show "k \<in> ?L \<longleftrightarrow> k \<in> ?R"
  proof
    assume "k \<in> ?L"
    then obtain m hf where m: "m \<in> set conns" and hf: "netlink_flow opt ue ports lportEnt m = Some hf"
      and k: "k = UniqKey hf" by auto
    have r: "retained (conn_of_msg m) \<and> passes_filter opt m"
      using netlink_flow_None [of m opt ue ports lportEnt] hf by auto
    then obtain hf' where "netlink_flow opt ue ports lportEnt m = Some hf'"
      and "UniqKey hf' = classify P (conn_of_msg m)"
      using netlink_flow_Some [of m opt ports P ue lportEnt] assms [OF m] by blast
    then have "k = classify P (conn_of_msg m)" using hf k by simp
    then show "k \<in> ?R" using m r by blast
  next
    assume "k \<in> ?R"
    then obtain m where m: "m \<in> set conns" and r: "retained (conn_of_msg m)" "passes_filter opt m"
      and k: "k = classify P (conn_of_msg m)" by auto
    obtain hf where "netlink_flow opt ue ports lportEnt m = Some hf"
      and "UniqKey hf = classify P (conn_of_msg m)"
      using netlink_flow_Some [OF r, of ports P ue lportEnt] assms [OF m] by blast
    then show "k \<in> ?L" using m k by force
  qed
qed

lemma procfs_flows_classified:
  assumes "\<And>c. c \<in> set conns \<Longrightarrow>
             contains ports (itoa (unat (Port32 (Laddr c)))) \<longleftrightarrow> unat (Port32 (Laddr c)) \<in> P"
  shows "(\<Union>c \<in> set conns. UniqKey ` set_option (procfs_flow ports c))
         = classify P ` {c \<in> conn_of_stat ` set conns. retained c}"
    (is "?L = ?R")
proof (rule set_eqI)
  fix k
  show "k \<in> ?L \<longleftrightarrow> k \<in> ?R"
  proof
    assume "k \<in> ?L"
    then obtain c hf where c: "c \<in> set conns" and hf: "procfs_flow ports c = Some hf"
      and k: "k = UniqKey hf" by auto
    have r: "retained (conn_of_stat c)"
      using procfs_flow_None [of c ports] hf by auto
    then obtain hf' where "procfs_flow ports c = Some hf'"
      and "UniqKey hf' = classify P (conn_of_stat c)"
      using procfs_flow_Some [of c ports P] assms [OF c] by blast
    then have "k = classify P (conn_of_stat c)" using hf k by simp
    then show "k \<in> ?R" using c r by blast
  next
    assume "k \<in> ?R"
    then obtain c where c: "c \<in> set conns" and r: "retained (conn_of_stat c)"
      and k: "k = classify P (conn_of_stat c)" by auto
    obtain hf where "procfs_flow ports c = Some hf"
      and "UniqKey hf = classify P (conn_of_stat c)"
      using procfs_flow_Some [OF r, of ports P] assms [OF c] by blast
    then show "k \<in> ?L" using c k by force
  qed
qed

lemma emitted_SetLookupedName:
  "emitted (map (\<lambda>(k, flow). (k, SetLookupedName w flow)) flows)
     = (\<lambda>k. (fst k, lookup_name w (fst (snd k)), lookup_name w (snd (snd k)))) ` emitted flows"
  by (induction flows) (auto simp: emitted_def SetLookupedName_def UniqKey_def)

text \<open>What \<open>GetHostFlowsByNetlink\<close> returns when it succeeds.\<close>

lemma GetHostFlowsByNetlink_Inr:
  assumes "NetlinkInetDiag w = Inr msgs" and "GetHostFlowsByNetlink w opt = Inr flows"
  shows "\<exists>ue. flows =
           (let tabs = lport_loop ue (NetlinkFilter_loop [] msgs) ([], Map.empty);
                fl = netlink_loop opt ue (fst tabs) (snd tabs) msgs []
            in if Numeric opt then fl else map (\<lambda>(k, flow). (k, SetLookupedName w flow)) fl)"
proof (cases "Processes opt")
  case False
  then have "flows =
           (let tabs = lport_loop None (NetlinkFilter_loop [] msgs) ([], Map.empty);
                fl = netlink_loop opt None (fst tabs) (snd tabs) msgs []
            in if Numeric opt then fl else map (\<lambda>(k, flow). (k, SetLookupedName w flow)) fl)"
    using assms
    by (auto simp: GetHostFlowsByNetlink_def NetlinkConnections_def
          NetlinkFilterByLocalListeningPorts_def Let_def split: prod.splits)
  then show ?thesis by blast
next
  case True
  then obtain m where m: "BuildUserEntries w = Inr m"
    using assms(2) by (cases "BuildUserEntries w") (auto simp: GetHostFlowsByNetlink_def)
  have "flows =
           (let tabs = lport_loop (Some m) (NetlinkFilter_loop [] msgs) ([], Map.empty);
                fl = netlink_loop opt (Some m) (fst tabs) (snd tabs) msgs []
            in if Numeric opt then fl else map (\<lambda>(k, flow). (k, SetLookupedName w flow)) fl)"
    using assms True m
    by (auto simp: GetHostFlowsByNetlink_def NetlinkConnections_def
          NetlinkFilterByLocalListeningPorts_def Let_def split: prod.splits)
  then show ?thesis by blast
qed

lemma netlink_emitted:
  assumes "NetlinkInetDiag w = Inr msgs" and "GetHostFlowsByNetlink w opt = Inr flows"
  shows "emitted flows =
           resolved w opt ` classify (listening_ports (map conn_of_msg msgs)) ` conn_of_msg `
             {m \<in> set msgs. retained (conn_of_msg m) \<and> passes_filter opt m}"
proof -
  obtain ue where fl: "flows =
           (let tabs = lport_loop ue (NetlinkFilter_loop [] msgs) ([], Map.empty);
                fl = netlink_loop opt ue (fst tabs) (snd tabs) msgs []
            in if Numeric opt then fl else map (\<lambda>(k, flow). (k, SetLookupedName w flow)) fl)"
    using GetHostFlowsByNetlink_Inr [OF assms] by blast
  let ?tabs = "lport_loop ue (NetlinkFilter_loop [] msgs) ([], Map.empty)"
  let ?fl = "netlink_loop opt ue (fst ?tabs) (snd ?tabs) msgs []"
  let ?P = "listening_ports (map conn_of_msg msgs)"
  have "emitted ?fl = (\<Union>m \<in> set msgs. UniqKey ` set_option (netlink_flow opt ue (fst ?tabs) (snd ?tabs) m))"
    using netlink_loop_emitted [of "[]" opt ue "fst ?tabs" "snd ?tabs" msgs] by (simp add: emitted_def)
  also have "\<dots> = classify ?P ` conn_of_msg ` {m \<in> set msgs. retained (conn_of_msg m) \<and> passes_filter opt m}"
    by (rule netlink_flows_classified) (rule netlink_contains)
  finally have e: "emitted ?fl =
      classify ?P ` conn_of_msg ` {m \<in> set msgs. retained (conn_of_msg m) \<and> passes_filter opt m}" .
  show ?thesis
  proof (cases "Numeric opt")
    case True
    then have "flows = ?fl" using fl by (simp add: Let_def)
    moreover have "resolved w opt = (\<lambda>k. k)" using True by (simp add: resolved_def fun_eq_iff)
    ultimately show ?thesis using e by simp
  next
    case False
    then have "flows = map (\<lambda>(k, flow). (k, SetLookupedName w flow)) ?fl" using fl by (simp add: Let_def)
    moreover have "resolved w opt = (\<lambda>k. (fst k, lookup_name w (fst (snd k)), lookup_name w (snd (snd k))))"
      using False by (simp add: resolved_def fun_eq_iff)
    ultimately show ?thesis using e by (simp add: emitted_SetLookupedName)
  qed
qed

lemma procfs_emitted:
  assumes "ProcfsConnections w = Inr stats" and "GetHostFlowsByProcfs w = Inr flows"
  shows "emitted flows =
           classify (listening_ports (map conn_of_stat stats)) ` {c \<in> conn_of_stat ` set stats. retained c}"
proof -
  have fl: "flows = procfs_loop (Filter_loop [] stats) stats []"
    using assms by (simp add: GetHostFlowsByProcfs_def FilterByLocalListeningPorts_def)
  have "emitted flows = (\<Union>c \<in> set stats. UniqKey ` set_option (procfs_flow (Filter_loop [] stats) c))"
    using procfs_loop_emitted [of "[]" "Filter_loop [] stats" stats] fl by (simp add: emitted_def)
  also have "\<dots> = classify (listening_ports (map conn_of_stat stats)) ` {c \<in> conn_of_stat ` set stats. retained c}"
    by (rule procfs_flows_classified) (rule procfs_contains)
  finally show ?thesis .
qed

section \<open>The procfs builder against the netlink builder\<close>

lemma unat_ucast_16_32: "unat (ucast (p :: 16 word) :: 32 word) = unat p"
proof -
  have "unat p < 2 ^ LENGTH(16)" by (rule unsigned_less)
  then have "unat p < 2 ^ 32" by simp
  then show ?thesis by (simp add: unsigned_ucast_eq take_bit_nat_eq_self)
qed

lemma conn_of_stat_of_msg: "conn_of_stat (stat_of_msg m) = conn_of_msg m"
  by (simp add: conn_of_stat_def stat_of_msg_def conn_of_msg_def unat_ucast_16_32)

lemma netlink_flow_procfs_flow:
  assumes "Filter opt \<noteq> FilterPublic" and "Filter opt \<noteq> FilterPrivate"
  shows "map_option (\<lambda>hf. hf\<lparr>Process := None\<rparr>) (netlink_flow opt ue ports lportEnt m)
         = procfs_flow ports (stat_of_msg m)"
  using assms
  by (simp add: netlink_flow_def procfs_flow_def stat_of_msg_def unat_ucast_16_32 Let_def)

lemma UniqKey_Process: "UniqKey (hf\<lparr>Process := x\<rparr>) = UniqKey hf"
  by (simp add: UniqKey_def)

lemma without_process_Insert:
  "without_process (Insert flows hf) = Insert (without_process flows) (hf\<lparr>Process := None\<rparr>)"
  by (induction flows hf rule: Insert.induct) (auto simp: without_process_def UniqKey_Process)

lemma without_process_netlink_loop:
  assumes "Filter opt \<noteq> FilterPublic" and "Filter opt \<noteq> FilterPrivate"
  shows "without_process (netlink_loop opt ue ports lportEnt msgs flows)
         = procfs_loop ports (map stat_of_msg msgs) (without_process flows)"
proof (induction msgs arbitrary: flows)
  case Nil
  show ?case by simp
next
  case (Cons m msgs)
  show ?case
  proof (cases "netlink_flow opt ue ports lportEnt m")
    case None
    then have "procfs_flow ports (stat_of_msg m) = None"
      using netlink_flow_procfs_flow [OF assms, of ue ports lportEnt m] by simp
    then show ?thesis using None Cons by simp
  next
    case (Some hf)
    then have "procfs_flow ports (stat_of_msg m) = Some (hf\<lparr>Process := None\<rparr>)"
      using netlink_flow_procfs_flow [OF assms, of ue ports lportEnt m] by simp
    then show ?thesis using Some Cons by (simp add: without_process_Insert)
  qed
qed

lemma ports_netlink_procfs:
  "fst (lport_loop ue (NetlinkFilter_loop [] msgs) ([], Map.empty)) = Filter_loop [] (map stat_of_msg msgs)"
proof -
  have "\<And>m. Port32 (Laddr (stat_of_msg m)) = ucast (SrcPort m)" by (simp add: stat_of_msg_def)
  then show ?thesis
    by (simp add: lport_loop_fst NetlinkFilter_loop_eq Filter_loop_eq filter_map o_def
          conn_of_stat_of_msg unat_ucast_16_32)
qed

lemma procfs_refines_netlink:
  assumes "NetlinkInetDiag w = Inr msgs"
    and "ProcfsConnections w = Inr (map stat_of_msg msgs)"
    and "Filter opt \<noteq> FilterPublic" and "Filter opt \<noteq> FilterPrivate" and "Numeric opt"
    and "GetHostFlowsByNetlink w opt = Inr flows"
  shows "GetHostFlowsByProcfs w = Inr (without_process flows)"
proof -
  obtain ue where fl: "flows =
           (let tabs = lport_loop ue (NetlinkFilter_loop [] msgs) ([], Map.empty);
                fl = netlink_loop opt ue (fst tabs) (snd tabs) msgs []
            in if Numeric opt then fl else map (\<lambda>(k, flow). (k, SetLookupedName w flow)) fl)"
    using GetHostFlowsByNetlink_Inr [OF assms(1) assms(6)] by blast
  let ?tabs = "lport_loop ue (NetlinkFilter_loop [] msgs) ([], Map.empty)"
  have "flows = netlink_loop opt ue (fst ?tabs) (snd ?tabs) msgs []"
    using fl assms(5) by (simp add: Let_def)
  then have "without_process flows = procfs_loop (fst ?tabs) (map stat_of_msg msgs) []"
    using without_process_netlink_loop [OF assms(3) assms(4), of ue "fst ?tabs" "snd ?tabs" msgs "[]"]
    by (simp add: without_process_def)
  then show ?thesis
    using assms(2)
    by (simp add: GetHostFlowsByProcfs_def FilterByLocalListeningPorts_def ports_netlink_procfs)
qed

section \<open>Errors of the process walk and the fallback\<close>

text \<open>The errors of a scan are plain errors: none of them is a \<open>*NetlinkError\<close>.\<close>

lemma SkipSpace_error: "SkipSpace nl rs = Inl e \<Longrightarrow> \<not> As_NetlinkError e"
  by (induction rs) (auto split: if_splits)

lemma advance_error: "advance fs rs = Inl e \<Longrightarrow> \<not> As_NetlinkError e"
  by (induction fs rs rule: advance.induct) (auto simp: io_ErrUnexpectedEOF_def split: if_splits)

lemma scanNumber_error: "scanNumber digits haveDigits rs = Inl e \<Longrightarrow> \<not> As_NetlinkError e"
  by (auto simp: scanNumber_def io_EOF_def split: if_splits)

lemma convertString_error: "convertString nl rs = Inl e \<Longrightarrow> \<not> As_NetlinkError e"
  using SkipSpace_error by (auto simp: convertString_def io_EOF_def split: sum.splits if_splits)

lemma scanInt_error: "scanInt nl rs = Inl e \<Longrightarrow> \<not> As_NetlinkError e"
  using SkipSpace_error scanNumber_error
  by (auto simp: scanInt_def io_EOF_def NumError_def Let_def split: sum.splits if_splits prod.splits)

lemma scanUint_error: "scanUint bitSize rs = Inl e \<Longrightarrow> \<not> As_NetlinkError e"
  using SkipSpace_error scanNumber_error
  by (auto simp: scanUint_def io_EOF_def NumError_def split: sum.splits if_splits prod.splits option.splits)

lemma Fscan_stat_error: "Fscan_stat text = Inl e \<Longrightarrow> \<not> As_NetlinkError e"
  using scanInt_error convertString_error
  by (auto simp: Fscan_stat_def split: sum.splits prod.splits)

lemma Sscanf_comm_error: "Sscanf_comm comm = (word, Some e) \<Longrightarrow> \<not> As_NetlinkError e"
  using advance_error convertString_error
  by (auto simp: Sscanf_comm_def split: sum.splits prod.splits)

lemma parseSocketInode_error: "parseSocketInode lnk = Inl e \<Longrightarrow> \<not> As_NetlinkError e"
  using advance_error scanUint_error
  by (auto simp: parseSocketInode_def Sscanf_socket_def split: if_splits sum.splits prod.splits)

lemma parseProcStat_error: "parseProcStat w root p = Inl e \<Longrightarrow> \<not> As_NetlinkError e"
  using Fscan_stat_error Sscanf_comm_error
  by (auto simp: parseProcStat_def Let_def split: sum.splits prod.splits option.splits if_splits)

lemma fd_loop_error:
  "fd_loop w root fdDir p dir2 (stat, st) = Inl e \<Longrightarrow> \<not> As_NetlinkError e"
proof (induction dir2 arbitrary: stat st)
  case Nil
  then show ?case by simp
next
  case (Cons d2 dir2)
  show ?case
    using Cons.prems Cons.IH parseSocketInode_error parseProcStat_error
    by (auto simp: Let_def split: sum.splits if_splits option.splits)
qed

lemma pid_loop_error:
  "pid_loop w root dir st = Inl e \<Longrightarrow> \<not> As_NetlinkError e"
proof (induction dir arbitrary: st)
  case Nil
  then show ?case by simp
next
  case (Cons d dir)
  show ?case
    using Cons.prems Cons.IH fd_loop_error
    by (auto simp: Let_def split: sum.splits if_splits)
qed

lemma BuildUserEntries_error: "BuildUserEntries w = Inl e \<Longrightarrow> \<not> As_NetlinkError e"
  using pid_loop_error
  by (auto simp: BuildUserEntries_def BuildUserEntries_walk_def Let_def split: sum.splits)

lemma GetHostFlowsByNetlink_BuildUserEntries_error:
  "Processes opt \<Longrightarrow> BuildUserEntries w = Inl e \<Longrightarrow> GetHostFlowsByNetlink w opt = Inl e"
  by (simp add: GetHostFlowsByNetlink_def)

lemma NetlinkConnections_error:
  "NetlinkInetDiag w = Inl e0 \<Longrightarrow> \<exists>err. NetlinkConnections w = Inl err \<and> As_NetlinkError err"
  by (simp add: NetlinkConnections_def)

lemma GetHostFlowsByNetlink_netlink_error:
  assumes "NetlinkInetDiag w = Inl e0" and "\<not> Processes opt \<or> (\<exists>m. BuildUserEntries w = Inr m)"
  shows "\<exists>err. GetHostFlowsByNetlink w opt = Inl err \<and> As_NetlinkError err"
  using assms by (auto simp: GetHostFlowsByNetlink_def NetlinkConnections_def)

text \<open>
  Claim C3.  \<open>GetHostFlows\<close> returns the result of the netlink path when it succeeds;
  when the netlink path fails with an error that \<open>xerrors.As\<close> matches to
  \<open>*NetlinkError\<close> it returns what the procfs path returns; any other error is returned
  unchanged.  Every failure of \<open>linux.NetlinkInetDiag\<close> makes \<open>NetlinkConnections\<close> fail
  with a matching error, so the fallback is taken whenever the kernel query fails and the
  process map was built or not asked for; a failure of \<open>BuildUserEntries\<close> never matches
  and is returned as it is.
\<close>

theorem GetHostFlows_fallback:
  "(GetHostFlowsByNetlink w opt = Inr flows \<longrightarrow> GetHostFlows w opt = Inr flows) \<and>
   (GetHostFlowsByNetlink w opt = Inl err \<and> As_NetlinkError err \<longrightarrow>
      GetHostFlows w opt = GetHostFlowsByProcfs w) \<and>
   (GetHostFlowsByNetlink w opt = Inl err \<and> \<not> As_NetlinkError err \<longrightarrow>
      GetHostFlows w opt = Inl err) \<and>
   (NetlinkInetDiag w = Inl e0 \<longrightarrow> (\<exists>err'. NetlinkConnections w = Inl err' \<and> As_NetlinkError err')) \<and>
   (NetlinkInetDiag w = Inl e0 \<and> (\<not> Processes opt \<or> (\<exists>m. BuildUserEntries w = Inr m)) \<longrightarrow>
      GetHostFlows w opt = GetHostFlowsByProcfs w) \<and>
   (Processes opt \<and> BuildUserEntries w = Inl e1 \<longrightarrow>
      \<not> As_NetlinkError e1 \<and> GetHostFlows w opt = Inl e1)"
proof (intro conjI impI)
  assume "GetHostFlowsByNetlink w opt = Inr flows"
  then show "GetHostFlows w opt = Inr flows" by (simp add: GetHostFlows_def)
next
  assume "GetHostFlowsByNetlink w opt = Inl err \<and> As_NetlinkError err"
  then show "GetHostFlows w opt = GetHostFlowsByProcfs w" by (simp add: GetHostFlows_def)
next
  assume "GetHostFlowsByNetlink w opt = Inl err \<and> \<not> As_NetlinkError err"
  then show "GetHostFlows w opt = Inl err" by (simp add: GetHostFlows_def)
next
  assume "NetlinkInetDiag w = Inl e0"
  then show "\<exists>err'. NetlinkConnections w = Inl err' \<and> As_NetlinkError err'"
    by (rule NetlinkConnections_error)
next
  assume a: "NetlinkInetDiag w = Inl e0 \<and> (\<not> Processes opt \<or> (\<exists>m. BuildUserEntries w = Inr m))"
  then obtain err' where "GetHostFlowsByNetlink w opt = Inl err'" and "As_NetlinkError err'"
    using GetHostFlowsByNetlink_netlink_error [of w e0 opt] by blast
  then show "GetHostFlows w opt = GetHostFlowsByProcfs w" by (simp add: GetHostFlows_def)
next
  assume a: "Processes opt \<and> BuildUserEntries w = Inl e1"
  then show "\<not> As_NetlinkError e1" using BuildUserEntries_error by blast
next
  assume a: "Processes opt \<and> BuildUserEntries w = Inl e1"
  then have "GetHostFlowsByNetlink w opt = Inl e1"
    using GetHostFlowsByNetlink_BuildUserEntries_error by blast
  moreover have "\<not> As_NetlinkError e1" using a BuildUserEntries_error by blast
  ultimately show "GetHostFlows w opt = Inl e1" by (simp add: GetHostFlows_def)
qed

lemma parseSocketInode_non_socket:
  "\<not> has_substring socketPrefix lnk \<Longrightarrow> parseSocketInode lnk = Inr 0"
  by (simp add: parseSocketInode_def)

lemma fd_loop_skip:
  assumes "\<And>d2 fdnum. d2 \<in> set dir2 \<Longrightarrow> Atoi (fi_Name d2) = Inr fdnum \<Longrightarrow>
             \<exists>lnk. Readlink w (Join fdDir (fi_Name d2)) = Inr lnk \<and> parseSocketInode lnk = Inr 0"
  shows "fd_loop w root fdDir p dir2 (stat, st) = Inr (stat, st)"
  using assms
proof (induction dir2)
  case Nil
  show ?case by simp
next
  case (Cons d2 dir2)
  have ih: "fd_loop w root fdDir p dir2 (stat, st) = Inr (stat, st)"
    using Cons by simp
  show ?case
  proof (cases "Atoi (fi_Name d2)")
    case (Inl e)
    then show ?thesis using ih by simp
  next
    case (Inr fdnum)
    then obtain lnk where "Readlink w (Join fdDir (fi_Name d2)) = Inr lnk" and "parseSocketInode lnk = Inr 0"
      using Cons.prems [of d2 fdnum] by auto
    then show ?thesis using Inr ih by (simp add: Let_def)
  qed
qed

section \<open>The example host, evaluated\<close>

lemma IP_String_IPv4: "IP_String (IPv4 a b c d) = dotted a b c d"
  by (simp add: IP_String_def IPv4_def To4_def numeral_eq_Suc)

text \<open>A byte below 128 is a rune of its own.\<close>

lemma DecodeRune_ascii: "byte_of c < 128 \<Longrightarrow> DecodeRune (c # cs) = (byte_of c, 1)"
  by (simp add: DecodeRune.simps)

lemma range_string_ascii:
  "byte_of c < 128 \<Longrightarrow> range_string (c # cs) = (byte_of c, [c]) # range_string cs"
  by (simp add: range_string.simps DecodeRune_ascii)

lemma EncodeRune_ascii: "r < 128 \<Longrightarrow> EncodeRune r = [char_of r]"
  by (simp add: EncodeRune_def)

lemmas eval_strings =
  Split_def Fields_def IsSpace_def range_string_ascii byte_of_def lower_def digit_val_def fromHexChar_def
  ParseInt64_def ParseUint_def Atoi_def itoa.simps digit_char_def dotted_def newline_def
  Join_def Clean_def itoa_int_def isDigit_def

lemmas eval_scan =
  readRunes_def token_string_def EncodeRune_ascii accepts_def binaryDigits_def octalDigits_def
  decimalDigits_def hexadecimalDigits_def scanBasePrefix_def scanNumber_def scanInt_def scanUint_def
  convertString_def Fscan_stat_def Sscanf_comm_def io_EOF_def io_ErrUnexpectedEOF_def NumError_def
  char_of_def bit_Suc_0_iff

lemma example_files:
  "PROC_ROOT example_host = []"
  "Getpid example_host = 1"
  "ReadDir example_host ''/proc'' =
     Inr [\<lparr>fi_Name = ''1'', fi_IsDir = True\<rparr>, \<lparr>fi_Name = ''42'', fi_IsDir = True\<rparr>,
          \<lparr>fi_Name = ''43'', fi_IsDir = True\<rparr>, \<lparr>fi_Name = ''44'', fi_IsDir = True\<rparr>,
          \<lparr>fi_Name = ''net'', fi_IsDir = True\<rparr>, \<lparr>fi_Name = ''uptime'', fi_IsDir = False\<rparr>]"
  "ReadDir example_host ''/proc/42/fd'' =
     Inr [\<lparr>fi_Name = ''0'', fi_IsDir = False\<rparr>, \<lparr>fi_Name = ''3'', fi_IsDir = False\<rparr>]"
  "ReadDir example_host ''/proc/43/fd'' = Inr [\<lparr>fi_Name = ''5'', fi_IsDir = False\<rparr>]"
  "ReadDir example_host ''/proc/44/fd'' =
     Inr [\<lparr>fi_Name = ''0'', fi_IsDir = False\<rparr>, \<lparr>fi_Name = ''1'', fi_IsDir = False\<rparr>]"
  "Stat example_host ''/proc/42/fd'' = Inr \<lparr>fi_Name = ''fd'', fi_IsDir = True\<rparr>"
  "Stat example_host ''/proc/43/fd'' = Inr \<lparr>fi_Name = ''fd'', fi_IsDir = True\<rparr>"
  "Stat example_host ''/proc/44/fd'' = Inr \<lparr>fi_Name = ''fd'', fi_IsDir = True\<rparr>"
  "Stat example_host ''/proc/net/fd'' = Inl ENOENT"
  "Readlink example_host ''/proc/42/fd/0'' = Inr ''/dev/null''"
  "Readlink example_host ''/proc/42/fd/3'' = Inr ''socket:[100]''"
  "Readlink example_host ''/proc/43/fd/5'' = Inr ''socket:[102]''"
  "Readlink example_host ''/proc/44/fd/0'' = Inr ''/dev/pts/0''"
  "Readlink example_host ''/proc/44/fd/1'' = Inr ''pipe:[7301]''"
  "ReadFile example_host ''/proc/42/stat'' = Inr ''42 (nginx) S 1 1002 1002 0 -1''"
  "ReadFile example_host ''/proc/43/stat'' = Inr ''43 (python) S 1 1001 1001 0 -1''"
  "ReadFile example_host ''/proc/net/tcp'' = Inr example_tcp"
  "NetlinkInetDiag example_host = Inr example_msgs"
  by (simp_all add: example_host_def)

lemma example_ProcfsConnections:
  "ProcfsConnections example_host = Inr (map stat_of_msg example_msgs)"
  by (simp add: ProcfsConnections_def example_files tcpProcFilename_def example_tcp_def
        example_msgs_def List.map_filter_def stat_of_msg_def parse_tcp_line_def decodeAddress_def
        IP_String_quad IP_String_IPv4 TCP_LISTEN_def TCP_ESTABLISHED_def eval_strings)

lemma example_parseProcStat:
  "parseProcStat example_host ''/proc'' 42 = Inr \<lparr>Pname = ''nginx'', Ppid = 1, Pgrp = 1002\<rparr>"
  "parseProcStat example_host ''/proc'' 43 = Inr \<lparr>Pname = ''python'', Ppid = 1, Pgrp = 1001\<rparr>"
  by (simp_all add: parseProcStat_def example_files TrimRight_paren_def eval_strings eval_scan)

lemma example_parseSocketInode:
  "parseSocketInode ''/dev/null'' = Inr 0"
  "parseSocketInode ''/dev/pts/0'' = Inr 0"
  "parseSocketInode ''pipe:[7301]'' = Inr 0"
  "parseSocketInode ''socket:[100]'' = Inr 100"
  "parseSocketInode ''socket:[102]'' = Inr 102"
  by (simp_all add: parseSocketInode_def socketPrefix_def Sscanf_socket_def eval_strings eval_scan)

lemma example_Atoi:
  "Atoi ''0'' = Inr 0" "Atoi ''1'' = Inr 1" "Atoi ''3'' = Inr 3" "Atoi ''5'' = Inr 5"
  "Atoi ''42'' = Inr 42" "Atoi ''43'' = Inr 43" "Atoi ''44'' = Inr 44" "Atoi ''net'' = Inl ErrSyntax"
  by (simp_all add: eval_strings)

lemma example_walk:
  "BuildUserEntries_walk example_host =
     Inr \<lparr>userEnts = [100 \<mapsto> \<lparr>inode = 100, fd = 3, pid = 42, pname = ''nginx'', ppid = 1, pgrp = 1002\<rparr>,
                      102 \<mapsto> \<lparr>inode = 102, fd = 5, pid = 43, pname = ''python'', ppid = 1, pgrp = 1001\<rparr>],
          stat_reads = [42, 43]\<rparr>"
  by (simp add: BuildUserEntries_walk_def proc_root_def example_parseProcStat example_parseSocketInode
        example_files example_Atoi Join_def Clean_def Split_def ENOENT_def EACCES_def Let_def)

lemma example_BuildUserEntries:
  "BuildUserEntries example_host =
     Inr [100 \<mapsto> \<lparr>inode = 100, fd = 3, pid = 42, pname = ''nginx'', ppid = 1, pgrp = 1002\<rparr>,
          102 \<mapsto> \<lparr>inode = 102, fd = 5, pid = 43, pname = ''python'', ppid = 1, pgrp = 1001\<rparr>]"
  by (simp add: BuildUserEntries_def example_walk)

lemma example_strings:
  "itoa 80 = ''80''" "itoa 0 = ''0''" "itoa 44500 = ''44500''" "itoa 54321 = ''54321''" "itoa 5432 = ''5432''"
  "dotted 0 0 0 0 = ''0.0.0.0''" "dotted 10 0 0 1 = ''10.0.0.1''" "dotted 10 0 0 2 = ''10.0.0.2''"
  by (simp_all add: itoa.simps digit_char_def dotted_def)

lemma example_private: "IsPrivateIP (IPv4 10 0 0 2)"
  by (simp add: IsPrivateIP_def IPv4_def To4_def numeral_eq_Suc)

lemmas eval_builder =
  GetHostFlowsByNetlink_def NetlinkConnections_def NetlinkFilterByLocalListeningPorts_def
  netlink_flow_def process_of_def UniqKey_def example_files example_msgs_def example_strings
  IP_String_IPv4 TCP_LISTEN_def TCP_ESTABLISHED_def TCP_SYN_SENT_def TCP_SYN_RECV_def
  FilterAll_def FilterPublic_def FilterPrivate_def Let_def

lemma example_netlink_processes:
  "GetHostFlowsByNetlink example_host \<lparr>Numeric = True, Processes = True, Filter = FilterAll\<rparr> =
     Inr example_flows_attributed"
  by (simp add: example_flows_attributed_def eval_builder example_BuildUserEntries)

lemma example_netlink_plain:
  "GetHostFlowsByNetlink example_host \<lparr>Numeric = True, Processes = False, Filter = FilterAll\<rparr> =
     Inr example_flows"
  by (simp add: example_flows_def eval_builder)

lemma example_netlink_public:
  "GetHostFlowsByNetlink example_host \<lparr>Numeric = True, Processes = False, Filter = FilterPublic\<rparr> = Inr []"
  by (simp add: eval_builder example_private)

lemma example_netlink_names:
  "GetHostFlowsByNetlink example_host \<lparr>Numeric = False, Processes = False, Filter = FilterAll\<rparr> =
     Inr example_flows_named"
  by (simp add: example_flows_named_def eval_builder SetLookupedName_def lookup_name_def example_host_def)

lemma example_procfs:
  "GetHostFlowsByProcfs example_host =
     Inr example_flows"
  by (simp add: example_flows_def GetHostFlowsByProcfs_def example_ProcfsConnections FilterByLocalListeningPorts_def
        procfs_flow_def stat_of_msg_def example_msgs_def example_strings IP_String_IPv4 UniqKey_def
        TCP_LISTEN_def TCP_ESTABLISHED_def TCP_SYN_SENT_def TCP_SYN_RECV_def Let_def)

section \<open>The claims on the flow builders\<close>

text \<open>
  Claim C9.  The listening-port set derived from a list of connections holds exactly the
  local ports of the connections whose state is \<open>LISTEN\<close> and whose local address is
  \<open>0.0.0.0\<close>, \<open>::\<close> or \<open>127.0.0.1\<close>; every other connection contributes no port.  This
  holds for the netlink derivation (\<open>NetlinkFilterByLocalListeningPorts\<close> and the first loop
  of \<open>GetHostFlowsByNetlink\<close>) and for the procfs one (\<open>FilterByLocalListeningPorts\<close>).  The
  ports are kept as decimal strings; membership of the string of a port, as \<open>contains\<close>
  tests it, is membership of the port.
\<close>

theorem listening_port_set:
  "(\<exists>lconns. NetlinkFilterByLocalListeningPorts msgs = Inr lconns \<and>
      set (fst (lport_loop ue lconns ([], Map.empty))) = itoa ` listening_ports (map conn_of_msg msgs) \<and>
      (\<forall>p :: 16 word. contains (fst (lport_loop ue lconns ([], Map.empty))) (itoa (unat p))
                        = (unat p \<in> listening_ports (map conn_of_msg msgs)))) \<and>
   (\<exists>ports. FilterByLocalListeningPorts stats = Inr ports \<and>
      set ports = itoa ` listening_ports (map conn_of_stat stats) \<and>
      (\<forall>p :: 32 word. contains ports (itoa (unat p))
                        = (unat p \<in> listening_ports (map conn_of_stat stats))))"
  using netlink_ports [of ue msgs] netlink_contains [of ue msgs]
        procfs_ports [of stats] procfs_contains [of stats]
  by (simp add: NetlinkFilterByLocalListeningPorts_def FilterByLocalListeningPorts_def)

text \<open>
  Claim C1, as amended.  The flows the netlink builder emits are exactly the flows the
  classification rule gives for the connections whose state is not \<open>LISTEN\<close>,
  \<open>SYN_SENT\<close> or \<open>SYN_RECV\<close> and which pass the optional address filter, with the addresses
  replaced by resolved names when numeric mode is off: a connection whose local port is in
  the listening-port set gives a passive flow with local = (local IP, local port) and
  peer = (remote IP, "many"), any other an active flow with local = (local IP, "many") and
  peer = (remote IP, remote port).  The procfs builder emits exactly the flows of the rule
  for the connections whose state is not one of the three; it has no filter and resolves
  no name.
\<close>

theorem flows_follow_classification:
  "(NetlinkInetDiag w = Inr msgs \<and> GetHostFlowsByNetlink w opt = Inr flows \<longrightarrow>
      emitted flows =
        set (map (resolved w opt \<circ> classify (listening_ports (map conn_of_msg msgs)) \<circ> conn_of_msg)
               (filter (\<lambda>m. retained (conn_of_msg m) \<and> passes_filter opt m) msgs))) \<and>
   (ProcfsConnections w = Inr stats \<and> GetHostFlowsByProcfs w = Inr flows' \<longrightarrow>
      emitted flows' =
        set (map (classify (listening_ports (map conn_of_stat stats)) \<circ> conn_of_stat)
               (filter (retained \<circ> conn_of_stat) stats)))"
proof (intro conjI impI)
  assume a: "NetlinkInetDiag w = Inr msgs \<and> GetHostFlowsByNetlink w opt = Inr flows"
  have "emitted flows =
           resolved w opt ` classify (listening_ports (map conn_of_msg msgs)) ` conn_of_msg `
             {m \<in> set msgs. retained (conn_of_msg m) \<and> passes_filter opt m}"
    using a netlink_emitted by blast
  then show "emitted flows =
        set (map (resolved w opt \<circ> classify (listening_ports (map conn_of_msg msgs)) \<circ> conn_of_msg)
               (filter (\<lambda>m. retained (conn_of_msg m) \<and> passes_filter opt m) msgs))"
    by (simp add: image_image)
next
  assume a: "ProcfsConnections w = Inr stats \<and> GetHostFlowsByProcfs w = Inr flows'"
  have "emitted flows' =
           classify (listening_ports (map conn_of_stat stats)) ` {c \<in> conn_of_stat ` set stats. retained c}"
    using a procfs_emitted by blast
  moreover have "{c \<in> conn_of_stat ` set stats. retained c} = conn_of_stat ` {s \<in> set stats. retained (conn_of_stat s)}"
    by auto
  ultimately show "emitted flows' =
        set (map (classify (listening_ports (map conn_of_stat stats)) \<circ> conn_of_stat)
               (filter (retained \<circ> conn_of_stat) stats))"
    by (simp add: image_image)
qed

lemma example_emitted:
  "emitted example_flows =
     {(FlowPassive, \<lparr>Addr = ''10.0.0.1'', Port = ''80''\<rparr>, \<lparr>Addr = ''10.0.0.2'', Port = ''many''\<rparr>),
      (FlowActive, \<lparr>Addr = ''10.0.0.1'', Port = ''many''\<rparr>, \<lparr>Addr = ''10.0.0.2'', Port = ''5432''\<rparr>)}"
  "emitted example_flows_attributed = emitted example_flows"
  "emitted example_flows_named =
     {(FlowPassive, \<lparr>Addr = ''10.0.0.1'', Port = ''80''\<rparr>, \<lparr>Addr = ''db.example'', Port = ''many''\<rparr>),
      (FlowActive, \<lparr>Addr = ''10.0.0.1'', Port = ''many''\<rparr>, \<lparr>Addr = ''db.example'', Port = ''5432''\<rparr>)}"
  by (simp_all add: emitted_def example_flows_def example_flows_attributed_def example_flows_named_def UniqKey_def)

text \<open>On the example host both builders succeed and emit the two flows of the rule.\<close>

theorem flows_follow_classification_witness:
  "NetlinkInetDiag example_host = Inr example_msgs \<and>
   GetHostFlowsByNetlink example_host \<lparr>Numeric = True, Processes = True, Filter = FilterAll\<rparr>
     = Inr example_flows_attributed \<and>
   ProcfsConnections example_host = Inr (map stat_of_msg example_msgs) \<and>
   GetHostFlowsByProcfs example_host = Inr example_flows \<and>
   emitted example_flows_attributed =
     set (map (resolved example_host \<lparr>Numeric = True, Processes = True, Filter = FilterAll\<rparr>
               \<circ> classify (listening_ports (map conn_of_msg example_msgs)) \<circ> conn_of_msg)
            (filter (\<lambda>m. retained (conn_of_msg m) \<and>
                         passes_filter \<lparr>Numeric = True, Processes = True, Filter = FilterAll\<rparr> m)
               example_msgs)) \<and>
   emitted example_flows =
     set (map (classify (listening_ports (map conn_of_stat (map stat_of_msg example_msgs))) \<circ> conn_of_stat)
            (filter (retained \<circ> conn_of_stat) (map stat_of_msg example_msgs)))"
  using flows_follow_classification
          [of example_host example_msgs "\<lparr>Numeric = True, Processes = True, Filter = FilterAll\<rparr>"
              example_flows_attributed "map stat_of_msg example_msgs" example_flows]
  by (simp add: example_files example_netlink_processes example_ProcfsConnections example_procfs)

lemma example_third:
  "example_msgs ! 2 = \<lparr>State = TCP_ESTABLISHED, SrcIP = IPv4 10 0 0 1, SrcPort = 54321,
                         DstIP = IPv4 10 0 0 2, DstPort = 5432, Inode = 102\<rparr>"
  by (simp add: example_msgs_def)

lemma example_listening_ports: "listening_ports (map conn_of_msg example_msgs) = {80}"
  by (simp add: listening_ports_def conn_of_msg_def example_msgs_def is_listener_def IP_String_IPv4
        example_strings TCP_LISTEN_def TCP_ESTABLISHED_def)

lemma example_classify_third:
  "classify (listening_ports (map conn_of_msg example_msgs)) (conn_of_msg (example_msgs ! 2))
     = (FlowActive, \<lparr>Addr = ''10.0.0.1'', Port = ''many''\<rparr>, \<lparr>Addr = ''10.0.0.2'', Port = ''5432''\<rparr>)"
  by (simp add: example_listening_ports example_third classify_def conn_of_msg_def IP_String_IPv4
        example_strings)

text \<open>
  The claim as it was stated fails on the netlink path: with the filter "public" the
  established connection to the private address \<open>10.0.0.2\<close> is emitted by no flow, and with
  numeric mode off its flow carries the resolved name in place of the remote IP.
\<close>

theorem flows_follow_classification_counterexample:
  "NetlinkInetDiag example_host = Inr example_msgs \<and>
   example_msgs ! 2 \<in> set example_msgs \<and>
   State (example_msgs ! 2) = TCP_ESTABLISHED \<and>
   retained (conn_of_msg (example_msgs ! 2)) \<and>
   GetHostFlowsByNetlink example_host \<lparr>Numeric = True, Processes = False, Filter = FilterPublic\<rparr> = Inr [] \<and>
   classify (listening_ports (map conn_of_msg example_msgs)) (conn_of_msg (example_msgs ! 2))
     \<notin> emitted [] \<and>
   GetHostFlowsByNetlink example_host \<lparr>Numeric = False, Processes = False, Filter = FilterAll\<rparr>
     = Inr example_flows_named \<and>
   classify (listening_ports (map conn_of_msg example_msgs)) (conn_of_msg (example_msgs ! 2))
     \<notin> emitted example_flows_named"
  by (simp add: example_files example_netlink_public example_netlink_names example_classify_third
        example_emitted)
     (simp add: example_msgs_def retained_def conn_of_msg_def emitted_def
        TCP_LISTEN_def TCP_ESTABLISHED_def TCP_SYN_SENT_def TCP_SYN_RECV_def)

lemma netlink_flow_one_many:
  "netlink_flow opt ue ports lportEnt m = Some hf \<Longrightarrow> exactly_one_many hf"
  using itoa_not_many
  by (auto simp: netlink_flow_def exactly_one_many_def Let_def split: if_splits)

lemma procfs_flow_one_many:
  "procfs_flow ports c = Some hf \<Longrightarrow> exactly_one_many hf"
  using itoa_not_many
  by (auto simp: procfs_flow_def exactly_one_many_def Let_def split: if_splits)

lemma exactly_one_many_Connections:
  "exactly_one_many (hf\<lparr>Connections := n\<rparr>) = exactly_one_many hf"
  by (simp add: exactly_one_many_def)

lemma Insert_one_many:
  "list_all (\<lambda>(k, hf). exactly_one_many hf) flows \<Longrightarrow> exactly_one_many hf \<Longrightarrow>
   list_all (\<lambda>(k, hf). exactly_one_many hf) (Insert flows hf)"
  by (induction flows hf rule: Insert.induct) (auto simp: exactly_one_many_Connections)

lemma netlink_loop_one_many:
  "list_all (\<lambda>(k, hf). exactly_one_many hf) flows \<Longrightarrow>
   list_all (\<lambda>(k, hf). exactly_one_many hf) (netlink_loop opt ue ports lportEnt conns flows)"
  by (induction conns arbitrary: flows)
     (auto simp: Insert_one_many netlink_flow_one_many split: option.splits)

lemma procfs_loop_one_many:
  "list_all (\<lambda>(k, hf). exactly_one_many hf) flows \<Longrightarrow>
   list_all (\<lambda>(k, hf). exactly_one_many hf) (procfs_loop ports conns flows)"
  by (induction conns arbitrary: flows)
     (auto simp: Insert_one_many procfs_flow_one_many split: option.splits)

lemma SetLookupedName_one_many:
  "exactly_one_many (SetLookupedName w hf) = exactly_one_many hf"
  by (simp add: exactly_one_many_def SetLookupedName_def lookup_name_def split: option.splits)

lemma netlink_one_many:
  assumes "GetHostFlowsByNetlink w opt = Inr flows"
  shows "list_all (\<lambda>(k, hf). exactly_one_many hf) flows"
proof -
  obtain msgs where m: "NetlinkInetDiag w = Inr msgs"
    using assms
    by (cases "NetlinkInetDiag w")
       (auto simp: GetHostFlowsByNetlink_def NetlinkConnections_def split: sum.splits if_splits)
  obtain ue where fl: "flows =
           (let tabs = lport_loop ue (NetlinkFilter_loop [] msgs) ([], Map.empty);
                fl = netlink_loop opt ue (fst tabs) (snd tabs) msgs []
            in if Numeric opt then fl else map (\<lambda>(k, flow). (k, SetLookupedName w flow)) fl)"
    using GetHostFlowsByNetlink_Inr [OF m assms] by blast
  let ?tabs = "lport_loop ue (NetlinkFilter_loop [] msgs) ([], Map.empty)"
  let ?fl = "netlink_loop opt ue (fst ?tabs) (snd ?tabs) msgs []"
  have l: "list_all (\<lambda>(k, hf). exactly_one_many hf) ?fl"
    by (rule netlink_loop_one_many) simp
  then have "list_all (\<lambda>(k, hf). exactly_one_many hf) (map (\<lambda>(k, flow). (k, SetLookupedName w flow)) ?fl)"
    by (simp add: list_all_iff SetLookupedName_one_many split_def)
  then show ?thesis using l fl by (simp add: Let_def)
qed

lemma procfs_one_many:
  assumes "GetHostFlowsByProcfs w = Inr flows"
  shows "list_all (\<lambda>(k, hf). exactly_one_many hf) flows"
proof -
  obtain stats where "ProcfsConnections w = Inr stats"
    using assms by (cases "ProcfsConnections w") (auto simp: GetHostFlowsByProcfs_def)
  then have "flows = procfs_loop (Filter_loop [] stats) stats []"
    using assms by (simp add: GetHostFlowsByProcfs_def FilterByLocalListeningPorts_def)
  then show ?thesis using procfs_loop_one_many [of "[]"] by simp
qed

text \<open>
  Claim C4.  For any connections and any listening ports, every flow emitted by the loop
  of the netlink builder and by the loop of the procfs builder has exactly one of
  \<open>local.port\<close> and \<open>peer.port\<close> equal to "many"; so has every flow that
  \<open>GetHostFlowsByNetlink\<close> or \<open>GetHostFlowsByProcfs\<close> returns.
\<close>

theorem one_port_is_many:
  "list_all (\<lambda>(k, hf). exactly_one_many hf) (netlink_loop opt ue ports lportEnt conns []) \<and>
   list_all (\<lambda>(k, hf). exactly_one_many hf) (procfs_loop ports' stats []) \<and>
   (GetHostFlowsByNetlink w opt = Inr flows \<longrightarrow> (\<forall>(k, hf) \<in> set flows. exactly_one_many hf)) \<and>
   (GetHostFlowsByProcfs w = Inr flows' \<longrightarrow> (\<forall>(k, hf) \<in> set flows'. exactly_one_many hf))"
  using netlink_loop_one_many [of "[]" opt ue ports lportEnt conns]
        procfs_loop_one_many [of "[]" ports' stats]
        netlink_one_many [of w opt flows] procfs_one_many [of w flows']
  by (simp add: list_all_iff)

text \<open>The flows of the example host, from both builders.\<close>

theorem one_port_is_many_witness:
  "GetHostFlowsByNetlink example_host \<lparr>Numeric = True, Processes = True, Filter = FilterAll\<rparr>
     = Inr example_flows_attributed \<and>
   GetHostFlowsByProcfs example_host = Inr example_flows \<and>
   list_all (\<lambda>(k, hf). exactly_one_many hf) example_flows_attributed \<and>
   list_all (\<lambda>(k, hf). exactly_one_many hf) example_flows"
  using one_port_is_many
          [of "\<lparr>Numeric = True, Processes = True, Filter = FilterAll\<rparr>" None "[]" Map.empty "[]"
              "[]" "[]" example_host example_flows_attributed example_flows]
  by (simp add: example_netlink_processes example_procfs list_all_iff)

text \<open>The walk of /proc and the read of /proc/net/tcp do not look at the netlink reply.\<close>

lemma parseProcStat_netlink:
  "parseProcStat (w\<lparr>NetlinkInetDiag := x\<rparr>) root p = parseProcStat w root p"
  by (simp add: parseProcStat_def)

lemma fd_loop_netlink:
  "fd_loop (w\<lparr>NetlinkInetDiag := x\<rparr>) root fdDir p dir2 (stat, st) = fd_loop w root fdDir p dir2 (stat, st)"
  by (induction dir2 arbitrary: stat st)
     (auto simp: Let_def parseProcStat_netlink split: sum.splits option.splits)

lemma pid_loop_netlink:
  "pid_loop (w\<lparr>NetlinkInetDiag := x\<rparr>) root dir st = pid_loop w root dir st"
  by (induction dir arbitrary: st) (auto simp: Let_def fd_loop_netlink split: sum.splits)

lemma BuildUserEntries_netlink:
  "BuildUserEntries (w\<lparr>NetlinkInetDiag := x\<rparr>) = BuildUserEntries w"
  by (simp add: BuildUserEntries_def BuildUserEntries_walk_def proc_root_def Let_def pid_loop_netlink
        split: sum.splits)

lemma GetHostFlowsByProcfs_netlink:
  "GetHostFlowsByProcfs (w\<lparr>NetlinkInetDiag := x\<rparr>) = GetHostFlowsByProcfs w"
  by (simp add: GetHostFlowsByProcfs_def ProcfsConnections_def)

lemma fallback_after_netlink_failure:
  assumes "GetHostFlowsByNetlink w opt = Inr flows"
  shows "GetHostFlows (w\<lparr>NetlinkInetDiag := Inl e\<rparr>) opt = GetHostFlowsByProcfs w"
proof -
  have "\<not> Processes opt \<or> (\<exists>m. BuildUserEntries w = Inr m)"
    using assms by (cases "BuildUserEntries w") (auto simp: GetHostFlowsByNetlink_def)
  then have "\<not> Processes opt \<or> (\<exists>m. BuildUserEntries (w\<lparr>NetlinkInetDiag := Inl e\<rparr>) = Inr m)"
    by (simp add: BuildUserEntries_netlink)
  then obtain err where "GetHostFlowsByNetlink (w\<lparr>NetlinkInetDiag := Inl e\<rparr>) opt = Inl err"
      and "As_NetlinkError err"
    using GetHostFlowsByNetlink_netlink_error [of "w\<lparr>NetlinkInetDiag := Inl e\<rparr>" e opt] by auto
  then show ?thesis by (simp add: GetHostFlows_def GetHostFlowsByProcfs_netlink)
qed

lemma without_process_unattributed:
  assumes "NetlinkInetDiag w = Inr msgs" and "GetHostFlowsByNetlink w opt = Inr flows"
    and "\<not> Processes opt"
  shows "without_process flows = flows"
proof -
  have n: "\<And>ports lportEnt m hf. netlink_flow opt None ports Map.empty m = Some hf \<Longrightarrow> Process hf = None"
    by (auto simp: netlink_flow_def process_of_def Let_def split: if_splits)
  have upd: "\<And>hf :: HostFlow. Process hf = None \<Longrightarrow> hf\<lparr>Process := None\<rparr> = hf"
  proof -
    fix hf :: HostFlow
    assume "Process hf = None"
    then show "hf\<lparr>Process := None\<rparr> = hf" by (cases hf) simp
  qed
  have ins: "\<And>fl hf. without_process fl = fl \<Longrightarrow> Process hf = None \<Longrightarrow> without_process (Insert fl hf) = Insert fl hf"
    by (simp add: without_process_Insert upd)
  have loop: "\<And>ports fl. without_process fl = fl \<Longrightarrow>
      without_process (netlink_loop opt None ports Map.empty msgs fl) = netlink_loop opt None ports Map.empty msgs fl"
  proof (induction msgs)
    case Nil
    then show ?case by simp
  next
    case (Cons m msgs)
    then show ?case using n ins by (auto split: option.splits)
  qed
  have tabs: "\<And>lconns ports. snd (lport_loop None lconns (ports, Map.empty)) = Map.empty"
  proof -
    fix lconns :: "InetDiagMsg list" and ports :: "string list"
    show "snd (lport_loop None lconns (ports, Map.empty)) = Map.empty"
      by (induction lconns arbitrary: ports) (auto simp: Let_def)
  qed
  have lk: "\<And>fl. without_process (map (\<lambda>(k, flow). (k, SetLookupedName w flow)) fl)
             = map (\<lambda>(k, flow). (k, SetLookupedName w flow)) (without_process fl)"
    by (simp add: without_process_def SetLookupedName_def split_def)
  let ?tabs = "lport_loop None (NetlinkFilter_loop [] msgs) ([], Map.empty)"
  have fl: "flows = (let fl = netlink_loop opt None (fst ?tabs) Map.empty msgs []
                     in if Numeric opt then fl else map (\<lambda>(k, flow). (k, SetLookupedName w flow)) fl)"
    using assms tabs [of "NetlinkFilter_loop [] msgs" "[]"]
    by (auto simp: GetHostFlowsByNetlink_def NetlinkConnections_def
          NetlinkFilterByLocalListeningPorts_def Let_def split: prod.splits)
  have "without_process (netlink_loop opt None (fst ?tabs) Map.empty msgs [])
        = netlink_loop opt None (fst ?tabs) Map.empty msgs []"
    by (rule loop) (simp add: without_process_def)
  then show ?thesis using fl by (auto simp: Let_def lk)
qed

text \<open>
  Where the two builders agree.  When the kernel lists the same connections, in the same
  order, through netlink and in \<open>/proc/net/tcp\<close>, the options ask for no address filter
  and numeric mode is on, the procfs builder returns the flows of the netlink builder
  without their processes; after a netlink failure on that host \<open>GetHostFlows\<close> returns
  those flows; and without process attribution asked for the two outputs are equal.
\<close>

theorem procfs_agrees_without_options:
  "NetlinkInetDiag w = Inr msgs \<and> ProcfsConnections w = Inr (map stat_of_msg msgs) \<and>
   Filter opt \<noteq> FilterPublic \<and> Filter opt \<noteq> FilterPrivate \<and> Numeric opt \<and>
   GetHostFlowsByNetlink w opt = Inr flows
   \<longrightarrow> GetHostFlowsByProcfs w = Inr (without_process flows) \<and>
       GetHostFlows (w\<lparr>NetlinkInetDiag := Inl e\<rparr>) opt = Inr (without_process flows) \<and>
       (\<not> Processes opt \<longrightarrow> without_process flows = flows)"
proof (intro impI)
  assume a: "NetlinkInetDiag w = Inr msgs \<and> ProcfsConnections w = Inr (map stat_of_msg msgs) \<and>
   Filter opt \<noteq> FilterPublic \<and> Filter opt \<noteq> FilterPrivate \<and> Numeric opt \<and>
   GetHostFlowsByNetlink w opt = Inr flows"
  then have p: "GetHostFlowsByProcfs w = Inr (without_process flows)"
    using procfs_refines_netlink [of w msgs opt flows] by blast
  moreover have "GetHostFlows (w\<lparr>NetlinkInetDiag := Inl e\<rparr>) opt = GetHostFlowsByProcfs w"
    using a fallback_after_netlink_failure by blast
  moreover have "\<not> Processes opt \<longrightarrow> without_process flows = flows"
    using a without_process_unattributed [of w msgs opt flows] by blast
  ultimately show "GetHostFlowsByProcfs w = Inr (without_process flows) \<and>
       GetHostFlows (w\<lparr>NetlinkInetDiag := Inl e\<rparr>) opt = Inr (without_process flows) \<and>
       (\<not> Processes opt \<longrightarrow> without_process flows = flows)"
    by simp
qed

lemma example_without_process: "without_process example_flows_attributed = example_flows"
  "without_process example_flows = example_flows"
  by (simp_all add: without_process_def example_flows_attributed_def example_flows_def)

text \<open>The example host, with and without process attribution.\<close>

theorem procfs_agrees_without_options_witness:
  "NetlinkInetDiag example_host = Inr example_msgs \<and>
   ProcfsConnections example_host = Inr (map stat_of_msg example_msgs) \<and>
   Filter \<lparr>Numeric = True, Processes = True, Filter = FilterAll\<rparr> \<noteq> FilterPublic \<and>
   Filter \<lparr>Numeric = True, Processes = True, Filter = FilterAll\<rparr> \<noteq> FilterPrivate \<and>
   Numeric \<lparr>Numeric = True, Processes = True, Filter = FilterAll\<rparr> \<and>
   GetHostFlowsByNetlink example_host \<lparr>Numeric = True, Processes = True, Filter = FilterAll\<rparr>
     = Inr example_flows_attributed \<and>
   GetHostFlowsByProcfs example_host = Inr example_flows \<and>
   GetHostFlows (example_host\<lparr>NetlinkInetDiag := Inl (ErrorString ''netlink: send failed'')\<rparr>)
     \<lparr>Numeric = True, Processes = True, Filter = FilterAll\<rparr> = Inr example_flows \<and>
   \<not> Processes \<lparr>Numeric = True, Processes = False, Filter = FilterAll\<rparr> \<and>
   GetHostFlowsByNetlink example_host \<lparr>Numeric = True, Processes = False, Filter = FilterAll\<rparr>
     = Inr example_flows \<and>
   without_process example_flows = example_flows"
  using procfs_agrees_without_options
          [of example_host example_msgs "\<lparr>Numeric = True, Processes = True, Filter = FilterAll\<rparr>"
              example_flows_attributed "ErrorString ''netlink: send failed''"]
        procfs_agrees_without_options
          [of example_host example_msgs "\<lparr>Numeric = True, Processes = False, Filter = FilterAll\<rparr>"
              example_flows "ErrorString ''netlink: send failed''"]
  by (simp add: example_files example_ProcfsConnections example_netlink_processes example_netlink_plain
        example_without_process Filter_consts)

lemma example_fallback_public:
  "GetHostFlows (example_host\<lparr>NetlinkInetDiag := Inl (ErrorString ''netlink: send failed'')\<rparr>)
     \<lparr>Numeric = True, Processes = False, Filter = FilterPublic\<rparr> = Inr example_flows"
  using fallback_after_netlink_failure [OF example_netlink_public, of "ErrorString ''netlink: send failed''"]
  by (simp add: example_procfs)

lemma example_fallback_names:
  "GetHostFlows (example_host\<lparr>NetlinkInetDiag := Inl (ErrorString ''netlink: send failed'')\<rparr>)
     \<lparr>Numeric = False, Processes = False, Filter = FilterAll\<rparr> = Inr example_flows"
  using fallback_after_netlink_failure [OF example_netlink_names, of "ErrorString ''netlink: send failed''"]
  by (simp add: example_procfs)

lemma example_flows_differ:
  "set example_flows \<noteq> set []"
  "set example_flows_named \<inter> set example_flows = {}"
  by (simp_all add: example_flows_def example_flows_named_def)

text \<open>
  Claim C8.  The claim: for the same kernel connections the procfs builder gives the
  output of the netlink builder under the same options, up to the process attribution,
  and the switch to the procfs path after a netlink failure yields the same output.
  \<open>GetHostFlows\<close> receives the options and hands them to the netlink builder only: it
  calls \<open>GetHostFlowsByProcfs\<close> without them, so the fallback applies no address filter
  and resolves no name.  On the example host, where both sources show the same three
  connections and no process attribution is asked for: under the filter "public" the
  netlink builder emits no flow, both peers being private, and \<open>GetHostFlows\<close> after a
  netlink failure returns both flows; with numeric mode off the netlink builder emits
  the two flows with the peer's resolved name, and \<open>GetHostFlows\<close> after a netlink
  failure returns them with the peer's address.  The outputs differ as sets of flows,
  whatever the order, and none of them carries a process.
\<close>

theorem fallback_drops_options:
  "NetlinkInetDiag example_host = Inr example_msgs \<and>
   ProcfsConnections example_host = Inr (map stat_of_msg example_msgs) \<and>
   GetHostFlowsByNetlink example_host \<lparr>Numeric = True, Processes = False, Filter = FilterPublic\<rparr>
     = Inr [] \<and>
   GetHostFlows (example_host\<lparr>NetlinkInetDiag := Inl (ErrorString ''netlink: send failed'')\<rparr>)
     \<lparr>Numeric = True, Processes = False, Filter = FilterPublic\<rparr> = Inr example_flows \<and>
   set example_flows \<noteq> set [] \<and>
   GetHostFlowsByNetlink example_host \<lparr>Numeric = False, Processes = False, Filter = FilterAll\<rparr>
     = Inr example_flows_named \<and>
   GetHostFlows (example_host\<lparr>NetlinkInetDiag := Inl (ErrorString ''netlink: send failed'')\<rparr>)
     \<lparr>Numeric = False, Processes = False, Filter = FilterAll\<rparr> = Inr example_flows \<and>
   set example_flows_named \<inter> set example_flows = {} \<and>
   without_process example_flows_named = example_flows_named \<and>
   without_process example_flows = example_flows"
  by (simp add: example_files example_ProcfsConnections example_netlink_public example_netlink_names
        example_fallback_public example_fallback_names example_flows_differ example_without_process)
     (simp add: example_flows_def example_flows_named_def without_process_def)

section \<open>The claims on the fallback and on non-socket descriptors\<close>

lemma example_denied:
  "BuildUserEntries (example_host\<lparr>ReadDir := \<lambda>path. Inl EACCES\<rparr>) = Inl (PathError ''open'' ''/proc'' EACCES)"
  by (simp add: BuildUserEntries_def BuildUserEntries_walk_def proc_root_def example_host_def)

lemma example_netlink_down:
  "GetHostFlowsByNetlink (example_host\<lparr>NetlinkInetDiag := Inl (ErrorString ''netlink: send failed'')\<rparr>)
       \<lparr>Numeric = True, Processes = False, Filter = FilterAll\<rparr>
     = Inl (Wrap ''NetlinkInetDiag'' (NetlinkError []))"
  by (simp add: GetHostFlowsByNetlink_def NetlinkConnections_def)

lemma example_netlink_denied:
  "GetHostFlowsByNetlink (example_host\<lparr>ReadDir := \<lambda>path. Inl EACCES\<rparr>)
       \<lparr>Numeric = True, Processes = True, Filter = FilterAll\<rparr>
     = Inl (PathError ''open'' ''/proc'' EACCES)"
  by (simp add: GetHostFlowsByNetlink_def example_denied)

text \<open>
  The example host with netlink working, with netlink failing, and with a \<open>/proc\<close> that
  cannot be listed.
\<close>

theorem GetHostFlows_fallback_witness:
  "GetHostFlowsByNetlink example_host \<lparr>Numeric = True, Processes = True, Filter = FilterAll\<rparr>
     = Inr example_flows_attributed \<and>
   GetHostFlows example_host \<lparr>Numeric = True, Processes = True, Filter = FilterAll\<rparr>
     = Inr example_flows_attributed \<and>
   NetlinkInetDiag (example_host\<lparr>NetlinkInetDiag := Inl (ErrorString ''netlink: send failed'')\<rparr>)
     = Inl (ErrorString ''netlink: send failed'') \<and>
   GetHostFlowsByNetlink (example_host\<lparr>NetlinkInetDiag := Inl (ErrorString ''netlink: send failed'')\<rparr>)
       \<lparr>Numeric = True, Processes = False, Filter = FilterAll\<rparr>
     = Inl (Wrap ''NetlinkInetDiag'' (NetlinkError [])) \<and>
   As_NetlinkError (Wrap ''NetlinkInetDiag'' (NetlinkError [])) \<and>
   GetHostFlows (example_host\<lparr>NetlinkInetDiag := Inl (ErrorString ''netlink: send failed'')\<rparr>)
       \<lparr>Numeric = True, Processes = False, Filter = FilterAll\<rparr>
     = Inr example_flows \<and>
   Processes \<lparr>Numeric = True, Processes = True, Filter = FilterAll\<rparr> \<and>
   BuildUserEntries (example_host\<lparr>ReadDir := \<lambda>path. Inl EACCES\<rparr>) = Inl (PathError ''open'' ''/proc'' EACCES) \<and>
   GetHostFlowsByNetlink (example_host\<lparr>ReadDir := \<lambda>path. Inl EACCES\<rparr>)
       \<lparr>Numeric = True, Processes = True, Filter = FilterAll\<rparr>
     = Inl (PathError ''open'' ''/proc'' EACCES) \<and>
   \<not> As_NetlinkError (PathError ''open'' ''/proc'' EACCES) \<and>
   GetHostFlows (example_host\<lparr>ReadDir := \<lambda>path. Inl EACCES\<rparr>)
       \<lparr>Numeric = True, Processes = True, Filter = FilterAll\<rparr>
     = Inl (PathError ''open'' ''/proc'' EACCES)"
  using GetHostFlows_fallback
          [of example_host "\<lparr>Numeric = True, Processes = True, Filter = FilterAll\<rparr>"
              example_flows_attributed "ErrorString []" "ErrorString []" "ErrorString []"]
        GetHostFlows_fallback
          [of "example_host\<lparr>NetlinkInetDiag := Inl (ErrorString ''netlink: send failed'')\<rparr>"
              "\<lparr>Numeric = True, Processes = False, Filter = FilterAll\<rparr>"
              "[]" "Wrap ''NetlinkInetDiag'' (NetlinkError [])" "ErrorString ''netlink: send failed''"
              "ErrorString []"]
        GetHostFlows_fallback
          [of "example_host\<lparr>ReadDir := \<lambda>path. Inl EACCES\<rparr>"
              "\<lparr>Numeric = True, Processes = True, Filter = FilterAll\<rparr>"
              "[]" "PathError ''open'' ''/proc'' EACCES" "ErrorString []"
              "PathError ''open'' ''/proc'' EACCES"]
  by (simp add: example_netlink_processes example_denied GetHostFlowsByProcfs_netlink example_procfs
        example_netlink_down example_netlink_denied)

lemma pid_loop_no_sockets:
  assumes "fi_IsDir d" and "Atoi (fi_Name d) = Inr p" and "p \<noteq> Getpid w"
    and "Stat w (Join (Join root (fi_Name d)) ''fd'') = Inr fi" and "fi_IsDir fi"
    and "ReadDir w (Join (Join root (fi_Name d)) ''fd'') = Inr dir2"
    and "\<And>d2 fdnum. d2 \<in> set dir2 \<Longrightarrow> Atoi (fi_Name d2) = Inr fdnum \<Longrightarrow>
           \<exists>lnk. Readlink w (Join (Join (Join root (fi_Name d)) ''fd'') (fi_Name d2)) = Inr lnk \<and>
                 parseSocketInode lnk = Inr 0"
  shows "pid_loop w root (d # dir) st = pid_loop w root dir st"
proof -
  have "fd_loop w root (Join (Join root (fi_Name d)) ''fd'') p dir2 (None, st) = Inr (None, st)"
    by (rule fd_loop_skip) (rule assms(7))
  then show ?thesis using assms(1-6) by (simp add: Let_def)
qed

text \<open>
  Claim C10.  A link target without the substring \<open>socket:[\<close> parses to inode 0 with no
  error; the loop over the descriptors of a process skips every descriptor whose inode
  parses to 0, leaving the map, the local \<open>stat\<close> variable and the record of \<open>stat\<close> files
  read as they were; so a process all of whose descriptors are non-sockets adds nothing
  to the map and its \<open>stat\<close> file is not read.
\<close>

theorem non_socket_fds_ignored:
  "(\<not> has_substring socketPrefix lnk \<longrightarrow> parseSocketInode lnk = Inr 0) \<and>
   ((\<forall>d2 \<in> set dir2. \<forall>fdnum. Atoi (fi_Name d2) = Inr fdnum \<longrightarrow>
        (\<exists>l. Readlink w (Join fdDir (fi_Name d2)) = Inr l \<and> parseSocketInode l = Inr 0))
      \<longrightarrow> fd_loop w root fdDir p dir2 (stat, st) = Inr (stat, st)) \<and>
   (fi_IsDir d \<and> Atoi (fi_Name d) = Inr p \<and> p \<noteq> Getpid w \<and>
    Stat w (Join (Join root (fi_Name d)) ''fd'') = Inr fi \<and> fi_IsDir fi \<and>
    ReadDir w (Join (Join root (fi_Name d)) ''fd'') = Inr dir2 \<and>
    (\<forall>d2 \<in> set dir2. \<forall>fdnum. Atoi (fi_Name d2) = Inr fdnum \<longrightarrow>
        (\<exists>l. Readlink w (Join (Join (Join root (fi_Name d)) ''fd'') (fi_Name d2)) = Inr l \<and>
             \<not> has_substring socketPrefix l))
      \<longrightarrow> pid_loop w root (d # dir) st = pid_loop w root dir st)"
proof (intro conjI impI)
  assume "\<not> has_substring socketPrefix lnk"
  then show "parseSocketInode lnk = Inr 0" by (rule parseSocketInode_non_socket)
next
  assume "\<forall>d2 \<in> set dir2. \<forall>fdnum. Atoi (fi_Name d2) = Inr fdnum \<longrightarrow>
        (\<exists>l. Readlink w (Join fdDir (fi_Name d2)) = Inr l \<and> parseSocketInode l = Inr 0)"
  then show "fd_loop w root fdDir p dir2 (stat, st) = Inr (stat, st)"
    using fd_loop_skip [of dir2 w fdDir root p stat st] by blast
next
  assume a: "fi_IsDir d \<and> Atoi (fi_Name d) = Inr p \<and> p \<noteq> Getpid w \<and>
    Stat w (Join (Join root (fi_Name d)) ''fd'') = Inr fi \<and> fi_IsDir fi \<and>
    ReadDir w (Join (Join root (fi_Name d)) ''fd'') = Inr dir2 \<and>
    (\<forall>d2 \<in> set dir2. \<forall>fdnum. Atoi (fi_Name d2) = Inr fdnum \<longrightarrow>
        (\<exists>l. Readlink w (Join (Join (Join root (fi_Name d)) ''fd'') (fi_Name d2)) = Inr l \<and>
             \<not> has_substring socketPrefix l))"
  then have "\<And>d2 fdnum. d2 \<in> set dir2 \<Longrightarrow> Atoi (fi_Name d2) = Inr fdnum \<Longrightarrow>
           \<exists>l. Readlink w (Join (Join (Join root (fi_Name d)) ''fd'') (fi_Name d2)) = Inr l \<and>
                 parseSocketInode l = Inr 0"
    using parseSocketInode_non_socket by blast
  then show "pid_loop w root (d # dir) st = pid_loop w root dir st"
    using a pid_loop_no_sockets [of d p w root fi dir2 dir st] by blast
qed

text \<open>Process 44 of the example host holds a terminal and a pipe.\<close>

theorem non_socket_fds_ignored_witness:
  "\<not> has_substring socketPrefix ''pipe:[7301]'' \<and>
   parseSocketInode ''pipe:[7301]'' = Inr 0 \<and>
   fd_loop example_host ''/proc'' ''/proc/44/fd'' 44
     [\<lparr>fi_Name = ''0'', fi_IsDir = False\<rparr>, \<lparr>fi_Name = ''1'', fi_IsDir = False\<rparr>]
     (None, \<lparr>userEnts = Map.empty, stat_reads = []\<rparr>)
     = Inr (None, \<lparr>userEnts = Map.empty, stat_reads = []\<rparr>) \<and>
   pid_loop example_host ''/proc'' [\<lparr>fi_Name = ''44'', fi_IsDir = True\<rparr>]
     \<lparr>userEnts = Map.empty, stat_reads = []\<rparr> = Inr \<lparr>userEnts = Map.empty, stat_reads = []\<rparr>"
  using non_socket_fds_ignored
          [of "''pipe:[7301]''"
              "[\<lparr>fi_Name = ''0'', fi_IsDir = False\<rparr>, \<lparr>fi_Name = ''1'', fi_IsDir = False\<rparr>]"
              example_host "''/proc/44/fd''" "''/proc''" 44 None
              "\<lparr>userEnts = Map.empty, stat_reads = []\<rparr>"
              "\<lparr>fi_Name = ''44'', fi_IsDir = True\<rparr>" "\<lparr>fi_Name = ''fd'', fi_IsDir = True\<rparr>" "[]"]
  by (simp add: socketPrefix_def example_files example_Atoi example_parseSocketInode Join_def Clean_def Split_def)

section \<open>Errors met while walking \<open>/proc\<close> and reading \<open>/proc/net/tcp\<close>\<close>

lemma pid_loop_ReadDir_EACCES:
  assumes "fi_IsDir d" and "Atoi (fi_Name d) = Inr p" and "p \<noteq> Getpid w"
    and "Stat w (Join (Join root (fi_Name d)) ''fd'') = Inr fi" and "fi_IsDir fi"
    and "ReadDir w (Join (Join root (fi_Name d)) ''fd'') = Inl EACCES"
  shows "pid_loop w root (d # dir) st = pid_loop w root dir st"
  using assms by (simp add: Let_def)

lemma fd_loop_Readlink_ENOENT:
  assumes "Atoi (fi_Name d2) = Inr fdnum" and "Readlink w (Join fdDir (fi_Name d2)) = Inl ENOENT"
  shows "fd_loop w root fdDir p (d2 # dir2) (stat, st) = fd_loop w root fdDir p dir2 (stat, st)"
  using assms by (simp add: Let_def)

lemmas example_walk_eval =
  BuildUserEntries_def BuildUserEntries_walk_def proc_root_def example_parseSocketInode
  example_Atoi Join_def Clean_def Split_def ENOENT_def EACCES_def Let_def

text \<open>
  Claim C6.  The claim: a process whose \<open>fd\<close> directory cannot be read for lack of
  permission is skipped, a process or descriptor link that disappears with \<open>ENOENT\<close> is
  skipped, any other error is fatal.  The walk skips a process only on \<open>EACCES\<close> from
  listing its \<open>fd\<close> directory and a descriptor only on \<open>ENOENT\<close> from reading its link.
  When process 42 of the example host exits after \<open>/proc\<close> has been listed, the first call
  that meets the missing entry (\<open>os.Stat\<close> of the \<open>fd\<close> directory, its listing, or the
  read of \<open>/proc/42/stat\<close>) fails with \<open>ENOENT\<close> and \<open>BuildUserEntries\<close> returns an error
  for the whole tick.
\<close>

theorem transient_pid_is_fatal:
  "BuildUserEntries
     (example_host\<lparr>Stat := \<lambda>path. if path = ''/proc/42/fd'' then Inl ENOENT else Stat example_host path\<rparr>)
     = Inl (Opaque ''stat /proc/42/fd'' (PathError ''stat'' ''/proc/42/fd'' ENOENT)) \<and>
   BuildUserEntries
     (example_host\<lparr>ReadDir := \<lambda>path. if path = ''/proc/42/fd'' then Inl ENOENT else ReadDir example_host path\<rparr>)
     = Inl (Opaque ''readdir'' (PathError ''open'' ''/proc/42/fd'' ENOENT)) \<and>
   BuildUserEntries
     (example_host\<lparr>ReadFile := \<lambda>path. if path = ''/proc/42/stat'' then Inl ENOENT else ReadFile example_host path\<rparr>)
     = Inl (Wrap ''could not open /proc/42/stat'' (PathError ''open'' ''/proc/42/stat'' ENOENT))"
  by (simp add: example_walk_eval example_files parseProcStat_def itoa_int_def itoa.simps digit_char_def)

text \<open>
  A process whose \<open>fd\<close> directory exists and cannot be listed for lack of permission
  (\<open>EACCES\<close> from \<open>ioutil.ReadDir\<close>) is skipped: the walk goes on with the state it had.
\<close>

theorem permission_denied_pid_skipped:
  "fi_IsDir d \<and> Atoi (fi_Name d) = Inr p \<and> p \<noteq> Getpid w \<and>
   Stat w (Join (Join root (fi_Name d)) ''fd'') = Inr fi \<and> fi_IsDir fi \<and>
   ReadDir w (Join (Join root (fi_Name d)) ''fd'') = Inl EACCES
   \<longrightarrow> pid_loop w root (d # dir) st = pid_loop w root dir st"
  using pid_loop_ReadDir_EACCES [of d p w root fi dir st] by blast

text \<open>Process 43 of the example host, made unreadable.\<close>

theorem permission_denied_pid_skipped_witness:
  "pid_loop (example_host\<lparr>ReadDir := \<lambda>path. if path = ''/proc/43/fd'' then Inl EACCES
                                             else ReadDir example_host path\<rparr>)
     ''/proc'' [\<lparr>fi_Name = ''43'', fi_IsDir = True\<rparr>] \<lparr>userEnts = Map.empty, stat_reads = []\<rparr>
     = Inr \<lparr>userEnts = Map.empty, stat_reads = []\<rparr>"
  using permission_denied_pid_skipped
          [of "\<lparr>fi_Name = ''43'', fi_IsDir = True\<rparr>" 43
              "example_host\<lparr>ReadDir := \<lambda>path. if path = ''/proc/43/fd'' then Inl EACCES
                                                   else ReadDir example_host path\<rparr>"
              "''/proc''" "\<lparr>fi_Name = ''fd'', fi_IsDir = True\<rparr>" "[]"
              "\<lparr>userEnts = Map.empty, stat_reads = []\<rparr>"]
  by (simp add: example_files example_Atoi Join_def Clean_def Split_def)

text \<open>
  A descriptor whose link has disappeared (\<open>ENOENT\<close> from \<open>os.Readlink\<close>) is skipped: the
  loop goes on with the state it had.
\<close>

theorem vanished_fd_skipped:
  "Atoi (fi_Name d2) = Inr fdnum \<and> Readlink w (Join fdDir (fi_Name d2)) = Inl ENOENT
   \<longrightarrow> fd_loop w root fdDir p (d2 # dir2) (stat, st) = fd_loop w root fdDir p dir2 (stat, st)"
  using fd_loop_Readlink_ENOENT [of d2 fdnum w fdDir root p dir2 stat st] by blast

text \<open>Descriptor 0 of process 42, closed after the directory was listed.\<close>

theorem vanished_fd_skipped_witness:
  "fd_loop (example_host\<lparr>Readlink := \<lambda>path. if path = ''/proc/42/fd/0'' then Inl ENOENT
                                              else Readlink example_host path\<rparr>)
     ''/proc'' ''/proc/42/fd'' 42 [\<lparr>fi_Name = ''0'', fi_IsDir = False\<rparr>]
     (None, \<lparr>userEnts = Map.empty, stat_reads = []\<rparr>)
     = Inr (None, \<lparr>userEnts = Map.empty, stat_reads = []\<rparr>)"
  using vanished_fd_skipped
          [of "\<lparr>fi_Name = ''0'', fi_IsDir = False\<rparr>" 0
              "example_host\<lparr>Readlink := \<lambda>path. if path = ''/proc/42/fd/0'' then Inl ENOENT
                                                   else Readlink example_host path\<rparr>"
              "''/proc/42/fd''" "''/proc''" 42 "[]" None "\<lparr>userEnts = Map.empty, stat_reads = []\<rparr>"]
  by (simp add: example_Atoi Join_def Clean_def Split_def)

text \<open>
  Every other error met for a process ends the walk with an error: any error of
  \<open>os.Stat\<close> on the \<open>fd\<close> directory, an error other than \<open>EACCES\<close> from listing it, an
  error other than \<open>ENOENT\<close> from reading a link, a link that \<open>parseSocketInode\<close> rejects,
  and a failure of \<open>parseProcStat\<close>.
\<close>

theorem other_errors_are_fatal:
  "(fi_IsDir d \<and> Atoi (fi_Name d) = Inr p \<and> p \<noteq> Getpid w \<and>
    Stat w (Join (Join root (fi_Name d)) ''fd'') = Inl errno
    \<longrightarrow> (\<exists>err. pid_loop w root (d # dir) st = Inl err)) \<and>
   (fi_IsDir d \<and> Atoi (fi_Name d) = Inr p \<and> p \<noteq> Getpid w \<and>
    Stat w (Join (Join root (fi_Name d)) ''fd'') = Inr fi \<and> fi_IsDir fi \<and>
    ReadDir w (Join (Join root (fi_Name d)) ''fd'') = Inl errno \<and> errno \<noteq> EACCES
    \<longrightarrow> (\<exists>err. pid_loop w root (d # dir) st = Inl err)) \<and>
   (fi_IsDir d \<and> Atoi (fi_Name d) = Inr p \<and> p \<noteq> Getpid w \<and>
    Stat w (Join (Join root (fi_Name d)) ''fd'') = Inr fi \<and> fi_IsDir fi \<and>
    ReadDir w (Join (Join root (fi_Name d)) ''fd'') = Inr dir2 \<and>
    fd_loop w root (Join (Join root (fi_Name d)) ''fd'') p dir2 (None, st) = Inl err'
    \<longrightarrow> pid_loop w root (d # dir) st = Inl err') \<and>
   (Atoi (fi_Name d2) = Inr fdnum \<and> Readlink w (Join fdDir (fi_Name d2)) = Inl errno \<and> errno \<noteq> ENOENT
    \<longrightarrow> (\<exists>err. fd_loop w root fdDir p (d2 # dir2') (stat, st) = Inl err)) \<and>
   (Atoi (fi_Name d2) = Inr fdnum \<and> Readlink w (Join fdDir (fi_Name d2)) = Inr lnk \<and>
    parseSocketInode lnk = Inl err'
    \<longrightarrow> fd_loop w root fdDir p (d2 # dir2') (stat, st) = Inl err') \<and>
   (Atoi (fi_Name d2) = Inr fdnum \<and> Readlink w (Join fdDir (fi_Name d2)) = Inr lnk \<and>
    parseSocketInode lnk = Inr ino \<and> ino \<noteq> 0 \<and> parseProcStat w root p = Inl err'
    \<longrightarrow> fd_loop w root fdDir p (d2 # dir2') (None, st) = Inl err')"
  by (auto simp: Let_def)

text \<open>Permission denied by \<open>os.Stat\<close> and by \<open>os.Readlink\<close> on the example host.\<close>

theorem other_errors_are_fatal_witness:
  "pid_loop (example_host\<lparr>Stat := \<lambda>path. Inl EACCES\<rparr>) ''/proc''
     [\<lparr>fi_Name = ''42'', fi_IsDir = True\<rparr>] \<lparr>userEnts = Map.empty, stat_reads = []\<rparr>
     = Inl (Opaque ''stat /proc/42/fd'' (PathError ''stat'' ''/proc/42/fd'' EACCES)) \<and>
   fd_loop (example_host\<lparr>Readlink := \<lambda>path. Inl EACCES\<rparr>) ''/proc'' ''/proc/42/fd'' 42
     [\<lparr>fi_Name = ''3'', fi_IsDir = False\<rparr>] (None, \<lparr>userEnts = Map.empty, stat_reads = []\<rparr>)
     = Inl (Opaque ''readlink /proc/42/fd/3'' (PathError ''readlink'' ''/proc/42/fd/3'' EACCES))"
  using other_errors_are_fatal
          [of "\<lparr>fi_Name = ''42'', fi_IsDir = True\<rparr>" 42 "example_host\<lparr>Stat := \<lambda>path. Inl EACCES\<rparr>"
              "''/proc''" EACCES "[]" "\<lparr>userEnts = Map.empty, stat_reads = []\<rparr>"
              "\<lparr>fi_Name = ''fd'', fi_IsDir = True\<rparr>" "[]" "ErrorString []"
              "\<lparr>fi_Name = ''3'', fi_IsDir = False\<rparr>" 3 "''/proc/42/fd''" "[]" None "''x''" 1]
        other_errors_are_fatal
          [of "\<lparr>fi_Name = ''42'', fi_IsDir = True\<rparr>" 42 "example_host\<lparr>Readlink := \<lambda>path. Inl EACCES\<rparr>"
              "''/proc''" EACCES "[]" "\<lparr>userEnts = Map.empty, stat_reads = []\<rparr>"
              "\<lparr>fi_Name = ''fd'', fi_IsDir = True\<rparr>" "[]" "ErrorString []"
              "\<lparr>fi_Name = ''3'', fi_IsDir = False\<rparr>" 3 "''/proc/42/fd''" "[]" None "''x''" 1]
  by (simp add: example_files example_Atoi Join_def Clean_def Split_def ENOENT_def EACCES_def Let_def)

lemma example_malformed_lines:
  "Split malformed_tcp newline =
     [''  sl  local_address rem_address   st tx_queue rx_queue tr tm->when retrnsmt   uid  timeout inode'',
      ''   0: 0100000A:D431 0200000A:1538 ZZ 00000000:00000000 00:00000000 00000000  1000        0 102'',
      ''   1: 0100000A:D431 0200000A:1538 01 00000000:00000000'',
      ''   2: 0100000G:D431 0200000A:1538 01 00000000:00000000 00:00000000 00000000  1000        0 102'',
      []]"
  by (simp add: malformed_tcp_def Split_def newline_def)

lemma example_malformed_parse:
  "parse_tcp_line ''   0: 0100000A:D431 0200000A:1538 ZZ 00000000:00000000 00:00000000 00000000  1000        0 102''
     = Some \<lparr>Laddr = \<lparr>IP = ''10.0.0.1'', Port32 = 54321\<rparr>,
             Raddr = \<lparr>IP = ''10.0.0.2'', Port32 = 5432\<rparr>, Status = 0\<rparr>"
  "parse_tcp_line ''   1: 0100000A:D431 0200000A:1538 01 00000000:00000000'' = None"
  "parse_tcp_line ''   2: 0100000G:D431 0200000A:1538 01 00000000:00000000 00:00000000 00000000  1000        0 102''
     = None"
  "parse_tcp_line [] = None"
  by (simp_all add: parse_tcp_line_def decodeAddress_def IP_String_quad example_strings eval_strings)

text \<open>
  Claim C7.  The claim: a line with too few fields, an undecodable address or an
  unparseable state field contributes no connection, and no malformed line makes
  \<open>ProcfsConnections\<close> fail.  \<open>ProcfsConnections\<close> only logs the error of the state field:
  of the three malformed lines of \<open>malformed_tcp\<close> the truncated one and the one with a bad
  address are skipped, but the line whose state is \<open>ZZ\<close> is returned as a connection in
  state 0, which the procfs builder then emits as an active flow.
\<close>

theorem unparseable_state_is_kept:
  "ParseUint ''ZZ'' 16 8 = (0, Some ErrSyntax) \<and>
   ProcfsConnections (example_host\<lparr>ReadFile := \<lambda>path. Inr malformed_tcp\<rparr>)
     = Inr [\<lparr>Laddr = \<lparr>IP = ''10.0.0.1'', Port32 = 54321\<rparr>,
             Raddr = \<lparr>IP = ''10.0.0.2'', Port32 = 5432\<rparr>, Status = 0\<rparr>] \<and>
   GetHostFlowsByProcfs (example_host\<lparr>ReadFile := \<lambda>path. Inr malformed_tcp\<rparr>)
     = Inr [((FlowActive, \<lparr>Addr = ''10.0.0.1'', Port = ''many''\<rparr>, \<lparr>Addr = ''10.0.0.2'', Port = ''5432''\<rparr>),
             \<lparr>Direction = FlowActive, Local = \<lparr>Addr = ''10.0.0.1'', Port = ''many''\<rparr>,
              Peer = \<lparr>Addr = ''10.0.0.2'', Port = ''5432''\<rparr>, Process = None, Connections = 1\<rparr>)]"
  by (simp add: GetHostFlowsByProcfs_def ProcfsConnections_def FilterByLocalListeningPorts_def
        example_malformed_lines example_malformed_parse List.map_filter_def procfs_flow_def
        UniqKey_def example_strings TCP_LISTEN_def TCP_SYN_SENT_def TCP_SYN_RECV_def Let_def
        ParseUint_def digit_val_def byte_of_def lower_def)

lemma parse_tcp_line_short: "length (Fields line) < 10 \<Longrightarrow> parse_tcp_line line = None"
  by (simp add: parse_tcp_line_def)

lemma parse_tcp_line_laddr:
  "decodeAddress (Fields line ! 1) = Inl e \<Longrightarrow> parse_tcp_line line = None"
  by (simp add: parse_tcp_line_def Let_def)

lemma parse_tcp_line_raddr:
  "decodeAddress (Fields line ! 2) = Inl e \<Longrightarrow> parse_tcp_line line = None"
  by (simp add: parse_tcp_line_def Let_def split: sum.splits)

lemma parse_tcp_line_ok:
  "length (Fields line) \<ge> 10 \<Longrightarrow> decodeAddress (Fields line ! 1) = Inr la \<Longrightarrow>
   decodeAddress (Fields line ! 2) = Inr ra \<Longrightarrow>
   parse_tcp_line line =
     Some \<lparr>Laddr = la, Raddr = ra, Status = word_of_nat (fst (ParseUint (Fields line ! 3) 16 8))\<rparr>"
  by (simp add: parse_tcp_line_def Let_def)

text \<open>
  A line of \<open>/proc/net/tcp\<close> with fewer than ten fields or with a local or remote address
  that \<open>decodeAddress\<close> rejects contributes no connection; a line with ten fields, two
  decodable addresses and a hexadecimal state is kept; and once the file has been read
  \<open>ProcfsConnections\<close> returns no error, whatever the lines.
\<close>

theorem malformed_lines_skipped:
  "(length (Fields line) < 10 \<longrightarrow> parse_tcp_line line = None) \<and>
   (decodeAddress (Fields line ! 1) = Inl e \<longrightarrow> parse_tcp_line line = None) \<and>
   (decodeAddress (Fields line ! 2) = Inl e \<longrightarrow> parse_tcp_line line = None) \<and>
   (length (Fields line) \<ge> 10 \<and> decodeAddress (Fields line ! 1) = Inr la \<and>
    decodeAddress (Fields line ! 2) = Inr ra \<and> ParseUint (Fields line ! 3) 16 8 = (n, None)
    \<longrightarrow> parse_tcp_line line = Some \<lparr>Laddr = la, Raddr = ra, Status = word_of_nat n\<rparr>) \<and>
   (ReadFile w tcpProcFilename = Inr body
    \<longrightarrow> ProcfsConnections w = Inr (List.map_filter parse_tcp_line (tl (Split body newline))))"
  using parse_tcp_line_short [of line] parse_tcp_line_laddr [of line e] parse_tcp_line_raddr [of line e]
        parse_tcp_line_ok [of line la ra]
  by (auto simp: ProcfsConnections_def Let_def)

lemma example_line_fields:
  "Fields ''   1: 0100000A:0050 0200000A:ADD4 01 00000000:00000000 00:00000000 00000000    33        0 0''
     = [''1:'', ''0100000A:0050'', ''0200000A:ADD4'', ''01'', ''00000000:00000000'', ''00:00000000'',
        ''00000000'', ''33'', ''0'', ''0'']"
  "Fields ''   1: 0100000A:D431 0200000A:1538 01 00000000:00000000''
     = [''1:'', ''0100000A:D431'', ''0200000A:1538'', ''01'', ''00000000:00000000'']"
  "Fields ''   2: 0100000G:D431 0200000A:1538 01 00000000:00000000 00:00000000 00000000  1000        0 102''
     = [''2:'', ''0100000G:D431'', ''0200000A:1538'', ''01'', ''00000000:00000000'', ''00:00000000'',
        ''00000000'', ''1000'', ''0'', ''102'']"
  by (simp_all add: Fields_def IsSpace_def range_string_ascii byte_of_def)

lemma example_decodeAddress:
  "decodeAddress ''0100000A:0050'' = Inr \<lparr>IP = ''10.0.0.1'', Port32 = 80\<rparr>"
  "decodeAddress ''0200000A:ADD4'' = Inr \<lparr>IP = ''10.0.0.2'', Port32 = 44500\<rparr>"
  "decodeAddress ''0100000G:D431'' = Inl (ErrorString ''decode error'')"
  "ParseUint ''01'' 16 8 = (1, None)"
  by (simp_all add: decodeAddress_def IP_String_quad example_strings eval_strings)

text \<open>A truncated line, a line with a bad address, and a line of the example host.\<close>

theorem malformed_lines_skipped_witness:
  "parse_tcp_line ''   1: 0100000A:D431 0200000A:1538 01 00000000:00000000'' = None \<and>
   parse_tcp_line
     ''   2: 0100000G:D431 0200000A:1538 01 00000000:00000000 00:00000000 00000000  1000        0 102''
     = None \<and>
   parse_tcp_line
     ''   1: 0100000A:0050 0200000A:ADD4 01 00000000:00000000 00:00000000 00000000    33        0 0''
     = Some \<lparr>Laddr = \<lparr>IP = ''10.0.0.1'', Port32 = 80\<rparr>,
             Raddr = \<lparr>IP = ''10.0.0.2'', Port32 = 44500\<rparr>, Status = 1\<rparr> \<and>
   ProcfsConnections example_host
     = Inr (List.map_filter parse_tcp_line (tl (Split example_tcp newline)))"
  using malformed_lines_skipped
          [of "''   1: 0100000A:D431 0200000A:1538 01 00000000:00000000''" "ErrorString []"
              "\<lparr>IP = [], Port32 = 0\<rparr>" "\<lparr>IP = [], Port32 = 0\<rparr>" 0 example_host example_tcp]
        malformed_lines_skipped
          [of "''   2: 0100000G:D431 0200000A:1538 01 00000000:00000000 00:00000000 00000000  1000        0 102''"
              "ErrorString ''decode error''"
              "\<lparr>IP = [], Port32 = 0\<rparr>" "\<lparr>IP = [], Port32 = 0\<rparr>" 0 example_host example_tcp]
        malformed_lines_skipped
          [of "''   1: 0100000A:0050 0200000A:ADD4 01 00000000:00000000 00:00000000 00000000    33        0 0''"
              "ErrorString []"
              "\<lparr>IP = ''10.0.0.1'', Port32 = 80\<rparr>" "\<lparr>IP = ''10.0.0.2'', Port32 = 44500\<rparr>" 1
              example_host example_tcp]
  by (simp add: example_line_fields example_decodeAddress example_files tcpProcFilename_def)

section \<open>The upsert engine\<close>

lemma numeric_many: "numeric ''many'' = 0"
  by (simp add: numeric_def)

lemma numeric_itoa: "n < 2 ^ 63 \<Longrightarrow> numeric (itoa n) = int n"
  using itoa_not_many [of n] by (simp add: numeric_def Atoi_itoa)

lemma find_node_append:
  "find_node (rows @ [(i, k)]) k' =
     (case find_node rows k' of Some j \<Rightarrow> Some j | None \<Rightarrow> if k = k' then Some i else None)"
  by (induction rows) auto

lemma upsert_node_found:
  "find_node (node_rows (snd (upsert_node st k))) k = Some (fst (upsert_node st k))"
  by (cases "find_node (node_rows st) k") (auto simp: upsert_node_def Let_def find_node_append)

lemma upsert_node_keeps:
  "find_node (node_rows st) k' = Some j \<Longrightarrow> find_node (node_rows (snd (upsert_node st k))) k' = Some j"
  by (cases "find_node (node_rows st) k") (auto simp: upsert_node_def Let_def find_node_append)

lemma upsert_node_executed:
  "executed (snd (upsert_node st k)) =
     executed st @ [UpsertNode (fst k) (fst (snd k)) (fst (snd (snd k))) (snd (snd (snd k)))]"
  by (cases "find_node (node_rows st) k") (auto simp: upsert_node_def Let_def)

lemma map_of_put_flow: "map_of (put_flow rows k v) k = Some v"
  by (induction rows k v rule: put_flow.induct) auto

lemma upsert_host_flow_eq:
  "upsert_host_flow now st hf =
     (let r1 = upsert_node st (local_node hf);
          r2 = upsert_node (snd r1) (peer_node hf)
      in if Direction hf = FlowActive
         then upsert_flow now (snd r2) FlowActive (fst r1) (fst r2) (Connections hf)
         else upsert_flow now (snd r2) FlowPassive (fst r2) (fst r1) (Connections hf))"
  by (simp add: upsert_host_flow_def Let_def split_def)

lemma Direction_cases: "d \<noteq> FlowActive \<Longrightarrow> d = FlowPassive"
  by (cases d) auto

lemma upsert_host_flow_trace:
  "\<exists>localID peerID.
     find_node (node_rows (upsert_host_flow now st hf)) (local_node hf) = Some localID \<and>
     find_node (node_rows (upsert_host_flow now st hf)) (peer_node hf) = Some peerID \<and>
     executed (upsert_host_flow now st hf) =
       executed st @
       [UpsertNode (Addr (Local hf)) (numeric (Port (Local hf)))
          (case Process hf of None \<Rightarrow> 0 | Some p \<Rightarrow> Pgid p)
          (case Process hf of None \<Rightarrow> [] | Some p \<Rightarrow> Name p),
        UpsertNode (Addr (Peer hf)) (numeric (Port (Peer hf))) 0 [],
        UpsertFlow (Direction hf)
          (if Direction hf = FlowActive then localID else peerID)
          (if Direction hf = FlowActive then peerID else localID)
          (Connections hf)] \<and>
     map_of (flow_rows (upsert_host_flow now st hf))
       (Direction hf,
        if Direction hf = FlowActive then localID else peerID,
        if Direction hf = FlowActive then peerID else localID) = Some (Connections hf, now)"
proof -
  let ?r1 = "upsert_node st (local_node hf)"
  let ?r2 = "upsert_node (snd ?r1) (peer_node hf)"
  have l: "find_node (node_rows (snd ?r2)) (local_node hf) = Some (fst ?r1)"
    using upsert_node_found [of st "local_node hf"] upsert_node_keeps by blast
  have p: "find_node (node_rows (snd ?r2)) (peer_node hf) = Some (fst ?r2)"
    by (rule upsert_node_found)
  have e: "executed (snd ?r2) =
       executed st @
       [UpsertNode (Addr (Local hf)) (numeric (Port (Local hf)))
          (case Process hf of None \<Rightarrow> 0 | Some p \<Rightarrow> Pgid p)
          (case Process hf of None \<Rightarrow> [] | Some p \<Rightarrow> Name p),
        UpsertNode (Addr (Peer hf)) (numeric (Port (Peer hf))) 0 []]"
    by (simp add: upsert_node_executed local_node_def peer_node_def)
  show ?thesis
    using l p e Direction_cases [of "Direction hf"]
    by (auto simp: upsert_host_flow_eq Let_def upsert_flow_def map_of_put_flow
          intro!: exI [of _ "fst ?r1"] exI [of _ "fst ?r2"])
qed

lemma InsertOrUpdateHostFlows_foldl:
  "InsertOrUpdateHostFlows now st hfs = foldl (upsert_host_flow now) st hfs"
  by (induction hfs arbitrary: st) auto

text \<open>
  Claim C2 (against the engine modelled from the spec).  The engine handles the flows one
  after the other; for each flow it executes upsert-node with
  \<open>(local.addr, numeric(local.port), process.pgid or 0, process.name or "")\<close>, then
  upsert-node with \<open>(peer.addr, numeric(peer.port), 0, "")\<close>, then upsert-flow with the
  direction and connection count of the flow and with \<open>src\<close> the local node and \<open>dst\<close> the
  peer node when the flow is active, \<open>src\<close> the peer node and \<open>dst\<close> the local node when it
  is passive; the identifiers are those of the rows of the two nodes, and the row of the
  flow is in the store afterwards.  \<open>numeric\<close> reads "many" as 0 and a decimal port as its
  number.
\<close>

theorem upsert_arguments:
  "numeric ''many'' = 0 \<and>
   (n < 65536 \<longrightarrow> numeric (itoa n) = int n) \<and>
   InsertOrUpdateHostFlows now st hfs = foldl (upsert_host_flow now) st hfs \<and>
   (\<exists>localID peerID.
     find_node (node_rows (upsert_host_flow now st hf)) (local_node hf) = Some localID \<and>
     find_node (node_rows (upsert_host_flow now st hf)) (peer_node hf) = Some peerID \<and>
     executed (upsert_host_flow now st hf) =
       executed st @
       [UpsertNode (Addr (Local hf)) (numeric (Port (Local hf)))
          (case Process hf of None \<Rightarrow> 0 | Some p \<Rightarrow> Pgid p)
          (case Process hf of None \<Rightarrow> [] | Some p \<Rightarrow> Name p),
        UpsertNode (Addr (Peer hf)) (numeric (Port (Peer hf))) 0 [],
        UpsertFlow (Direction hf)
          (if Direction hf = FlowActive then localID else peerID)
          (if Direction hf = FlowActive then peerID else localID)
          (Connections hf)] \<and>
     map_of (flow_rows (upsert_host_flow now st hf))
       (Direction hf,
        if Direction hf = FlowActive then localID else peerID,
        if Direction hf = FlowActive then peerID else localID) = Some (Connections hf, now))"
  using numeric_many numeric_itoa [of n] InsertOrUpdateHostFlows_foldl [of now st hfs]
        upsert_host_flow_trace [of now st hf]
  by simp

lemma test_numeric: "numeric ''5432'' = 5432" "numeric ''80'' = 80" "itoa 5432 = ''5432''"
  by (simp_all add: numeric_def Atoi_def ParseInt64_def ParseUint_def digit_val_def byte_of_def
        lower_def itoa.simps digit_char_def)

text \<open>
  The statements the tests \<open>TestInsertOrUpdateHostFlows\<close> and
  \<open>TestInsertOrUpdateHostFlows_empty_process\<close> expect, on a fresh store.
\<close>

theorem upsert_arguments_witness:
  "(5432::nat) < 65536 \<and> numeric ''5432'' = 5432 \<and>
   executed (InsertOrUpdateHostFlows 0 empty_store test_flows) =
     [UpsertNode ''10.0.10.1'' 0 1001 ''python'', UpsertNode ''10.0.10.2'' 5432 0 [],
      UpsertFlow FlowActive 1 2 10,
      UpsertNode ''10.0.10.1'' 80 1002 ''nginx'', UpsertNode ''10.0.10.2'' 0 0 [],
      UpsertFlow FlowPassive 4 3 12] \<and>
   executed (upsert_host_flow 0 empty_store test_flow_empty_process) =
     [UpsertNode ''10.0.10.1'' 0 0 [], UpsertNode ''10.0.10.2'' 5432 0 [],
      UpsertFlow FlowActive 1 2 10]"
  using upsert_arguments [of 5432 0 empty_store test_flows test_flow_empty_process]
  by (simp add: test_numeric test_flows_def test_flow_empty_process_def empty_store_def
        upsert_host_flow_def upsert_node_def upsert_flow_def local_node_def peer_node_def
        numeric_many Let_def)

end
